theory Spec2Isabelle
  imports Complex_Main
begin

section \<open>Errors and fallible computations\<close>

text \<open>
  The module under study (\<^verbatim>\<open>ppdet/modeling/backbones/mixunet.py\<close>) signals every
  failure by raising.  An exception is a value of type \<open>error\<close>; a computation that may
  raise returns \<open>error + 'a\<close> with \<open>Inl\<close> for the exception.  The assertion messages are
  the ones of the source.
\<close>

datatype error =
    AssertionError string
  | ShapeError
  | ZeroDivisionError
  | IndexError
  | UnboundLocalError
  | TypeError

definition and_then :: "error + 'a \<Rightarrow> ('a \<Rightarrow> error + 'b) \<Rightarrow> error + 'b" where
  "and_then m f = (case m of Inl e \<Rightarrow> Inl e | Inr v \<Rightarrow> f v)"

text \<open>Python's \<^verbatim>\<open>a // b\<close> and \<^verbatim>\<open>a % b\<close> on non-negative integers.\<close>

definition floordiv :: "nat \<Rightarrow> nat \<Rightarrow> error + nat" where
  "floordiv a b = (if b = 0 then Inl ZeroDivisionError else Inr (a div b))"

definition pymod :: "nat \<Rightarrow> nat \<Rightarrow> error + nat" where
  "pymod a b = (if b = 0 then Inl ZeroDivisionError else Inr (a mod b))"


section \<open>Tensors: shape and row-major data\<close>

text \<open>
  A tensor is its list of extents together with its elements in row-major order, which
  is how the framework's \<^verbatim>\<open>reshape\<close> and \<^verbatim>\<open>transpose\<close> see it.  The element type is
  left open: the windowing functions never look at an element.
\<close>

record 'a tensor =
  shape :: "nat list"
  data :: "'a list"

definition wf_tensor :: "'a tensor \<Rightarrow> bool" where
  "wf_tensor t \<longleftrightarrow> length (data t) = prod_list (shape t)"

text \<open>
  The target of a \<^verbatim>\<open>reshape\<close> is a list of Python integers.  The framework reserves two
  values: \<^verbatim>\<open>0\<close> copies the extent of the input at the same position, and a single
  \<^verbatim>\<open>-1\<close> is inferred from the number of elements.  \<open>copy_dims\<close> resolves the first,
  \<open>infer_shape\<close> the second, and checks that the element count is kept.
\<close>

fun copy_dims :: "nat list \<Rightarrow> int list \<Rightarrow> error + int list" where
  "copy_dims s [] = Inr []"
| "copy_dims s (d # ds) =
     (if d = 0 then
        (case s of
           [] \<Rightarrow> Inl ShapeError
         | a # s' \<Rightarrow> and_then (copy_dims s' ds) (\<lambda>r. Inr (int a # r)))
      else and_then (copy_dims (tl s) ds) (\<lambda>r. Inr (d # r)))"

definition infer_shape :: "nat list \<Rightarrow> int list \<Rightarrow> error + nat list" where
  "infer_shape s tgt =
     and_then (copy_dims s tgt) (\<lambda>t1.
       if list_ex (\<lambda>d. d < - 1) t1 \<or> 1 < count_list t1 (- 1) then Inl ShapeError
       else
         let known = prod_list (filter (\<lambda>d. d \<noteq> - 1) t1);
             total = int (prod_list s)
         in if list_ex (\<lambda>d. d = - 1) t1 then
              (if known = 0 \<or> total mod known \<noteq> 0 then Inl ShapeError
               else Inr (map (\<lambda>d. nat (if d = - 1 then total div known else d)) t1))
            else if known = total then Inr (map nat t1)
            else Inl ShapeError)"

definition tensor_reshape :: "'a tensor \<Rightarrow> int list \<Rightarrow> error + 'a tensor" where
  "tensor_reshape x tgt =
     and_then (infer_shape (shape x) tgt) (\<lambda>s. Inr (x\<lparr>shape := s\<rparr>))"

text \<open>Row-major offset of a multi-index, and the multi-index of an offset.\<close>

fun ravel :: "nat list \<Rightarrow> nat list \<Rightarrow> nat" where
  "ravel (d # ds) (i # is) = i * prod_list ds + ravel ds is"
| "ravel _ _ = 0"

fun unravel :: "nat list \<Rightarrow> nat \<Rightarrow> nat list" where
  "unravel [] n = []"
| "unravel (d # ds) n = (n div prod_list ds) # unravel ds (n mod prod_list ds)"

fun valid_index :: "nat list \<Rightarrow> nat list \<Rightarrow> bool" where
  "valid_index [] [] = True"
| "valid_index (d # ds) (i # is) = (i < d \<and> valid_index ds is)"
| "valid_index _ _ = False"

text \<open>
  \<^verbatim>\<open>x.transpose(perm)\<close>: axis \<open>k\<close> of the result is axis \<open>perm ! k\<close> of the input, so the
  element of the result at multi-index \<open>j\<close> is the element of the input at the
  multi-index \<open>i\<close> with \<open>i ! (perm ! k) = j ! k\<close>.
\<close>

definition is_perm :: "nat list \<Rightarrow> nat \<Rightarrow> bool" where
  "is_perm perm n \<longleftrightarrow> length perm = n \<and> distinct perm \<and> list_all (\<lambda>k. k < n) perm"

definition position_of :: "nat list \<Rightarrow> nat \<Rightarrow> nat" where
  "position_of perm m = length (takeWhile (\<lambda>k. k \<noteq> m) perm)"

definition source_index :: "nat list \<Rightarrow> nat list \<Rightarrow> nat list" where
  "source_index perm j = map (\<lambda>m. j ! position_of perm m) [0..<length perm]"

definition transpose_shape :: "nat list \<Rightarrow> nat list \<Rightarrow> error + nat list" where
  "transpose_shape s perm =
     (if is_perm perm (length s) then Inr (map (\<lambda>k. s ! k) perm) else Inl ShapeError)"

definition tensor_transpose :: "'a tensor \<Rightarrow> nat list \<Rightarrow> error + 'a tensor" where
  "tensor_transpose x perm =
     and_then (transpose_shape (shape x) perm) (\<lambda>s'.
       Inr \<lparr>shape = s',
            data = map (\<lambda>n. data x ! ravel (shape x) (source_index perm (unravel s' n)))
                     [0..<prod_list s']\<rparr>)"


section \<open>Window partition and reverse\<close>

text \<open>
  \<^verbatim>\<open>window_partition2(x, window_size)\<close> and
  \<^verbatim>\<open>window_reverse2(windows, window_size, H, W, C)\<close>, line by line.
\<close>

definition window_partition2 :: "'a tensor \<Rightarrow> nat \<times> nat \<Rightarrow> error + 'a tensor" where
  "window_partition2 x window_size =
     (case shape x of
        [B, C, H, W] \<Rightarrow>
          and_then (floordiv H (fst window_size)) (\<lambda>nh.
          and_then (floordiv W (snd window_size)) (\<lambda>nw.
          and_then (tensor_reshape x
                      [int B, int C, int nh, int (fst window_size),
                       int nw, int (snd window_size)]) (\<lambda>x1.
          and_then (tensor_transpose x1 [0, 2, 4, 3, 5, 1]) (\<lambda>x2.
          tensor_reshape x2 [- 1, int (fst window_size * snd window_size), int C]))))
      | _ \<Rightarrow> Inl ShapeError)"

definition window_reverse2 ::
  "'a tensor \<Rightarrow> nat \<times> nat \<Rightarrow> nat \<Rightarrow> nat \<Rightarrow> nat \<Rightarrow> error + 'a tensor" where
  "window_reverse2 windows window_size H W C =
     and_then (floordiv H (fst window_size)) (\<lambda>nh.
     and_then (floordiv W (snd window_size)) (\<lambda>nw.
     and_then (tensor_reshape windows
                 [- 1, int nh, int nw, int (fst window_size),
                  int (snd window_size), int C]) (\<lambda>x1.
     and_then (tensor_transpose x1 [0, 5, 1, 3, 2, 4]) (\<lambda>x2.
     tensor_reshape x2 [- 1, int C, int H, int W]))))"



section \<open>Relative position index\<close>

text \<open>
  \<^verbatim>\<open>MixingAttention._get_rel_pos\<close> and the \<^verbatim>\<open>relative_coords.sum(-1)\<close> of the constructor,
  on Python integers.  \<^verbatim>\<open>paddle.arange(n)\<close> is \<open>[0, \<dots>, n - 1]\<close>; \<^verbatim>\<open>meshgrid\<close> of the
  two ranges gives the row coordinate and the column coordinate of every window cell;
  flattening from axis 1 lists the cells row by row.  The subtraction of the two
  unsqueezed copies broadcasts to all pairs of cells (\<open>outer_diff\<close>), and the transpose
  \<^verbatim>\<open>[1, 2, 0]\<close> puts the two coordinate differences of a pair side by side, here as a pair.
\<close>

definition arange :: "nat \<Rightarrow> int list" where
  "arange n = map int [0..<n]"

definition meshgrid :: "int list \<Rightarrow> int list \<Rightarrow> int list list \<times> int list list" where
  "meshgrid hs ws = (map (\<lambda>h. map (\<lambda>w. h) ws) hs, map (\<lambda>h. map (\<lambda>w. w) ws) hs)"

definition outer_diff :: "int list \<Rightarrow> int list list" where
  "outer_diff v = map (\<lambda>a. map (\<lambda>b. a - b) v) v"

definition get_rel_pos :: "nat \<times> nat \<Rightarrow> (int \<times> int) list list" where
  "get_rel_pos window_size =
     (let coords_h = arange (fst window_size);
          coords_w = arange (snd window_size);
          coords = meshgrid coords_h coords_w;
          coords_flatten = (concat (fst coords), concat (snd coords));
          relative_coords =
            map2 zip (outer_diff (fst coords_flatten)) (outer_diff (snd coords_flatten));
          relative_coords =
            map (map (\<lambda>(a, b). (a + (int (fst window_size) - 1), b))) relative_coords;
          relative_coords =
            map (map (\<lambda>(a, b). (a, b + (int (snd window_size) - 1)))) relative_coords;
          relative_coords =
            map (map (\<lambda>(a, b). (a * (2 * int (snd window_size) - 1), b))) relative_coords
      in relative_coords)"

definition relative_position_index :: "nat \<times> nat \<Rightarrow> int list list" where
  "relative_position_index window_size =
     map (map (\<lambda>(a, b). a + b)) (get_rel_pos window_size)"

text \<open>The number of rows of the relative position bias table.\<close>

definition bias_table_rows :: "nat \<times> nat \<Rightarrow> int" where
  "bias_table_rows window_size =
     (2 * int (fst window_size) - 1) * (2 * int (snd window_size) - 1)"


section \<open>Shapes of the framework's operations\<close>

text \<open>
  The layers of the network compute on floating-point values.  Except for
  \<^verbatim>\<open>PatchExpand\<close>, whose values are modelled further down, the values are left out:
  what the module under study decides is the shape of every tensor, and there each
  operation of the tensor framework is a partial function on lists of extents: it
  returns the shape of its result, or raises when the shapes do not fit.  Parameter
  extents (features, channels, kernel, stride) must be positive.
\<close>

definition Linear :: "nat \<Rightarrow> nat \<Rightarrow> nat list \<Rightarrow> error + nat list" where
  "Linear in_features out_features s =
     (if s \<noteq> [] \<and> last s = in_features \<and> 0 < in_features \<and> 0 < out_features
      then Inr (butlast s @ [out_features]) else Inl ShapeError)"

definition LayerNorm :: "nat \<Rightarrow> nat list \<Rightarrow> error + nat list" where
  "LayerNorm normalized_shape s =
     (if s \<noteq> [] \<and> last s = normalized_shape \<and> 0 < normalized_shape
      then Inr s else Inl ShapeError)"

definition BatchNorm :: "nat \<Rightarrow> nat list \<Rightarrow> error + nat list" where
  "BatchNorm num_channels s =
     (case s of
        [B, C, H, W] \<Rightarrow> if C = num_channels \<and> 0 < num_channels then Inr s else Inl ShapeError
      | _ \<Rightarrow> Inl ShapeError)"

definition conv_out :: "nat \<Rightarrow> nat \<Rightarrow> nat \<Rightarrow> nat \<Rightarrow> error + nat" where
  "conv_out n kernel_size stride padding =
     (if kernel_size = 0 \<or> stride = 0 \<or> n + 2 * padding < kernel_size then Inl ShapeError
      else Inr ((n + 2 * padding - kernel_size) div stride + 1))"

definition Conv2D ::
  "nat \<Rightarrow> nat \<Rightarrow> nat \<Rightarrow> nat \<Rightarrow> nat \<Rightarrow> nat \<Rightarrow> nat list \<Rightarrow> error + nat list" where
  "Conv2D in_channels out_channels kernel_size stride padding groups s =
     (case s of
        [B, C, H, W] \<Rightarrow>
          if C \<noteq> in_channels \<or> in_channels = 0 \<or> out_channels = 0 \<or> groups = 0
             \<or> in_channels mod groups \<noteq> 0 \<or> out_channels mod groups \<noteq> 0
          then Inl ShapeError
          else
            and_then (conv_out H kernel_size stride padding) (\<lambda>H'.
            and_then (conv_out W kernel_size stride padding) (\<lambda>W'.
            Inr [B, out_channels, H', W']))
      | _ \<Rightarrow> Inl ShapeError)"

text \<open>Activations, softmax, dropout, stochastic depth and the identity keep the shape.\<close>

definition elementwise :: "nat list \<Rightarrow> error + nat list" where
  "elementwise s = Inr s"

definition adaptive_avg_pool2d :: "nat list \<Rightarrow> nat \<Rightarrow> error + nat list" where
  "adaptive_avg_pool2d s output_size =
     (case s of [B, C, H, W] \<Rightarrow> Inr [B, C, output_size, output_size] | _ \<Rightarrow> Inl ShapeError)"

text \<open>
  Broadcasting of a binary elementwise operation: the shapes are aligned at their last
  axis, and two extents fit when they are equal or one of them is 1.
\<close>

fun broadcast_rev :: "nat list \<Rightarrow> nat list \<Rightarrow> error + nat list" where
  "broadcast_rev [] bs = Inr bs"
| "broadcast_rev (a # as) [] = Inr (a # as)"
| "broadcast_rev (a # as) (b # bs) =
     (if a = b \<or> b = 1 then and_then (broadcast_rev as bs) (\<lambda>r. Inr (a # r))
      else if a = 1 then and_then (broadcast_rev as bs) (\<lambda>r. Inr (b # r))
      else Inl ShapeError)"

definition broadcast :: "nat list \<Rightarrow> nat list \<Rightarrow> error + nat list" where
  "broadcast a b = and_then (broadcast_rev (rev a) (rev b)) (\<lambda>r. Inr (rev r))"

text \<open>An in-place operation (\<^verbatim>\<open>out += identity\<close>) must keep the shape of its target.\<close>

definition inplace :: "nat list \<Rightarrow> nat list \<Rightarrow> error + nat list" where
  "inplace a b =
     and_then (broadcast a b) (\<lambda>r. if r = a then Inr a else Inl ShapeError)"

text \<open>\<^verbatim>\<open>paddle.mm\<close>: a matrix product over the last two axes, batched over the others.\<close>

definition mm :: "nat list \<Rightarrow> nat list \<Rightarrow> error + nat list" where
  "mm a b =
     (if length a < 2 \<or> length b < 2 then Inl ShapeError
      else if last a \<noteq> last (butlast b) then Inl ShapeError
      else
        and_then (broadcast (butlast (butlast a)) (butlast (butlast b))) (\<lambda>batch.
        Inr (batch @ [last (butlast a), last b])))"

definition concat_shapes :: "nat list list \<Rightarrow> nat \<Rightarrow> error + nat list" where
  "concat_shapes ss axis =
     (case ss of
        [] \<Rightarrow> Inl ShapeError
      | s # rest \<Rightarrow>
          if axis < length s
             \<and> list_all (\<lambda>t. length t = length s \<and> take axis t = take axis s
                              \<and> drop (Suc axis) t = drop (Suc axis) s) rest
          then Inr (s[axis := sum_list (map (\<lambda>t. t ! axis) ss)])
          else Inl ShapeError)"

text \<open>\<^verbatim>\<open>x[i]\<close> on the first axis, \<^verbatim>\<open>unsqueeze\<close>, \<^verbatim>\<open>flatten(start_axis)\<close>.\<close>

definition select0 :: "nat list \<Rightarrow> nat \<Rightarrow> error + nat list" where
  "select0 s i =
     (case s of [] \<Rightarrow> Inl IndexError | d # r \<Rightarrow> if i < d then Inr r else Inl IndexError)"

definition unsqueeze :: "nat list \<Rightarrow> nat \<Rightarrow> error + nat list" where
  "unsqueeze s axis =
     (if axis \<le> length s then Inr (take axis s @ [1] @ drop axis s) else Inl ShapeError)"

definition flatten_from :: "nat list \<Rightarrow> nat \<Rightarrow> error + nat list" where
  "flatten_from s start_axis =
     (if start_axis < length s then Inr (take start_axis s @ [prod_list (drop start_axis s)])
      else Inl ShapeError)"

text \<open>
  \<^verbatim>\<open>index_select(table, index)\<close> on axis 0 picks one row of the table per index; the
  values of the indices, which must be rows of the table, are the subject of
  \<open>relative_position_index\<close> above.
\<close>

definition index_select :: "nat list \<Rightarrow> nat list \<Rightarrow> error + nat list" where
  "index_select table index =
     (case (table, index) of
        (rows # rest, [n]) \<Rightarrow> Inr (n # rest)
      | _ \<Rightarrow> Inl ShapeError)"

text \<open>
  \<^verbatim>\<open>F.pad\<close> in constant mode.  When the list has two entries per axis of the input, the
  entries are (before, after) for each axis from the first to the last.  When a rank-4
  input gets four entries, they are (left, right, top, bottom) of the last two axes.
\<close>

fun pad_axes :: "nat list \<Rightarrow> nat list \<Rightarrow> nat list" where
  "pad_axes (d # ds) (lo # hi # ps) = (lo + d + hi) # pad_axes ds ps"
| "pad_axes _ _ = []"

definition F_pad :: "nat list \<Rightarrow> nat list \<Rightarrow> error + nat list" where
  "F_pad s pad =
     (if length pad = 2 * length s then Inr (pad_axes s pad)
      else
        (case (s, pad) of
           ([B, C, H, W], [pad_left, pad_right, pad_top, pad_bottom]) \<Rightarrow>
             Inr [B, C, pad_top + H + pad_bottom, pad_left + W + pad_right]
         | _ \<Rightarrow> Inl ShapeError))"

text \<open>Strided slices \<^verbatim>\<open>x[..., a::2, b::2]\<close> of the last two axes, \<open>a\<close> and \<open>b\<close> in \<open>{0, 1}\<close>.\<close>

definition slice2 :: "nat list \<Rightarrow> nat \<Rightarrow> nat \<Rightarrow> error + nat list" where
  "slice2 s a b =
     (if length s < 2 then Inl IndexError
      else Inr (butlast (butlast s)
                @ [(last (butlast s) + 1 - a) div 2, (last s + 1 - b) div 2]))"

text \<open>The crop \<^verbatim>\<open>x[:, :H, :W, :]\<close>.\<close>

definition crop_hw :: "nat list \<Rightarrow> nat \<Rightarrow> nat \<Rightarrow> error + nat list" where
  "crop_hw s H W =
     (case s of [B, Hp, Wp, C] \<Rightarrow> Inr [B, min H Hp, min W Wp, C] | _ \<Rightarrow> Inl IndexError)"


section \<open>The windowing functions on shapes\<close>

text \<open>
  The same two functions as above, on the shape alone: every \<^verbatim>\<open>reshape\<close> is an
  \<open>infer_shape\<close> and every \<^verbatim>\<open>transpose\<close> a \<open>transpose_shape\<close>.
\<close>

definition window_partition2_shape :: "nat list \<Rightarrow> nat \<times> nat \<Rightarrow> error + nat list" where
  "window_partition2_shape s window_size =
     (case s of
        [B, C, H, W] \<Rightarrow>
          and_then (floordiv H (fst window_size)) (\<lambda>nh.
          and_then (floordiv W (snd window_size)) (\<lambda>nw.
          and_then (infer_shape s
                      [int B, int C, int nh, int (fst window_size),
                       int nw, int (snd window_size)]) (\<lambda>s1.
          and_then (transpose_shape s1 [0, 2, 4, 3, 5, 1]) (\<lambda>s2.
          infer_shape s2 [- 1, int (fst window_size * snd window_size), int C]))))
      | _ \<Rightarrow> Inl ShapeError)"

definition window_reverse2_shape ::
  "nat list \<Rightarrow> nat \<times> nat \<Rightarrow> nat \<Rightarrow> nat \<Rightarrow> nat \<Rightarrow> error + nat list" where
  "window_reverse2_shape windows window_size H W C =
     and_then (floordiv H (fst window_size)) (\<lambda>nh.
     and_then (floordiv W (snd window_size)) (\<lambda>nw.
     and_then (infer_shape windows
                 [- 1, int nh, int nw, int (fst window_size),
                  int (snd window_size), int C]) (\<lambda>s1.
     and_then (transpose_shape s1 [0, 5, 1, 3, 2, 4]) (\<lambda>s2.
     infer_shape s2 [- 1, int C, int H, int W]))))"

text \<open>
  Modelled from the spec: \<^verbatim>\<open>window_partition\<close> and \<^verbatim>\<open>window_reverse\<close> are imported from
  \<^verbatim>\<open>swin_transformer.py\<close>, which is not among the sources.  They are the channel-last
  counterparts of the two functions above: the partition splits a \<open>(B, H, W, C)\<close> map into
  non-overlapping \<open>window_size \<times> window_size\<close> tiles and returns
  \<open>(B \<sqdot> H/ws \<sqdot> W/ws, ws, ws, C)\<close>, and the reverse is its inverse given the same \<open>H\<close>, \<open>W\<close>.
\<close>

definition window_partition :: "nat list \<Rightarrow> nat \<Rightarrow> error + nat list" where
  "window_partition s window_size =
     (case s of
        [B, H, W, C] \<Rightarrow>
          and_then (floordiv H window_size) (\<lambda>nh.
          and_then (floordiv W window_size) (\<lambda>nw.
          and_then (infer_shape s
                      [int B, int nh, int window_size, int nw, int window_size, int C]) (\<lambda>s1.
          and_then (transpose_shape s1 [0, 1, 3, 2, 4, 5]) (\<lambda>s2.
          infer_shape s2 [- 1, int window_size, int window_size, int C]))))
      | _ \<Rightarrow> Inl ShapeError)"

definition window_reverse :: "nat list \<Rightarrow> nat \<Rightarrow> nat \<Rightarrow> nat \<Rightarrow> error + nat list" where
  "window_reverse windows window_size H W =
     (case windows of
        [n, wh, ww, C] \<Rightarrow>
          and_then (floordiv H window_size) (\<lambda>nh.
          and_then (floordiv W window_size) (\<lambda>nw.
          and_then (infer_shape windows
                      [- 1, int nh, int nw, int window_size, int window_size, int C]) (\<lambda>s1.
          and_then (transpose_shape s1 [0, 1, 3, 2, 4, 5]) (\<lambda>s2.
          infer_shape s2 [- 1, int H, int W, int C]))))
      | _ \<Rightarrow> Inl ShapeError)"


section \<open>MixingAttention\<close>

record MixingAttention =
  ma_dim :: nat
  ma_window_size :: "nat \<times> nat"
  ma_dwconv_kernel_size :: nat
  ma_num_heads :: nat

text \<open>
  The constructor.  Of its statements two can raise by themselves:
  \<^verbatim>\<open>head_dim = attn_dim // num_heads\<close> and
  \<^verbatim>\<open>self.scale = qk_scale or head_dim ** -0.5\<close>, where the power is only evaluated
  when \<^verbatim>\<open>qk_scale\<close> is \<^verbatim>\<open>None\<close> or zero and raises on a zero base.  The type of the
  scale is any number type \<open>'f\<close>: only whether it is zero matters here.  The argument
  \<^verbatim>\<open>dim\<close> of the source is written \<open>dim'\<close> throughout, \<open>dim\<close> being the dimension of a
  vector space in the logic.
\<close>

definition MixingAttention_init ::
  "nat \<Rightarrow> nat \<times> nat \<Rightarrow> nat \<Rightarrow> nat \<Rightarrow> 'f::zero option \<Rightarrow> error + MixingAttention" where
  "MixingAttention_init dim' window_size dwconv_kernel_size num_heads qk_scale =
     (let attn_dim = dim' div 2 in
      and_then (floordiv attn_dim num_heads) (\<lambda>head_dim.
      if (qk_scale = None \<or> qk_scale = Some 0) \<and> head_dim = 0 then Inl ZeroDivisionError
      else Inr \<lparr>ma_dim = dim', ma_window_size = window_size,
                ma_dwconv_kernel_size = dwconv_kernel_size, ma_num_heads = num_heads\<rparr>))"

text \<open>The three \<^verbatim>\<open>nn.Sequential\<close> members.\<close>

definition dwconv3x3 :: "MixingAttention \<Rightarrow> nat list \<Rightarrow> error + nat list" where
  "dwconv3x3 m s =
     and_then (Conv2D (ma_dim m) (ma_dim m) (ma_dwconv_kernel_size m) 1
                 (ma_dwconv_kernel_size m div 2) (ma_dim m) s) (\<lambda>s.
     and_then (BatchNorm (ma_dim m) s) elementwise)"

definition channel_interaction :: "MixingAttention \<Rightarrow> nat list \<Rightarrow> error + nat list" where
  "channel_interaction m s =
     and_then (Conv2D (ma_dim m) (ma_dim m div 8) 1 1 0 1 s) (\<lambda>s.
     and_then (BatchNorm (ma_dim m div 8) s) (\<lambda>s.
     and_then (elementwise s) (\<lambda>s.
     Conv2D (ma_dim m div 8) (ma_dim m div 2) 1 1 0 1 s)))"

definition spatial_interaction :: "MixingAttention \<Rightarrow> nat list \<Rightarrow> error + nat list" where
  "spatial_interaction m s =
     and_then (Conv2D (ma_dim m div 2) (ma_dim m div 16) 1 1 0 1 s) (\<lambda>s.
     and_then (BatchNorm (ma_dim m div 16) s) (\<lambda>s.
     and_then (elementwise s) (\<lambda>s.
     Conv2D (ma_dim m div 16) 1 1 1 0 1 s)))"

definition dim0 :: "nat list \<Rightarrow> error + nat" where
  "dim0 s = (case s of [] \<Rightarrow> Inl IndexError | d # _ \<Rightarrow> Inr d)"

text \<open>
  The relative position bias added to the attention scores: the rows of the bias table
  selected by the flattened index table, as \<open>(1, nH, Wh*Ww, Wh*Ww)\<close>.
\<close>

definition relative_position_bias :: "MixingAttention \<Rightarrow> error + nat list" where
  "relative_position_bias m =
     (let area = fst (ma_window_size m) * snd (ma_window_size m) in
      and_then (infer_shape [area, area] [- 1]) (\<lambda>index.
      and_then (index_select [nat (bias_table_rows (ma_window_size m)), ma_num_heads m] index) (\<lambda>b.
      and_then (infer_shape b [int area, int area, - 1]) (\<lambda>b.
      and_then (transpose_shape b [2, 0, 1]) (\<lambda>b.
      unsqueeze b 0)))))"

text \<open>The mask of the shifted-window variants, added before the softmax.\<close>

definition add_mask ::
  "MixingAttention \<Rightarrow> nat list \<Rightarrow> nat \<Rightarrow> nat \<Rightarrow> nat list option \<Rightarrow> error + nat list" where
  "add_mask m attn Bw N mask' =
     (case mask' of
        None \<Rightarrow> elementwise attn
      | Some mask_shape \<Rightarrow>
          and_then (dim0 mask_shape) (\<lambda>nW.
          and_then (floordiv Bw nW) (\<lambda>q.
          and_then (infer_shape attn [int q, int nW, int (ma_num_heads m), int N, int N]) (\<lambda>attn.
          and_then (unsqueeze mask_shape 1) (\<lambda>m1.
          and_then (unsqueeze m1 0) (\<lambda>m2.
          and_then (broadcast attn m2) (\<lambda>attn.
          and_then (infer_shape attn [- 1, int (ma_num_heads m), int N, int N]) elementwise)))))))"

text \<open>
  The attention branch of \<^verbatim>\<open>forward\<close> (from \<^verbatim>\<open>B_, N, C = x_atten.shape\<close>, here \<open>Bw\<close>, to the
  reshape of the attention output to \<open>(Bw, N, C)\<close>).
\<close>

definition attention_branch ::
  "MixingAttention \<Rightarrow> nat list \<Rightarrow> nat list \<Rightarrow> nat list option \<Rightarrow> error + nat list" where
  "attention_branch m x_atten channel_inter mask' =
     (case x_atten of
        [Bw, N, C] \<Rightarrow>
          and_then (floordiv C (ma_num_heads m)) (\<lambda>head_dim.
          and_then (Linear (ma_dim m div 2) (ma_dim m div 2 * 3) x_atten) (\<lambda>qkv.
          and_then (infer_shape qkv
                      [int Bw, int N, 3, int (ma_num_heads m), int head_dim]) (\<lambda>qkv.
          and_then (transpose_shape qkv [2, 0, 3, 1, 4]) (\<lambda>qkv.
          and_then (select0 qkv 0) (\<lambda>q.
          and_then (select0 qkv 1) (\<lambda>k.
          and_then (select0 qkv 2) (\<lambda>v.
          and_then (elementwise channel_inter) (\<lambda>gate.
          and_then (infer_shape gate
                      [- 1, 1, int (ma_num_heads m), 1, int head_dim]) (\<lambda>x_cnn2v.
          and_then (dim0 x_cnn2v) (\<lambda>b.
          and_then (infer_shape v
                      [int b, - 1, int (ma_num_heads m), int N, int head_dim]) (\<lambda>v.
          and_then (broadcast v x_cnn2v) (\<lambda>v.
          and_then (infer_shape v [- 1, int (ma_num_heads m), int N, int head_dim]) (\<lambda>v.
          and_then (elementwise q) (\<lambda>q.
          and_then (transpose_shape k [0, 1, 3, 2]) (\<lambda>kT.
          and_then (mm q kT) (\<lambda>attn.
          and_then (relative_position_bias m) (\<lambda>bias.
          and_then (broadcast attn bias) (\<lambda>attn.
          and_then (add_mask m attn Bw N mask') (\<lambda>attn.
          and_then (elementwise attn) (\<lambda>attn.
          and_then (mm attn v) (\<lambda>out.
          and_then (transpose_shape out [0, 2, 1, 3]) (\<lambda>out.
          infer_shape out [int Bw, int N, int C]))))))))))))))))))))))
      | _ \<Rightarrow> Inl ShapeError)"

text \<open>
  \<^verbatim>\<open>forward(x, H, W, mask)\<close>.  The channel count \<open>C\<close> of the second
  \<^verbatim>\<open>window_reverse2\<close> is the last extent of \<open>x_atten\<close>, whose shape the attention branch
  leaves at \<open>(B_, N, C)\<close>.
\<close>

definition MixingAttention_forward ::
  "MixingAttention \<Rightarrow> nat list \<Rightarrow> nat \<Rightarrow> nat \<Rightarrow> nat list option \<Rightarrow> error + nat list" where
  "MixingAttention_forward m x H W mask' =
     and_then (and_then (Linear (ma_dim m) (ma_dim m div 2) x) (LayerNorm (ma_dim m div 2))) (\<lambda>x_atten.
     and_then (and_then (Linear (ma_dim m) (ma_dim m) x) (LayerNorm (ma_dim m))) (\<lambda>x_cnn.
     and_then (window_reverse2_shape x_cnn (ma_window_size m) H W (last x_cnn)) (\<lambda>x_cnn.
     and_then (dwconv3x3 m x_cnn) (\<lambda>x_cnn.
     and_then (and_then (adaptive_avg_pool2d x_cnn 1) (channel_interaction m)) (\<lambda>channel_inter.
     and_then (Conv2D (ma_dim m) (ma_dim m div 2) 1 1 0 1 x_cnn) (\<lambda>x_cnn.
     and_then (attention_branch m x_atten channel_inter mask') (\<lambda>x_atten.
     and_then (window_reverse2_shape x_atten (ma_window_size m) H W (last x_atten)) (\<lambda>x_spatial.
     and_then (spatial_interaction m x_spatial) (\<lambda>spatial_inter.
     and_then (and_then (elementwise spatial_inter) (\<lambda>gate. broadcast gate x_cnn)) (\<lambda>x_cnn.
     and_then (BatchNorm (ma_dim m div 2) x_cnn) (\<lambda>x_cnn.
     and_then (window_partition2_shape x_cnn (ma_window_size m)) (\<lambda>x_cnn.
     and_then (LayerNorm (ma_dim m div 2) x_atten) (\<lambda>x_atten.
     and_then (concat_shapes [x_atten, x_cnn] (length x_atten - 1)) (\<lambda>x.
     and_then (Linear (ma_dim m) (ma_dim m) x) elementwise))))))))))))))"


section \<open>Bottleneck and Mlp\<close>

record Bottleneck =
  bn_in_channel :: nat
  bn_out_channel :: nat

definition expansion :: nat where
  "expansion = 2"

definition Bottleneck_forward :: "Bottleneck \<Rightarrow> nat list \<Rightarrow> error + nat list" where
  "Bottleneck_forward b x =
     (let identity = x in
      and_then (Conv2D (bn_in_channel b) (bn_out_channel b) 3 1 1 (bn_in_channel b) x) (\<lambda>out.
      and_then (BatchNorm (bn_out_channel b) out) (\<lambda>out.
      and_then (elementwise out) (\<lambda>out.
      and_then (Conv2D (bn_out_channel b) (bn_out_channel b div expansion) 1 1 0 1 out) (\<lambda>out.
      and_then (elementwise out) (\<lambda>out.
      and_then (Conv2D (bn_out_channel b div expansion) (bn_out_channel b) 1 1 0 1 out) (\<lambda>out.
      and_then (Conv2D (bn_in_channel b) (bn_out_channel b) 3 1 1 (bn_in_channel b) out) (\<lambda>out.
      and_then (BatchNorm (bn_out_channel b) out) (\<lambda>out.
      and_then (inplace out identity) elementwise)))))))))"

text \<open>
  Modelled from the spec: \<^verbatim>\<open>Mlp\<close> is imported from \<^verbatim>\<open>swin_transformer.py\<close>, which is not
  among the sources.  It is the MLP of a transformer block: a linear layer to the hidden
  width, an activation, and a linear layer back to the input width, with dropout after
  each.
\<close>

record Mlp =
  mlp_in_features :: nat
  mlp_hidden_features :: nat

definition Mlp_forward :: "Mlp \<Rightarrow> nat list \<Rightarrow> error + nat list" where
  "Mlp_forward p x =
     and_then (Linear (mlp_in_features p) (mlp_hidden_features p) x) (\<lambda>x.
     and_then (elementwise x) (\<lambda>x.
     and_then (elementwise x) (\<lambda>x.
     and_then (Linear (mlp_hidden_features p) (mlp_in_features p) x) elementwise)))"


section \<open>MixingBlock\<close>

record MixingBlock =
  mb_dim :: nat
  mb_num_heads :: nat
  mb_window_size :: nat
  mb_shift_size :: int
  mb_attn :: MixingAttention
  mb_mlp :: Mlp
  mb_bottle_neck_cnn :: Bottleneck

text \<open>
  Modelled from the spec: \<^verbatim>\<open>to_2tuple\<close> is imported from \<^verbatim>\<open>transformer_utils.py\<close>, which
  is not among the sources; it turns one window size into the pair (height, width).
\<close>

definition to_2tuple :: "nat \<Rightarrow> nat \<times> nat" where
  "to_2tuple n = (n, n)"

text \<open>
  The constructor: the assertion on \<^verbatim>\<open>shift_size\<close> comes before any layer is built.
  \<^verbatim>\<open>mlp_ratio\<close> is a float in the source and \<^verbatim>\<open>mlp_hidden_dim = int(dim * mlp_ratio)\<close>;
  here the ratio is a whole number, as are the default \<^verbatim>\<open>4.\<close> and every value the
  module passes.
\<close>

definition MixingBlock_init ::
  "nat \<Rightarrow> nat \<Rightarrow> nat \<Rightarrow> nat \<Rightarrow> int \<Rightarrow> nat \<Rightarrow> 'f::zero option \<Rightarrow> error + MixingBlock" where
  "MixingBlock_init dim' num_heads window_size dwconv_kernel_size shift_size mlp_ratio qk_scale =
     (if shift_size \<noteq> 0 then Inl (AssertionError ''No shift in MixUnet'')
      else
        and_then (MixingAttention_init dim' (to_2tuple window_size) dwconv_kernel_size
                    num_heads qk_scale) (\<lambda>attn.
        let mlp_hidden_dim = dim' * mlp_ratio in
        Inr \<lparr>mb_dim = dim', mb_num_heads = num_heads, mb_window_size = window_size,
             mb_shift_size = shift_size, mb_attn = attn,
             mb_mlp = \<lparr>mlp_in_features = dim', mlp_hidden_features = mlp_hidden_dim\<rparr>,
             mb_bottle_neck_cnn = \<lparr>bn_in_channel = dim', bn_out_channel = dim'\<rparr>\<rparr>))"

text \<open>
  The two branches on \<^verbatim>\<open>shift_size\<close> in \<^verbatim>\<open>forward\<close>.  The roll is a parameter: on shapes
  it is the identity, and what matters is whether it is applied at all, and which mask
  reaches the attention.
\<close>

definition cyclic_shift ::
  "MixingBlock \<Rightarrow> ('t \<Rightarrow> int \<times> int \<Rightarrow> 't) \<Rightarrow> 't \<Rightarrow> 'k option \<Rightarrow> 't \<times> 'k option" where
  "cyclic_shift blk roll x mask_matrix =
     (if 0 < mb_shift_size blk
      then (roll x (- mb_shift_size blk, - mb_shift_size blk), mask_matrix)
      else (x, None))"

definition reverse_cyclic_shift ::
  "MixingBlock \<Rightarrow> ('t \<Rightarrow> int \<times> int \<Rightarrow> 't) \<Rightarrow> 't \<Rightarrow> 't" where
  "reverse_cyclic_shift blk roll shifted_x =
     (if 0 < mb_shift_size blk
      then roll shifted_x (mb_shift_size blk, mb_shift_size blk)
      else shifted_x)"

definition roll_shape :: "nat list \<Rightarrow> int \<times> int \<Rightarrow> nat list" where
  "roll_shape s shifts = s"

text \<open>
  The padding of \<^verbatim>\<open>forward\<close>: \<open>(pad_l, pad_t, pad_r, pad_b)\<close>, from
  \<^verbatim>\<open>pad_l = pad_t = 0\<close>, \<^verbatim>\<open>pad_r = (ws - W % ws) % ws\<close>, \<^verbatim>\<open>pad_b = (ws - H % ws) % ws\<close>.
\<close>

definition MixingBlock_padding :: "nat \<Rightarrow> nat \<Rightarrow> nat \<Rightarrow> error + nat \<times> nat \<times> nat \<times> nat" where
  "MixingBlock_padding window_size H W =
     (let pad_l = 0; pad_t = 0 in
      and_then (pymod W window_size) (\<lambda>rw.
      and_then (pymod (window_size - rw) window_size) (\<lambda>pad_r.
      and_then (pymod H window_size) (\<lambda>rh.
      and_then (pymod (window_size - rh) window_size) (\<lambda>pad_b.
      Inr (pad_l, pad_t, pad_r, pad_b))))))"

text \<open>
  \<^verbatim>\<open>forward(x, mask_matrix)\<close>; the attributes \<^verbatim>\<open>H\<close> and \<^verbatim>\<open>W\<close>, which the enclosing layer
  assigns before each call, are arguments.  The function is given with the values its
  local variables take on the way: the list handed to \<^verbatim>\<open>F.pad\<close>, \<^verbatim>\<open>x\<close> after the padding,
  \<^verbatim>\<open>Hp\<close> and \<^verbatim>\<open>Wp\<close>, the mask and the windows handed to the attention, \<^verbatim>\<open>shifted_x\<close> after
  the window reversal, \<^verbatim>\<open>x\<close> after the statement that crops it, and the \<^verbatim>\<open>x\<close> that is
  returned.  \<open>MixingBlock_forward\<close> is the returned value alone.
\<close>

record MixingBlock_locals =
  mbl_pad :: "nat list"
  mbl_padded :: "nat list"
  mbl_Hp :: nat
  mbl_Wp :: nat
  mbl_attn_mask :: "nat list option"
  mbl_x_windows :: "nat list"
  mbl_shifted_x :: "nat list"
  mbl_cropped :: "nat list"
  mbl_x :: "nat list"

definition MixingBlock_forward_locals ::
  "MixingBlock \<Rightarrow> nat \<Rightarrow> nat \<Rightarrow> nat list \<Rightarrow> nat list option \<Rightarrow> error + MixingBlock_locals" where
  "MixingBlock_forward_locals blk H W x mask_matrix =
     (case x of
        [B, L, C] \<Rightarrow>
          if L \<noteq> H * W then Inl (AssertionError ''input feature has wrong size'')
          else
            let shortcut = x in
            and_then (LayerNorm (mb_dim blk) x) (\<lambda>x.
            and_then (infer_shape x [int B, int H, int W, int C]) (\<lambda>x.
            and_then (transpose_shape x [0, 3, 1, 2]) (\<lambda>x.
            and_then (Bottleneck_forward (mb_bottle_neck_cnn blk) x) (\<lambda>x.
            and_then (transpose_shape x [0, 2, 3, 1]) (\<lambda>x.
            and_then (MixingBlock_padding (mb_window_size blk) H W) (\<lambda>(pad_l, pad_t, pad_r, pad_b).
            let pad = [0, pad_l, 0, pad_b, 0, pad_r, 0, pad_t] in
            and_then (F_pad x pad) (\<lambda>padded.
            (case padded of
               [Bp, Hp, Wp, Cp] \<Rightarrow>
                 (case cyclic_shift blk roll_shape padded mask_matrix of
                    (shifted_x, attn_mask) \<Rightarrow>
                      and_then (window_partition shifted_x (mb_window_size blk)) (\<lambda>x_windows.
                      and_then (infer_shape x_windows
                                  [- 1, int (mb_window_size blk * mb_window_size blk), int C])
                        (\<lambda>x_windows.
                      and_then (MixingAttention_forward (mb_attn blk) x_windows Hp Wp attn_mask)
                        (\<lambda>attn_windows.
                      and_then (infer_shape attn_windows
                                  [- 1, int (mb_window_size blk), int (mb_window_size blk), int C])
                        (\<lambda>attn_windows.
                      and_then (window_reverse attn_windows (mb_window_size blk) Hp Wp)
                        (\<lambda>shifted_x.
                      let x = reverse_cyclic_shift blk roll_shape shifted_x in
                      and_then (if 0 < pad_r \<or> 0 < pad_b then crop_hw x H W else Inr x)
                        (\<lambda>cropped.
                      and_then (infer_shape cropped [int B, int (H * W), int C]) (\<lambda>x.
                      and_then (and_then (elementwise x) (broadcast shortcut)) (\<lambda>x.
                      and_then (LayerNorm (mb_dim blk) x) (\<lambda>y.
                      and_then (Mlp_forward (mb_mlp blk) y) (\<lambda>y.
                      and_then (elementwise y) (\<lambda>y.
                      and_then (broadcast x y) (\<lambda>x.
                      Inr \<lparr>mbl_pad = pad, mbl_padded = padded, mbl_Hp = Hp, mbl_Wp = Wp,
                           mbl_attn_mask = attn_mask, mbl_x_windows = x_windows,
                           mbl_shifted_x = shifted_x, mbl_cropped = cropped,
                           mbl_x = x\<rparr>)))))))))))))
             | _ \<Rightarrow> Inl ShapeError))))))))
      | _ \<Rightarrow> Inl ShapeError)"

definition MixingBlock_forward ::
  "MixingBlock \<Rightarrow> nat \<Rightarrow> nat \<Rightarrow> nat list \<Rightarrow> nat list option \<Rightarrow> error + nat list" where
  "MixingBlock_forward blk H W x mask_matrix =
     and_then (MixingBlock_forward_locals blk H W x mask_matrix) (\<lambda>locals.
     Inr (mbl_x locals))"


section \<open>ConvMerging\<close>

text \<open>The decimal digits of a number, for the message of the second assertion.\<close>

fun show_nat :: "nat \<Rightarrow> string" where
  "show_nat n =
     (if n < 10 then [''0123456789'' ! n]
      else show_nat (n div 10) @ [''0123456789'' ! (n mod 10)])"

record BaseConv =
  bc_in_channels :: nat
  bc_out_channels :: nat
  bc_kernel_size :: nat
  bc_stride :: nat

definition BaseConv_forward :: "BaseConv \<Rightarrow> nat list \<Rightarrow> error + nat list" where
  "BaseConv_forward c x =
     (let padding = (bc_kernel_size c - 1) div 2 in
      and_then (Conv2D (bc_in_channels c) (bc_out_channels c) (bc_kernel_size c) (bc_stride c)
                  padding 1 x) elementwise)"

record Focus =
  fc_conv :: BaseConv

definition Focus_init :: "nat \<Rightarrow> nat \<Rightarrow> Focus" where
  "Focus_init in_channels out_channels =
     \<lparr>fc_conv = \<lparr>bc_in_channels = in_channels * 4, bc_out_channels = out_channels,
                  bc_kernel_size = 1, bc_stride = 1\<rparr>\<rparr>"

definition Focus_forward :: "Focus \<Rightarrow> nat list \<Rightarrow> error + nat list" where
  "Focus_forward f x =
     and_then (slice2 x 0 0) (\<lambda>patch_1.
     and_then (slice2 x 1 0) (\<lambda>patch_2.
     and_then (slice2 x 0 1) (\<lambda>patch_3.
     and_then (slice2 x 1 1) (\<lambda>patch_4.
     and_then (concat_shapes [patch_1, patch_2, patch_3, patch_4] 1) (\<lambda>x.
     BaseConv_forward (fc_conv f) x)))))"

record ConvMerging =
  cm_dim :: nat
  cm_out_dim :: nat
  cm_reduction :: Focus

definition ConvMerging_init :: "nat \<Rightarrow> nat \<Rightarrow> ConvMerging" where
  "ConvMerging_init dim' out_dim =
     \<lparr>cm_dim = dim', cm_out_dim = out_dim, cm_reduction = Focus_init dim' out_dim\<rparr>"

definition ConvMerging_forward :: "ConvMerging \<Rightarrow> nat list \<Rightarrow> nat \<Rightarrow> nat \<Rightarrow> error + nat list" where
  "ConvMerging_forward cm x H W =
     (case x of
        [B, L, C] \<Rightarrow>
          if L \<noteq> H * W then Inl (AssertionError ''input feature has wrong size'')
          else if \<not> (H mod 2 = 0 \<and> W mod 2 = 0)
          then Inl (AssertionError
                     (''x size ('' @ show_nat H @ ''*'' @ show_nat W @ '') are not even.''))
          else
            and_then (infer_shape x [int B, int H, int W, int C]) (\<lambda>x.
            and_then (transpose_shape x [0, 3, 1, 2]) (\<lambda>x.
            and_then (BatchNorm (cm_dim cm) x) (\<lambda>x.
            and_then (Focus_forward (cm_reduction cm) x) (\<lambda>x.
            and_then (flatten_from x 2) (\<lambda>x.
            transpose_shape x [0, 2, 1])))))
      | _ \<Rightarrow> Inl ShapeError)"


section \<open>BasicLayer\<close>

text \<open>Python's indexing of a list: a negative index counts from the end.\<close>

definition py_index :: "'a list \<Rightarrow> int \<Rightarrow> error + 'a" where
  "py_index xs i =
     (if 0 \<le> i then
        (if nat i < length xs then Inr (xs ! nat i) else Inl IndexError)
      else
        (if nat (- i) \<le> length xs then Inr (xs ! (length xs - nat (- i)))
         else Inl IndexError))"

text \<open>A list comprehension whose elements may raise stops at the first exception.\<close>

fun sequence :: "(error + 'a) list \<Rightarrow> error + 'a list" where
  "sequence [] = Inr []"
| "sequence (m # ms) = and_then m (\<lambda>v. and_then (sequence ms) (\<lambda>vs. Inr (v # vs)))"

record BasicLayer =
  bl_blocks :: "MixingBlock list"
  bl_downsample :: "ConvMerging option"

definition BasicLayer_init ::
  "nat \<Rightarrow> nat \<Rightarrow> nat \<Rightarrow> nat \<Rightarrow> nat \<Rightarrow> nat \<Rightarrow> 'f::zero option \<Rightarrow> bool \<Rightarrow> nat
     \<Rightarrow> error + BasicLayer" where
  "BasicLayer_init dim' depth num_heads window_size dwconv_kernel_size mlp_ratio qk_scale
       downsample out_dim =
     and_then (sequence (map (\<lambda>i. MixingBlock_init dim' num_heads window_size
                                   dwconv_kernel_size 0 mlp_ratio qk_scale) [0..<depth]))
       (\<lambda>blocks.
     Inr \<lparr>bl_blocks = blocks,
          bl_downsample = (if downsample then Some (ConvMerging_init dim' out_dim) else None)\<rparr>)"

text \<open>The loop \<^verbatim>\<open>for blk in self.blocks: blk.H, blk.W = H, W; x = blk(x, None)\<close>.\<close>

fun run_blocks :: "MixingBlock list \<Rightarrow> nat \<Rightarrow> nat \<Rightarrow> nat list \<Rightarrow> error + nat list" where
  "run_blocks [] H W x = Inr x"
| "run_blocks (blk # blks) H W x =
     and_then (MixingBlock_forward blk H W x None) (run_blocks blks H W)"

definition BasicLayer_forward ::
  "BasicLayer \<Rightarrow> nat list \<Rightarrow> nat \<Rightarrow> nat \<Rightarrow> error + nat \<times> nat \<times> nat list \<times> nat \<times> nat" where
  "BasicLayer_forward layer x H W =
     and_then (run_blocks (bl_blocks layer) H W x) (\<lambda>x.
     (case bl_downsample layer of
        Some downsample \<Rightarrow>
          and_then (ConvMerging_forward downsample x H W) (\<lambda>x_down.
          let Wh = (H + 1) div 2; Ww = (W + 1) div 2
          in Inr (H, W, x_down, Wh, Ww))
      | None \<Rightarrow> Inr (H, W, x, H, W)))"


section \<open>PatchExpand\<close>

record PatchExpand =
  pe_input_resolution :: "nat \<times> nat"
  pe_dim :: nat
  pe_dim_scale :: nat

definition PatchExpand_init :: "nat \<times> nat \<Rightarrow> nat \<Rightarrow> nat \<Rightarrow> error + PatchExpand" where
  "PatchExpand_init input_resolution dim' dim_scale =
     and_then (floordiv dim' dim_scale) (\<lambda>norm_dim.
     Inr \<lparr>pe_input_resolution = input_resolution, pe_dim = dim', pe_dim_scale = dim_scale\<rparr>)"

definition expand :: "PatchExpand \<Rightarrow> nat list \<Rightarrow> error + nat list" where
  "expand pe x =
     (if pe_dim_scale pe = 2 then Linear (pe_dim pe) (2 * pe_dim pe) x else elementwise x)"

text \<open>
  The three reshapes of \<^verbatim>\<open>PatchExpand.forward\<close> with the assertion before them, on a
  tensor with its elements.  This is the middle of the forward pass only: \<^verbatim>\<open>self.expand\<close>
  comes before it and \<^verbatim>\<open>self.norm\<close> after it, and \<open>PatchExpand_forward_values\<close> below
  is the whole.
\<close>

definition PatchExpand_rearrange :: "nat \<times> nat \<Rightarrow> 'a tensor \<Rightarrow> error + 'a tensor" where
  "PatchExpand_rearrange input_resolution x =
     (case input_resolution of
        (H, W) \<Rightarrow>
          (case shape x of
             [B, L, C] \<Rightarrow>
               if L \<noteq> H * W then Inl (AssertionError ''input feature has wrong size'')
               else
                 and_then (tensor_reshape x [int B, int H, int W, int C]) (\<lambda>x.
                 and_then (tensor_reshape x [int B, int (2 * H), int (2 * W), int (C div 4)]) (\<lambda>x.
                 tensor_reshape x [int B, - 1, int (C div 4)]))
           | _ \<Rightarrow> Inl ShapeError))"

text \<open>The same lines on the shape alone.\<close>

definition PatchExpand_rearrange_shape :: "nat \<times> nat \<Rightarrow> nat list \<Rightarrow> error + nat list" where
  "PatchExpand_rearrange_shape input_resolution x =
     (case input_resolution of
        (H, W) \<Rightarrow>
          (case x of
             [B, L, C] \<Rightarrow>
               if L \<noteq> H * W then Inl (AssertionError ''input feature has wrong size'')
               else
                 and_then (infer_shape x [int B, int H, int W, int C]) (\<lambda>x.
                 and_then (infer_shape x [int B, int (2 * H), int (2 * W), int (C div 4)]) (\<lambda>x.
                 infer_shape x [int B, - 1, int (C div 4)]))
           | _ \<Rightarrow> Inl ShapeError))"

definition PatchExpand_forward :: "PatchExpand \<Rightarrow> nat list \<Rightarrow> error + nat list" where
  "PatchExpand_forward pe x =
     and_then (expand pe x) (\<lambda>x.
     and_then (PatchExpand_rearrange_shape (pe_input_resolution pe) x) (\<lambda>x.
     LayerNorm (pe_dim pe div pe_dim_scale pe) x))"

text \<open>
  What the specification says of the same step: every group of four channel blocks of a
  position becomes a 2 by 2 block of positions.  This is the rearrangement
  \<^verbatim>\<open>b h w (p1 p2 c) -> b (h p1) (w p2) c\<close> with \<^verbatim>\<open>p1 = p2 = 2\<close> that the source keeps as a
  comment above its reshape: split the channels into \<open>(p1, p2, c)\<close>, move \<open>p1\<close> next to
  \<open>h\<close> and \<open>p2\<close> next to \<open>w\<close>, and merge.
\<close>

definition pixel_shuffle_spec :: "nat \<times> nat \<Rightarrow> 'a tensor \<Rightarrow> error + 'a tensor" where
  "pixel_shuffle_spec input_resolution x =
     (case input_resolution of
        (H, W) \<Rightarrow>
          (case shape x of
             [B, L, C] \<Rightarrow>
               if L \<noteq> H * W then Inl (AssertionError ''input feature has wrong size'')
               else
                 and_then (tensor_reshape x [int B, int H, int W, 2, 2, int (C div 4)]) (\<lambda>x.
                 and_then (tensor_transpose x [0, 1, 3, 2, 4, 5]) (\<lambda>x.
                 tensor_reshape x [int B, - 1, int (C div 4)]))
           | _ \<Rightarrow> Inl ShapeError))"

text \<open>
  \<^verbatim>\<open>PatchExpand.forward\<close> on values.  The two layers of the framework that it calls are
  modelled from the framework's documentation, with real numbers for the floats.
  \<^verbatim>\<open>nn.Linear(in_features, out_features, bias_attr=False)\<close> holds a weight matrix of shape
  \<open>(in_features, out_features)\<close> and multiplies every vector along the last axis by it.
  \<^verbatim>\<open>nn.LayerNorm(normalized_shape)\<close> holds a weight and a bias vector (initially all 1 and
  all 0) and maps every vector \<open>v\<close> along the last axis to
  \<open>(v - mean v) / sqrt (var v + epsilon) * weight + bias\<close>, with the variance taken over the
  vector and \<^verbatim>\<open>epsilon = 1e-05\<close>.  Both check the last extent as their counterparts on
  shapes do.
\<close>

definition vectors :: "nat \<Rightarrow> 'a list \<Rightarrow> 'a list list" where
  "vectors n xs = map (\<lambda>i. take n (drop (i * n) xs)) [0..<length xs div n]"

definition matmul_row :: "real list \<Rightarrow> real list list \<Rightarrow> nat \<Rightarrow> real list" where
  "matmul_row v weight out_features =
     map (\<lambda>j. sum_list (map (\<lambda>i. v ! i * weight ! i ! j) [0..<length v])) [0..<out_features]"

definition Linear_values ::
  "nat \<Rightarrow> nat \<Rightarrow> real list list \<Rightarrow> real tensor \<Rightarrow> error + real tensor" where
  "Linear_values in_features out_features weight x =
     (if length weight = in_features \<and> list_all (\<lambda>row. length row = out_features) weight
      then and_then (Linear in_features out_features (shape x)) (\<lambda>s.
           Inr \<lparr>shape = s,
                data = concat (map (\<lambda>v. matmul_row v weight out_features)
                                 (vectors in_features (data x)))\<rparr>)
      else Inl ShapeError)"

definition normalize :: "real list \<Rightarrow> real list \<Rightarrow> real \<Rightarrow> real list \<Rightarrow> real list" where
  "normalize weight bias epsilon v =
     (let n = real (length v);
          mean = sum_list v / n;
          variance = sum_list (map (\<lambda>a. (a - mean) * (a - mean)) v) / n
      in map (\<lambda>i. (v ! i - mean) / sqrt (variance + epsilon) * weight ! i + bias ! i)
           [0..<length v])"

definition LayerNorm_values ::
  "nat \<Rightarrow> real list \<Rightarrow> real list \<Rightarrow> real \<Rightarrow> real tensor \<Rightarrow> error + real tensor" where
  "LayerNorm_values normalized_shape weight bias epsilon x =
     (if length weight = normalized_shape \<and> length bias = normalized_shape
      then and_then (LayerNorm normalized_shape (shape x)) (\<lambda>s.
           Inr \<lparr>shape = s,
                data = concat (map (normalize weight bias epsilon)
                                 (vectors normalized_shape (data x)))\<rparr>)
      else Inl ShapeError)"

text \<open>The parameters of a \<^verbatim>\<open>PatchExpand\<close>: the weight of \<^verbatim>\<open>self.expand\<close> and those of \<^verbatim>\<open>self.norm\<close>.\<close>

record PatchExpand_parameters =
  expand_weight :: "real list list"
  norm_weight :: "real list"
  norm_bias :: "real list"

definition PatchExpand_forward_values ::
  "PatchExpand \<Rightarrow> PatchExpand_parameters \<Rightarrow> real tensor \<Rightarrow> error + real tensor" where
  "PatchExpand_forward_values pe p x =
     and_then (if pe_dim_scale pe = 2
               then Linear_values (pe_dim pe) (2 * pe_dim pe) (expand_weight p) x
               else Inr x) (\<lambda>x.
     and_then (PatchExpand_rearrange (pe_input_resolution pe) x) (\<lambda>x.
     LayerNorm_values (pe_dim pe div pe_dim_scale pe) (norm_weight p) (norm_bias p)
       (1 / 100000) x))"

text \<open>
  What the specification says of \<^verbatim>\<open>PatchExpand\<close>: the same expansion and normalisation,
  with the 2 by 2 blocks of \<open>pixel_shuffle_spec\<close> between them.
\<close>

definition PatchExpand_spec_values ::
  "PatchExpand \<Rightarrow> PatchExpand_parameters \<Rightarrow> real tensor \<Rightarrow> error + real tensor" where
  "PatchExpand_spec_values pe p x =
     and_then (if pe_dim_scale pe = 2
               then Linear_values (pe_dim pe) (2 * pe_dim pe) (expand_weight p) x
               else Inr x) (\<lambda>x.
     and_then (pixel_shuffle_spec (pe_input_resolution pe) x) (\<lambda>x.
     LayerNorm_values (pe_dim pe div pe_dim_scale pe) (norm_weight p) (norm_bias p)
       (1 / 100000) x))"


section \<open>BasicLayer_up\<close>

record BasicLayer_up =
  blu_blocks :: "MixingBlock list"
  blu_upsample :: "PatchExpand option"

definition BasicLayer_up_init ::
  "nat \<Rightarrow> nat \<times> nat \<Rightarrow> nat \<Rightarrow> nat \<Rightarrow> nat \<Rightarrow> nat \<Rightarrow> nat \<Rightarrow> 'f::zero option \<Rightarrow> bool
     \<Rightarrow> error + BasicLayer_up" where
  "BasicLayer_up_init dim' input_resolution depth num_heads window_size dwconv_kernel_size
       mlp_ratio qk_scale upsample =
     and_then (sequence (map (\<lambda>i. MixingBlock_init dim' num_heads window_size
                                   dwconv_kernel_size 0 mlp_ratio qk_scale) [0..<depth]))
       (\<lambda>blocks.
     and_then (if upsample
               then and_then (PatchExpand_init input_resolution dim' 2) (\<lambda>pe. Inr (Some pe))
               else Inr None) (\<lambda>up.
     Inr \<lparr>blu_blocks = blocks, blu_upsample = up\<rparr>))"

definition BasicLayer_up_forward ::
  "BasicLayer_up \<Rightarrow> nat list \<Rightarrow> nat \<Rightarrow> nat \<Rightarrow> error + nat list \<times> nat list" where
  "BasicLayer_up_forward layer x H W =
     and_then (run_blocks (blu_blocks layer) H W x) (\<lambda>x.
     let output = x in
     (case blu_upsample layer of
        Some upsample \<Rightarrow> and_then (PatchExpand_forward upsample x) (\<lambda>x. Inr (x, output))
      | None \<Rightarrow> Inr (x, output)))"


section \<open>ConvEmbed\<close>

record ConvEmbed =
  ce_patch_size :: "nat \<times> nat"
  ce_patches_resolution :: "nat \<times> nat"
  ce_num_patches :: nat
  ce_in_chans :: nat
  ce_embed_dim :: nat
  ce_norm :: bool

definition ConvEmbed_init :: "nat \<times> nat \<Rightarrow> nat \<Rightarrow> nat \<Rightarrow> nat \<Rightarrow> bool \<Rightarrow> error + ConvEmbed" where
  "ConvEmbed_init img_size patch_size in_chans embed_dim norm_layer =
     (let patch_size = to_2tuple patch_size in
      and_then (floordiv (fst img_size) (fst patch_size)) (\<lambda>r0.
      and_then (floordiv (snd img_size) (snd patch_size)) (\<lambda>r1.
      Inr \<lparr>ce_patch_size = patch_size, ce_patches_resolution = (r0, r1),
           ce_num_patches = r0 * r1, ce_in_chans = in_chans, ce_embed_dim = embed_dim,
           ce_norm = norm_layer\<rparr>)))"

definition stem :: "ConvEmbed \<Rightarrow> nat list \<Rightarrow> error + nat list" where
  "stem ce x =
     (let half = ce_embed_dim ce div 2 in
      and_then (Conv2D (ce_in_chans ce) half 3 (fst (ce_patch_size ce) div 2) 1 1 x) (\<lambda>x.
      and_then (BatchNorm half x) (\<lambda>x.
      and_then (elementwise x) (\<lambda>x.
      and_then (Conv2D half half 3 1 1 1 x) (\<lambda>x.
      and_then (BatchNorm half x) (\<lambda>x.
      and_then (elementwise x) (\<lambda>x.
      and_then (Conv2D half half 3 1 1 1 x) (\<lambda>x.
      and_then (BatchNorm half x) elementwise))))))))"

text \<open>
  \<^verbatim>\<open>forward\<close>.  \<^verbatim>\<open>Wh\<close> and \<^verbatim>\<open>Ww\<close> are assigned only when the module has a norm, and the
  last reshape reads them in every case.
\<close>

definition ConvEmbed_forward :: "ConvEmbed \<Rightarrow> nat list \<Rightarrow> error + nat list" where
  "ConvEmbed_forward ce x =
     (case x of
        [B, C, H, W] \<Rightarrow>
          and_then (pymod W (snd (ce_patch_size ce))) (\<lambda>rw.
          and_then (if rw \<noteq> 0 then F_pad x [0, snd (ce_patch_size ce) - rw, 0, 0] else Inr x) (\<lambda>x.
          and_then (pymod H (fst (ce_patch_size ce))) (\<lambda>rh.
          and_then (if rh \<noteq> 0 then F_pad x [0, 0, 0, fst (ce_patch_size ce) - rh] else Inr x) (\<lambda>x.
          and_then (stem ce x) (\<lambda>x.
          and_then (Conv2D (ce_embed_dim ce div 2) (ce_embed_dim ce)
                      (fst (ce_patch_size ce) div 2) (fst (ce_patch_size ce) div 2) 0 1 x) (\<lambda>x.
          (case x of
             [B', C', Wh, Ww] \<Rightarrow>
               and_then (flatten_from x 2) (\<lambda>x.
               and_then (transpose_shape x [0, 2, 1]) (\<lambda>x.
               and_then (if ce_norm ce then LayerNorm (ce_embed_dim ce) x else Inr x) (\<lambda>x.
               and_then (transpose_shape x [0, 2, 1]) (\<lambda>x.
               if ce_norm ce
               then infer_shape x [- 1, int (ce_embed_dim ce), int Wh, int Ww]
               else Inl UnboundLocalError))))
           | _ \<Rightarrow> Inl ShapeError)))))))
      | _ \<Rightarrow> Inl ShapeError)"


section \<open>MixUnet\<close>

text \<open>
  The arguments of the constructor that decide a shape.  \<^verbatim>\<open>embed_dim\<close> is an integer or a
  list; \<^verbatim>\<open>img_size\<close> is the pair that \<^verbatim>\<open>to_2tuple\<close> makes of it.
\<close>

datatype embed_dim_arg = EInt nat | EList "nat list"

record 'f MixUnet_args =
  arg_img_size :: "nat \<times> nat"
  arg_patch_size :: nat
  arg_in_chans :: nat
  arg_embed_dim :: embed_dim_arg
  arg_depths :: "nat list"
  arg_num_heads :: "nat list"
  arg_window_size :: nat
  arg_dwconv_kernel_size :: nat
  arg_mlp_ratio :: nat
  arg_qk_scale :: "'f option"
  arg_out_indices :: "int list"
  arg_ape :: bool
  arg_patch_norm :: bool

text \<open>
  An element of \<^verbatim>\<open>self.layers_up\<close> is a bare \<^verbatim>\<open>PatchExpand\<close> (stage 0) or a
  \<^verbatim>\<open>BasicLayer_up\<close>; an element of \<^verbatim>\<open>self.concat_back_dim\<close> is the identity (\<open>None\<close>) or
  a linear layer with its two widths.
\<close>

datatype layer_up = Up_PatchExpand PatchExpand | Up_BasicLayer BasicLayer_up

record MixUnet =
  mu_num_layers :: nat
  mu_embed_dim :: "nat list"
  mu_out_indices :: "int list"
  mu_ape :: bool
  mu_absolute_pos_embed :: "nat list"
  mu_patch_embed :: ConvEmbed
  mu_layers :: "BasicLayer list"
  mu_layers_up :: "layer_up list"
  mu_concat_back_dim :: "(nat \<times> nat) option list"
  mu_num_feature :: nat
  mu_num_channel :: "nat list"

definition build_layer ::
  "'f::zero MixUnet_args \<Rightarrow> nat list \<Rightarrow> nat \<Rightarrow> nat \<Rightarrow> error + BasicLayer" where
  "build_layer a embed_dim num_layers i_layer =
     and_then (py_index embed_dim (int i_layer)) (\<lambda>dim'.
     and_then (py_index (arg_depths a) (int i_layer)) (\<lambda>depth.
     and_then (py_index (arg_num_heads a) (int i_layer)) (\<lambda>num_heads.
     and_then (if i_layer < num_layers - 1 then py_index embed_dim (int i_layer + 1)
               else Inr 0) (\<lambda>out_dim.
     BasicLayer_init dim' depth num_heads (arg_window_size a) (arg_dwconv_kernel_size a)
       (arg_mlp_ratio a) (arg_qk_scale a) (i_layer < num_layers - 1) out_dim))))"

definition build_layer_up ::
  "'f::zero MixUnet_args \<Rightarrow> nat \<Rightarrow> nat \<times> nat \<Rightarrow> nat \<Rightarrow> nat
     \<Rightarrow> error + layer_up \<times> (nat \<times> nat) option" where
  "build_layer_up a e0 patches_resolution num_layers i_layer =
     (let k = num_layers - 1 - i_layer;
          dim' = e0 * 2 ^ k;
          concat_linear = (if 0 < i_layer then Some (2 * dim', dim') else None);
          input_resolution = (fst patches_resolution div 2 ^ k, snd patches_resolution div 2 ^ k)
      in if i_layer = 0 then
           and_then (PatchExpand_init input_resolution dim' 2) (\<lambda>pe.
           Inr (Up_PatchExpand pe, concat_linear))
         else
           and_then (py_index (arg_depths a) (int k)) (\<lambda>depth.
           and_then (py_index (arg_num_heads a) (int k)) (\<lambda>num_heads.
           and_then (BasicLayer_up_init dim' input_resolution depth num_heads (arg_window_size a) 3
                       (arg_mlp_ratio a) (arg_qk_scale a) (i_layer < num_layers)) (\<lambda>layer.
           Inr (Up_BasicLayer layer, concat_linear)))))"

definition MixUnet_init :: "'f::zero MixUnet_args \<Rightarrow> error + MixUnet" where
  "MixUnet_init a =
     (let num_layers = length (arg_depths a);
          embed_dim = (case arg_embed_dim a of
                         EInt e \<Rightarrow> map (\<lambda>i_layer. e * 2 ^ i_layer) [0..<num_layers]
                       | EList l \<Rightarrow> l)
      in if length embed_dim \<noteq> num_layers then Inl (AssertionError [])
         else
           and_then (py_index embed_dim (- 1)) (\<lambda>num_feature.
           and_then (py_index embed_dim 0) (\<lambda>e0.
           and_then (ConvEmbed_init (arg_img_size a) (arg_patch_size a) (arg_in_chans a) e0
                       (arg_patch_norm a)) (\<lambda>patch_embed.
           and_then (sequence (map (build_layer a embed_dim num_layers) [0..<num_layers])) (\<lambda>layers.
           and_then (sequence (map (build_layer_up a e0 (ce_patches_resolution patch_embed)
                                      num_layers) [0..<num_layers - 1])) (\<lambda>ups.
           Inr \<lparr>mu_num_layers = num_layers, mu_embed_dim = embed_dim,
                mu_out_indices = arg_out_indices a, mu_ape = arg_ape a,
                mu_absolute_pos_embed = [1, ce_num_patches patch_embed, e0],
                mu_patch_embed = patch_embed, mu_layers = layers,
                mu_layers_up = map fst ups, mu_concat_back_dim = map snd ups,
                mu_num_feature = num_feature, mu_num_channel = embed_dim\<rparr>))))))"

text \<open>
  \<^verbatim>\<open>forward_features\<close>: the loop over the encoder stages appends the input of each stage
  to \<^verbatim>\<open>x_downsample\<close> before the stage runs.
\<close>

fun run_layers ::
  "BasicLayer list \<Rightarrow> nat list \<Rightarrow> nat list list \<Rightarrow> nat \<Rightarrow> nat
     \<Rightarrow> error + nat list \<times> nat list list \<times> nat \<times> nat" where
  "run_layers [] x x_downsample Wh Ww = Inr (x, x_downsample, Wh, Ww)"
| "run_layers (layer # layers) x x_downsample Wh Ww =
     and_then (BasicLayer_forward layer x Wh Ww) (\<lambda>(H, W, x', Wh', Ww').
     run_layers layers x' (x_downsample @ [x]) Wh' Ww')"

definition forward_features ::
  "MixUnet \<Rightarrow> nat list \<Rightarrow> error + nat list \<times> nat list list \<times> nat \<times> nat" where
  "forward_features m x =
     and_then (ConvEmbed_forward (mu_patch_embed m) x) (\<lambda>x.
     (case x of
        [B, C, Wh, Ww] \<Rightarrow>
          and_then (flatten_from x 2) (\<lambda>x.
          and_then (transpose_shape x [0, 2, 1]) (\<lambda>x.
          and_then (if mu_ape m then broadcast x (mu_absolute_pos_embed m) else Inr x) (\<lambda>x.
          and_then (elementwise x) (\<lambda>x.
          and_then (run_layers (mu_layers m) x [] Wh Ww) (\<lambda>(x, x_downsample, Wh, Ww).
          and_then (LayerNorm (mu_num_feature m) x) (\<lambda>x.
          Inr (x, x_downsample, Wh, Ww)))))))
      | _ \<Rightarrow> Inl ShapeError))"

text \<open>
  \<^verbatim>\<open>int(math.sqrt(L))\<close>: the integer square root (the float square root of the token
  counts that occur is exact or rounds down to the same integer).
\<close>

fun isqrt_upto :: "nat \<Rightarrow> nat \<Rightarrow> nat" where
  "isqrt_upto n 0 = 0"
| "isqrt_upto n (Suc k) = (if Suc k * Suc k \<le> n then Suc k else isqrt_upto n k)"

definition isqrt :: "nat \<Rightarrow> nat" where
  "isqrt n = isqrt_upto n n"

text \<open>
  The lines that turn the output of a decoder stage into a feature map:
  \<^verbatim>\<open>B, L, C = output.shape\<close>, the activation, \<^verbatim>\<open>H = W = int(math.sqrt(L))\<close>, the reshape
  to \<open>(B, H, W, C)\<close> and the transpose to \<open>(B, C, H, W)\<close>.
\<close>

definition to_feature_map :: "nat list \<Rightarrow> error + nat list" where
  "to_feature_map output =
     (case output of
        [B, L, C] \<Rightarrow>
          and_then (elementwise output) (\<lambda>x_ilayer.
          let H = isqrt L; W = isqrt L in
          and_then (infer_shape x_ilayer [int B, int H, int W, int C]) (\<lambda>x_ilayer.
          transpose_shape x_ilayer [0, 3, 1, 2]))
      | _ \<Rightarrow> Inl ShapeError)"

text \<open>The skip tensor that decoder stage \<open>inx\<close> concatenates: \<^verbatim>\<open>x_downsample[3 - inx]\<close>.\<close>

definition skip_tensor :: "nat list list \<Rightarrow> nat \<Rightarrow> error + nat list" where
  "skip_tensor x_downsample inx = py_index x_downsample (3 - int inx)"

definition concat_back :: "(nat \<times> nat) option \<Rightarrow> nat list \<Rightarrow> error + nat list" where
  "concat_back l x =
     (case l of None \<Rightarrow> elementwise x | Some (in_features, out_features) \<Rightarrow>
        Linear in_features out_features x)"

text \<open>
  One turn of the loop of \<^verbatim>\<open>forward_up_features\<close>: it returns the new \<open>x\<close> and the feature
  map \<open>x_ilayer\<close> of the stage.  A stage 0 that is not a bare \<^verbatim>\<open>PatchExpand\<close>, or a later
  stage that is one, would be called with the wrong number of arguments.
\<close>

definition up_stage ::
  "MixUnet \<Rightarrow> nat \<Rightarrow> layer_up \<Rightarrow> nat list \<Rightarrow> nat list list \<Rightarrow> nat \<Rightarrow> nat
     \<Rightarrow> error + nat list \<times> nat list" where
  "up_stage m inx layer x x_downsample Wh Ww =
     (if inx = 0 then
        (case layer of
           Up_PatchExpand pe \<Rightarrow>
             let output = x in
             and_then (PatchExpand_forward pe x) (\<lambda>x.
             and_then (to_feature_map output) (\<lambda>x_ilayer.
             Inr (x, x_ilayer)))
         | Up_BasicLayer l \<Rightarrow> Inl TypeError)
      else
        and_then (skip_tensor x_downsample inx) (\<lambda>skip.
        and_then (concat_shapes [x, skip] (length x - 1)) (\<lambda>x.
        and_then (py_index (mu_concat_back_dim m) (int inx)) (\<lambda>l.
        and_then (concat_back l x) (\<lambda>x.
        (case layer of
           Up_BasicLayer l \<Rightarrow>
             and_then (BasicLayer_up_forward l x Wh Ww) (\<lambda>(x, output).
             and_then (to_feature_map output) (\<lambda>x_ilayer.
             Inr (x, x_ilayer)))
         | Up_PatchExpand pe \<Rightarrow> Inl TypeError))))))"

fun run_layers_up ::
  "MixUnet \<Rightarrow> (nat \<times> layer_up) list \<Rightarrow> nat list \<Rightarrow> nat list list \<Rightarrow> nat \<Rightarrow> nat
     \<Rightarrow> nat list option \<Rightarrow> nat list list \<Rightarrow> error + nat list option \<times> nat list list" where
  "run_layers_up m [] x x_downsample Wh Ww x_ilayer x_list = Inr (x_ilayer, x_list)"
| "run_layers_up m ((inx, layer) # rest) x x_downsample Wh Ww x_ilayer x_list =
     and_then (up_stage m inx layer x x_downsample Wh Ww) (\<lambda>(x', x_ilayer').
     run_layers_up m rest x' x_downsample (Wh * 2) (Ww * 2) (Some x_ilayer')
       (x_list @ [x_ilayer']))"

definition forward_up_features ::
  "MixUnet \<Rightarrow> nat list \<Rightarrow> nat list list \<Rightarrow> nat \<Rightarrow> nat \<Rightarrow> error + nat list \<times> nat list list" where
  "forward_up_features m x x_downsample Wh Ww =
     and_then (run_layers_up m (enumerate 0 (mu_layers_up m)) x x_downsample Wh Ww None [])
       (\<lambda>(x_ilayer, x_list).
     (case x_ilayer of
        None \<Rightarrow> Inl UnboundLocalError
      | Some x_ilayer \<Rightarrow> Inr (x_ilayer, x_list)))"

text \<open>
  \<^verbatim>\<open>forward\<close> on the shape of \<^verbatim>\<open>x['image']\<close>: the feature maps of the decoder stages
  \<open>num_layers - 2, \<dots>, 0\<close>, in this order.
\<close>

definition MixUnet_forward :: "MixUnet \<Rightarrow> nat list \<Rightarrow> error + nat list list" where
  "MixUnet_forward m img =
     and_then (forward_features m img) (\<lambda>(x, x_downsample, Wh, Ww).
     and_then (forward_up_features m x x_downsample Wh Ww) (\<lambda>(x, x_list).
     sequence (map (\<lambda>i. py_index x_list (int i)) (rev [0..<mu_num_layers m - 1]))))"

text \<open>
  Modelled from the spec: \<^verbatim>\<open>ShapeSpec\<close> is imported from \<^verbatim>\<open>shape_spec.py\<close>, which is not
  among the sources; \<^verbatim>\<open>out_shape\<close> fills in its channel count and its stride.
\<close>

record ShapeSpec =
  channels :: nat
  stride :: nat

definition out_shape :: "MixUnet \<Rightarrow> error + ShapeSpec list" where
  "out_shape m =
     (let out_strides = [4, 8, 16, 32] in
      sequence (map (\<lambda>i.
        and_then (py_index (mu_num_channel m) i) (\<lambda>c.
        and_then (py_index out_strides i) (\<lambda>s.
        Inr \<lparr>channels = c, stride = s\<rparr>))) (mu_out_indices m)))"


section \<open>Arguments whose layers fit together\<close>

text \<open>
  The conditions on the arguments of a block under which every layer it builds accepts
  the output of the layer before it: \<open>dim\<close> is even (the two halves are concatenated back
  to \<open>dim\<close> channels) and at least 16 (the narrowest convolution has \<open>dim // 16\<close>
  channels), the heads divide \<open>dim // 2\<close>, the window is not empty, the depth-wise
  kernel is odd (its padding \<open>k // 2\<close> then keeps height and width), and the hidden width
  of the MLP is positive.
\<close>

definition layers_fit :: "nat \<Rightarrow> nat \<Rightarrow> nat \<Rightarrow> nat \<Rightarrow> nat \<Rightarrow> bool" where
  "layers_fit dim' num_heads window_size dwconv_kernel_size mlp_ratio \<longleftrightarrow>
     16 \<le> dim' \<and> even dim' \<and> 0 < num_heads \<and> num_heads dvd dim' div 2
     \<and> 0 < window_size \<and> odd dwconv_kernel_size \<and> 0 < mlp_ratio"


text \<open>
  What the constructors build from arguments that fit: the block, the encoder stage and
  the decoder stage (whose blocks always get the default depth-wise kernel 3, since
  \<open>MixUnet\<close> does not pass its own to \<open>BasicLayer_up\<close>).
\<close>

definition fitted_block :: "nat \<Rightarrow> nat \<Rightarrow> nat \<Rightarrow> nat \<Rightarrow> nat \<Rightarrow> MixingBlock" where
  "fitted_block dim' num_heads ws k mlp_ratio =
     \<lparr>mb_dim = dim', mb_num_heads = num_heads, mb_window_size = ws, mb_shift_size = 0,
      mb_attn = \<lparr>ma_dim = dim', ma_window_size = (ws, ws), ma_dwconv_kernel_size = k,
                  ma_num_heads = num_heads\<rparr>,
      mb_mlp = \<lparr>mlp_in_features = dim', mlp_hidden_features = dim' * mlp_ratio\<rparr>,
      mb_bottle_neck_cnn = \<lparr>bn_in_channel = dim', bn_out_channel = dim'\<rparr>\<rparr>"

definition fitted_layer ::
  "nat \<Rightarrow> nat \<Rightarrow> nat \<Rightarrow> nat \<Rightarrow> nat \<Rightarrow> nat \<Rightarrow> ConvMerging option \<Rightarrow> BasicLayer" where
  "fitted_layer dim' depth num_heads ws k mlp_ratio down =
     \<lparr>bl_blocks = map (\<lambda>i. fitted_block dim' num_heads ws k mlp_ratio) [0..<depth],
      bl_downsample = down\<rparr>"

definition fitted_layer_up ::
  "nat \<Rightarrow> nat \<times> nat \<Rightarrow> nat \<Rightarrow> nat \<Rightarrow> nat \<Rightarrow> nat \<Rightarrow> BasicLayer_up" where
  "fitted_layer_up dim' res depth num_heads ws mlp_ratio =
     \<lparr>blu_blocks = map (\<lambda>i. fitted_block dim' num_heads ws 3 mlp_ratio) [0..<depth],
      blu_upsample = Some \<lparr>pe_input_resolution = res, pe_dim = dim', pe_dim_scale = 2\<rparr>\<rparr>"


text \<open>
  The configuration of the end-to-end property: four stages of depths 2, 2, 6, 2 and
  embedding width 24, built for 224 by 224 images, with the defaults of the constructor
  for every other argument; the requested output indices are left open.
\<close>

definition mixunet_224 :: "int list \<Rightarrow> int MixUnet_args" where
  "mixunet_224 out_indices =
     \<lparr>arg_img_size = (224, 224), arg_patch_size = 4, arg_in_chans = 3,
      arg_embed_dim = EInt 24, arg_depths = [2, 2, 6, 2], arg_num_heads = [3, 6, 12, 24],
      arg_window_size = 7, arg_dwconv_kernel_size = 3, arg_mlp_ratio = 4,
      arg_qk_scale = None, arg_out_indices = out_indices, arg_ape = False,
      arg_patch_norm = True\<rparr>"



section \<open>Lemmas on indices, reshape and transpose\<close>

lemma and_then_Inr [simp]: "and_then (Inr v) f = f v"
  by (simp add: and_then_def)

lemma and_then_Inl [simp]: "and_then (Inl e) f = Inl e"
  by (simp add: and_then_def)

lemma copy_dims_pos:
  "list_all (\<lambda>d. d \<noteq> 0) tgt \<Longrightarrow> copy_dims s tgt = Inr tgt"
  by (induction tgt arbitrary: s) auto

lemma ravel_unravel: "n < prod_list s \<Longrightarrow> ravel s (unravel s n) = n"
proof (induction s arbitrary: n)
  case Nil then show ?case by simp
next
  case (Cons d ds)
  have pos: "0 < prod_list ds" using Cons.prems by (cases "prod_list ds = 0") auto
  then have "n mod prod_list ds < prod_list ds" by simp
  then show ?case using Cons.IH by simp
qed

lemma unravel_valid: "n < prod_list s \<Longrightarrow> valid_index s (unravel s n)"
proof (induction s arbitrary: n)
  case Nil then show ?case by simp
next
  case (Cons d ds)
  have pos: "0 < prod_list ds" using Cons.prems by (cases "prod_list ds = 0") auto
  have "n div prod_list ds < d"
    using Cons.prems pos by (simp add: less_mult_imp_div_less mult.commute)
  moreover have "n mod prod_list ds < prod_list ds" using pos by simp
  ultimately show ?case using Cons.IH by simp
qed

lemma ravel_less: "valid_index s i \<Longrightarrow> ravel s i < prod_list s"
proof (induction s i rule: valid_index.induct)
  case (2 d ds i "is")
  then have a: "i < d" and b: "ravel ds is < prod_list ds" by auto
  have "i * prod_list ds + ravel ds is < i * prod_list ds + prod_list ds" using b by simp
  also have "\<dots> = (Suc i) * prod_list ds" by simp
  also have "\<dots> \<le> d * prod_list ds" using a by (intro mult_le_mono1) simp
  finally show ?case by simp
qed auto

lemma unravel_ravel: "valid_index s i \<Longrightarrow> unravel s (ravel s i) = i"
proof (induction s i rule: valid_index.induct)
  case (2 d ds i "is")
  then have b: "ravel ds is < prod_list ds" by (auto intro: ravel_less)
  then show ?case using 2 by simp
qed auto

lemma valid_index6:
  assumes "valid_index [a, b, c, d, e, f] j"
  obtains j0 j1 j2 j3 j4 j5 where "j = [j0, j1, j2, j3, j4, j5]"
    "j0 < a" "j1 < b" "j2 < c" "j3 < d" "j4 < e" "j5 < f"
proof -
  from assms obtain j0 r0 where 0: "j = j0 # r0" "j0 < a" "valid_index [b, c, d, e, f] r0"
    by (cases j) auto
  from 0(3) obtain j1 r1 where 1: "r0 = j1 # r1" "j1 < b" "valid_index [c, d, e, f] r1"
    by (cases r0) auto
  from 1(3) obtain j2 r2 where 2: "r1 = j2 # r2" "j2 < c" "valid_index [d, e, f] r2"
    by (cases r1) auto
  from 2(3) obtain j3 r3 where 3: "r2 = j3 # r3" "j3 < d" "valid_index [e, f] r3"
    by (cases r2) auto
  from 3(3) obtain j4 r4 where 4: "r3 = j4 # r4" "j4 < e" "valid_index [f] r4"
    by (cases r3) auto
  from 4(3) obtain j5 where 5: "r4 = [j5]" "j5 < f"
    by (cases r4; cases "tl r4") auto
  show ?thesis using that 0 1 2 3 4 5 by simp
qed

lemma upt6: "[0..<6] = [0, 1, 2, 3, 4, 5]"
  by (simp add: upt_rec)

lemma source_index_p1: "source_index [0, 2, 4, 3, 5, 1] [i0, i1, i2, i3, i4, i5] = [i0, i5, i1, i3, i2, i4]"
  by (simp add: source_index_def position_of_def upt6)

lemma source_index_p2: "source_index [0, 5, 1, 3, 2, 4] [j0, j1, j2, j3, j4, j5] = [j0, j2, j4, j3, j5, j1]"
  by (simp add: source_index_def position_of_def upt6)


lemma is_perm_p1: "is_perm [0, 2, 4, 3, 5, 1] (length [a, b, c, d, e, f])"
  by (simp add: is_perm_def)

lemma is_perm_p2: "is_perm [0, 5, 1, 3, 2, 4] (length [a, b, c, d, e, f])"
  by (simp add: is_perm_def)

lemma transpose_back_nth:
  assumes n: "n < prod_list [a, b, c, d, e, f]"
  shows "ravel [a, c, e, d, f, b] (source_index [0, 5, 1, 3, 2, 4] (unravel [a, b, c, d, e, f] n))
           < prod_list [a, c, e, d, f, b]
       \<and> ravel [a, b, c, d, e, f]
           (source_index [0, 2, 4, 3, 5, 1]
             (unravel [a, c, e, d, f, b]
               (ravel [a, c, e, d, f, b]
                 (source_index [0, 5, 1, 3, 2, 4] (unravel [a, b, c, d, e, f] n))))) = n"
proof -
  let ?s1 = "[a, b, c, d, e, f]" and ?s2 = "[a, c, e, d, f, b]"
  have v: "valid_index ?s1 (unravel ?s1 n)" using n by (rule unravel_valid)
  then obtain j0 j1 j2 j3 j4 j5 where j: "unravel ?s1 n = [j0, j1, j2, j3, j4, j5]"
    and b: "j0 < a" "j1 < b" "j2 < c" "j3 < d" "j4 < e" "j5 < f"
    by (rule valid_index6)
  let ?i = "[j0, j2, j4, j3, j5, j1]"
  have vi: "valid_index ?s2 ?i" using b by simp
  have 1: "source_index [0, 5, 1, 3, 2, 4] (unravel ?s1 n) = ?i"
    unfolding j by (rule source_index_p2)
  have 2: "unravel ?s2 (ravel ?s2 ?i) = ?i" using vi by (rule unravel_ravel)
  have 3: "source_index [0, 2, 4, 3, 5, 1] ?i = [j0, j1, j2, j3, j4, j5]"
    by (rule source_index_p1)
  have 4: "ravel ?s1 (unravel ?s1 n) = n" using n by (rule ravel_unravel)
  have 5: "ravel ?s2 ?i < prod_list ?s2" using vi by (rule ravel_less)
  show ?thesis unfolding 1 2 3 using 4 5 unfolding j by simp
qed

lemma transpose_round_trip:
  fixes t :: "'a tensor"
  assumes s: "shape t = [a, b, c, d, e, f]"
    and l: "length (data t) = prod_list [a, b, c, d, e, f]"
  shows "\<exists>u. tensor_transpose t [0, 2, 4, 3, 5, 1] = Inr u
           \<and> shape u = [a, c, e, d, f, b]
           \<and> length (data u) = prod_list [a, c, e, d, f, b]
           \<and> (\<forall>w. shape w = shape u \<and> data w = data u \<longrightarrow>
                (\<exists>v. tensor_transpose w [0, 5, 1, 3, 2, 4] = Inr v
                   \<and> shape v = [a, b, c, d, e, f] \<and> data v = data t))"
proof -
  let ?s1 = "[a, b, c, d, e, f]" and ?s2 = "[a, c, e, d, f, b]"
  let ?D2 = "map (\<lambda>n. data t ! ravel ?s1 (source_index [0, 2, 4, 3, 5, 1] (unravel ?s2 n)))
               [0..<prod_list ?s2]"
  let ?u = "\<lparr>shape = ?s2, data = ?D2\<rparr>"
  have tu: "tensor_transpose t [0, 2, 4, 3, 5, 1] = Inr ?u"
    using is_perm_p1[of a b c d e f] unfolding tensor_transpose_def transpose_shape_def s by simp
  have rt: "tensor_transpose w [0, 5, 1, 3, 2, 4]
                = Inr \<lparr>shape = ?s1, data = data t\<rparr>"
    if w: "shape w = ?s2" "data w = ?D2" for w :: "'a tensor"
  proof -
    have "map (\<lambda>n. ?D2 ! ravel ?s2 (source_index [0, 5, 1, 3, 2, 4] (unravel ?s1 n)))
            [0..<prod_list ?s1] = map (\<lambda>n. data t ! n) [0..<prod_list ?s1]"
    proof (rule map_cong[OF refl])
      fix n assume "n \<in> set [0..<prod_list ?s1]"
      then have n: "n < prod_list ?s1" by simp
      from transpose_back_nth[OF n] show
        "?D2 ! ravel ?s2 (source_index [0, 5, 1, 3, 2, 4] (unravel ?s1 n)) = data t ! n"
        by (simp del: prod_list.Cons ravel.simps unravel.simps)
    qed
    also have "\<dots> = data t" unfolding l[symmetric] by (rule map_nth)
    finally show ?thesis using is_perm_p2[of a c e d f b] unfolding tensor_transpose_def transpose_shape_def w
      by (simp del: prod_list.Cons ravel.simps unravel.simps)
  qed
  show ?thesis
    apply (rule exI[of _ ?u])
    using tu rt by (auto simp del: prod_list.Cons ravel.simps unravel.simps)
qed


lemma prod_list_int: "prod_list (map int ds) = int (prod_list ds)"
  by (induction ds) auto

lemma filter_no_minus1: "filter (\<lambda>d. d \<noteq> - 1) (map int ds) = map int ds"
  by (induction ds) auto

lemma count_no_minus1: "count_list (map int ds) (- 1) = 0"
  by (induction ds) auto

lemma list_ex_int_neg: "\<not> list_ex (\<lambda>d. d < - 1) (map int ds)" "\<not> list_ex (\<lambda>d. d = - 1) (map int ds)"
  by (induction ds) auto

lemma list_all_int_pos: "list_all (\<lambda>d. 0 < d) ds \<Longrightarrow> list_all (\<lambda>d. d \<noteq> 0) (map int ds)"
  by (induction ds) auto

lemma infer_shape_explicit:
  assumes "list_all (\<lambda>d. 0 < d) ds" and "prod_list ds = prod_list s"
  shows "infer_shape s (map int ds) = Inr ds"
proof -
  have "copy_dims s (map int ds) = Inr (map int ds)"
    using assms(1) by (intro copy_dims_pos list_all_int_pos)
  then show ?thesis
    using assms(2)
    by (simp add: infer_shape_def list_ex_int_neg filter_no_minus1 count_no_minus1
        prod_list_int comp_def)
qed

lemma infer_shape_lead:
  assumes "list_all (\<lambda>d. 0 < d) ds" and "prod_list s = n * prod_list ds"
  shows "infer_shape s (- 1 # map int ds) = Inr (n # ds)"
proof -
  have c: "copy_dims s (- 1 # map int ds) = Inr (- 1 # map int ds)"
    using assms(1) list_all_int_pos[OF assms(1)] by (intro copy_dims_pos) simp
  have pos: "0 < prod_list ds" using assms(1) by (induction ds) auto
  have m: "map (\<lambda>d. nat (if d = - 1 then int n else d)) (map int ds) = ds"
    by (induction ds) auto
  have d: "int (n * prod_list ds) div int (prod_list ds) = int n"
    using pos by (simp flip: zdiv_int)
  have md: "int (n * prod_list ds) mod int (prod_list ds) = 0"
    using pos by (simp flip: zmod_int)
  show ?thesis
    unfolding infer_shape_def c
    using pos m d md
    by (simp add: list_ex_int_neg filter_no_minus1 count_no_minus1 prod_list_int assms(2)
        Let_def comp_def)
qed


section \<open>Window partition and reverse are inverse\<close>

lemma window_partition2_example:
  "window_partition2 \<lparr>shape = [1, 2, 2, 4], data = [0, 1, 2, 3, 4, 5, 6, 7, 8, 9, 10, 11, 12, 13, 14, 15 :: nat]\<rparr> (2, 2)
     = Inr \<lparr>shape = [2, 4, 2], data = [0, 8, 1, 9, 4, 12, 5, 13, 2, 10, 3, 11, 6, 14, 7, 15]\<rparr>"
  by code_simp

text \<open>
  Claim C1.  For every rank-4 tensor \<open>x\<close> of shape \<open>(B, C, H, W)\<close> whose height is a
  multiple of \<open>window_size[0]\<close> and whose width is a multiple of \<open>window_size[1]\<close>,
  \<open>window_reverse2 (window_partition2 x window_size) window_size H W C\<close> returns \<open>x\<close>
  itself: the same shape and the same elements in the same places.  Extents and window
  sizes are positive, as they are for every feature map the network builds (a zero in a
  reshape target is a reserved value of the framework, and \<^verbatim>\<open>H % 0\<close> raises).
\<close>

theorem window_reverse2_partition2:
  fixes x :: "'a tensor"
  assumes wf: "wf_tensor x"
    and sh: "shape x = [B, C, H, W]"
    and pos: "0 < B" "0 < C" "0 < H" "0 < W"
    and w0: "0 < w0" "H mod w0 = 0"
    and w1: "0 < w1" "W mod w1 = 0"
  shows "and_then (window_partition2 x (w0, w1)) (\<lambda>windows. window_reverse2 windows (w0, w1) H W C)
           = Inr x"
proof -
  define nh where "nh = H div w0"
  define nw where "nw = W div w1"
  have H: "H = nh * w0" using w0 by (simp add: nh_def mod_eq_0_iff_dvd)
  have W: "W = nw * w1" using w1 by (simp add: nw_def mod_eq_0_iff_dvd)
  have nh: "0 < nh" using pos(3) H by (cases nh) auto
  have nw: "0 < nw" using pos(4) W by (cases nw) auto
  let ?s1 = "[B, C, nh, w0, nw, w1]" and ?s2 = "[B, nh, nw, w0, w1, C]"
  have len: "length (data x) = prod_list ?s1"
    using wf sh by (simp add: wf_tensor_def H W)
  \<comment> \<open>first reshape of the partition\<close>
  have r1: "tensor_reshape x (map int ?s1) = Inr (x\<lparr>shape := ?s1\<rparr>)"
    unfolding tensor_reshape_def
    using infer_shape_explicit[of ?s1 "shape x"] pos nh nw w0(1) w1(1)
    by (simp add: sh H W)
  from transpose_round_trip[of "x\<lparr>shape := ?s1\<rparr>" B C nh w0 nw w1] len
  obtain u where u: "tensor_transpose (x\<lparr>shape := ?s1\<rparr>) [0, 2, 4, 3, 5, 1] = Inr u"
    and us: "shape u = ?s2"
    and rt: "\<And>w. shape w = shape u \<Longrightarrow> data w = data u \<Longrightarrow>
            \<exists>v. tensor_transpose w [0, 5, 1, 3, 2, 4] = Inr v \<and> shape v = ?s1 \<and> data v = data x"
    by auto
  let ?s3 = "[B * nh * nw, w0 * w1, C]"
  have r2: "tensor_reshape u (- 1 # map int [w0 * w1, C]) = Inr (u\<lparr>shape := ?s3\<rparr>)"
    unfolding tensor_reshape_def
    using infer_shape_lead[of "[w0 * w1, C]" "shape u" "B * nh * nw"] pos w0(1) w1(1)
    by (simp add: us)
  have part: "window_partition2 x (w0, w1) = Inr (u\<lparr>shape := ?s3\<rparr>)"
    using r1 u r2 w0(1) w1(1)
    by (simp add: window_partition2_def sh floordiv_def nh_def nw_def)
  have r3: "tensor_reshape (u\<lparr>shape := ?s3\<rparr>) (- 1 # map int [nh, nw, w0, w1, C])
              = Inr (u\<lparr>shape := ?s2\<rparr>)"
    unfolding tensor_reshape_def
    using infer_shape_lead[of "[nh, nw, w0, w1, C]" ?s3 B] pos nh nw w0(1) w1(1)
    by simp
  from rt[of "u\<lparr>shape := ?s2\<rparr>"] us
  obtain v where v: "tensor_transpose (u\<lparr>shape := ?s2\<rparr>) [0, 5, 1, 3, 2, 4] = Inr v"
    and vs: "shape v = ?s1" and vd: "data v = data x"
    by auto
  have r4: "tensor_reshape v (- 1 # map int [C, H, W]) = Inr (v\<lparr>shape := [B, C, H, W]\<rparr>)"
    unfolding tensor_reshape_def
    using infer_shape_lead[of "[C, H, W]" "shape v" B] pos
    by (simp add: vs H W)
  have "v\<lparr>shape := [B, C, H, W]\<rparr> = x"
    using vd sh by simp
  then have rev: "window_reverse2 (u\<lparr>shape := ?s3\<rparr>) (w0, w1) H W C = Inr x"
    using r3 v r4 w0(1) w1(1)
    by (simp add: window_reverse2_def floordiv_def nh_def nw_def)
  show ?thesis using part rev by simp
qed

theorem window_reverse2_partition2_witness:
  "window_partition2 \<lparr>shape = [1, 2, 2, 4], data = [0, 1, 2, 3, 4, 5, 6, 7, 8, 9, 10, 11, 12, 13, 14, 15 :: nat]\<rparr> (2, 2)
     = Inr \<lparr>shape = [2, 4, 2], data = [0, 8, 1, 9, 4, 12, 5, 13, 2, 10, 3, 11, 6, 14, 7, 15]\<rparr>
   \<and> window_reverse2 \<lparr>shape = [2, 4, 2], data = [0, 8, 1, 9, 4, 12, 5, 13, 2, 10, 3, 11, 6, 14, 7, 15 :: nat]\<rparr> (2, 2) 2 4 2
     = Inr \<lparr>shape = [1, 2, 2, 4], data = [0, 1, 2, 3, 4, 5, 6, 7, 8, 9, 10, 11, 12, 13, 14, 15]\<rparr>"
proof -
  let ?x = "\<lparr>shape = [1, 2, 2, 4], data = [0, 1, 2, 3, 4, 5, 6, 7, 8, 9, 10, 11, 12, 13, 14, 15 :: nat]\<rparr>"
  have "and_then (window_partition2 ?x (2, 2)) (\<lambda>windows. window_reverse2 windows (2, 2) 2 4 2)
          = Inr ?x"
    by (rule window_reverse2_partition2[of ?x 1 2 2 4 2 2]) (simp_all add: wf_tensor_def)
  then show ?thesis
    by (simp only: window_partition2_example and_then_Inr simp_thms)
qed

section \<open>The relative position index stays inside the bias table\<close>

lemma length_concat_const:
  "length (concat (map (\<lambda>h. map (f h) ws) hs)) = length hs * length ws"
  by (induction hs) auto

lemma coords_flatten_h:
  "set (concat (fst (meshgrid (arange Wh) (arange Ww)))) \<subseteq> int ` {0..<Wh}"
  by (auto simp: meshgrid_def arange_def)

lemma coords_flatten_w:
  "set (concat (snd (meshgrid (arange Wh) (arange Ww)))) \<subseteq> int ` {0..<Ww}"
  by (auto simp: meshgrid_def arange_def)

lemma outer_diff_range:
  assumes "set v \<subseteq> int ` {0..<n}" "r \<in> set (outer_diff v)" "d \<in> set r"
  shows "- int n < d \<and> d < int n"
proof -
  from assms(2) obtain a where a: "a \<in> set v" "r = map (\<lambda>b. a - b) v"
    by (auto simp: outer_diff_def)
  from assms(3) a obtain b where b: "b \<in> set v" "d = a - b" by auto
  from a(1) assms(1) have "0 \<le> a \<and> a < int n" by auto
  moreover from b(1) assms(1) have "0 \<le> b \<and> b < int n" by auto
  ultimately show ?thesis using b(2) by linarith
qed

lemma index_bound:
  fixes p q :: int
  assumes "- Wh < p" "p < Wh" "- Ww < q" "q < Ww"
  shows "0 \<le> (p + (Wh - 1)) * (2 * Ww - 1) + (q + (Ww - 1))"
    and "(p + (Wh - 1)) * (2 * Ww - 1) + (q + (Ww - 1)) < (2 * Wh - 1) * (2 * Ww - 1)"
proof -
  have w: "0 < 2 * Ww - 1" using assms by linarith
  have a: "0 \<le> p + (Wh - 1)" and b: "p + (Wh - 1) \<le> 2 * Wh - 2" using assms by linarith+
  have c: "0 \<le> q + (Ww - 1)" and d: "q + (Ww - 1) < 2 * Ww - 1" using assms by linarith+
  show "0 \<le> (p + (Wh - 1)) * (2 * Ww - 1) + (q + (Ww - 1))"
    using a c w by simp
  have "(p + (Wh - 1)) * (2 * Ww - 1) \<le> (2 * Wh - 2) * (2 * Ww - 1)"
    using b w by (intro mult_right_mono) auto
  then have "(p + (Wh - 1)) * (2 * Ww - 1) + (q + (Ww - 1)) < (2 * Wh - 2) * (2 * Ww - 1) + (2 * Ww - 1)"
    using d by linarith
  also have "\<dots> = (2 * Wh - 1) * (2 * Ww - 1)" by (simp add: algebra_simps)
  finally show "(p + (Wh - 1)) * (2 * Ww - 1) + (q + (Ww - 1)) < (2 * Wh - 1) * (2 * Ww - 1)" .
qed


lemma length_coords_flatten:
  "length (concat (fst (meshgrid (arange Wh) (arange Ww)))) = Wh * Ww"
  "length (concat (snd (meshgrid (arange Wh) (arange Ww)))) = Wh * Ww"
  by (simp_all only: meshgrid_def arange_def fst_conv snd_conv length_concat_const
      length_map length_upt diff_zero)

lemma outer_diff_length:
  "length (outer_diff v) = length v" "r \<in> set (outer_diff v) \<Longrightarrow> length r = length v"
  by (auto simp: outer_diff_def)

lemma relative_position_index_rows:
  assumes "row \<in> set (relative_position_index (Wh, Ww))"
  obtains ra rb where
    "ra \<in> set (outer_diff (concat (fst (meshgrid (arange Wh) (arange Ww)))))"
    "rb \<in> set (outer_diff (concat (snd (meshgrid (arange Wh) (arange Ww)))))"
    "row = map (\<lambda>(a, b). (a + (int Wh - 1)) * (2 * int Ww - 1) + (b + (int Ww - 1))) (zip ra rb)"
proof -
  let ?A = "outer_diff (concat (fst (meshgrid (arange Wh) (arange Ww))))"
  let ?B = "outer_diff (concat (snd (meshgrid (arange Wh) (arange Ww))))"
  from assms obtain ra rb where z: "(ra, rb) \<in> set (zip ?A ?B)"
    and r: "row = map (\<lambda>(a, b). (a + (int Wh - 1)) * (2 * int Ww - 1) + (b + (int Ww - 1))) (zip ra rb)"
    by (auto simp: relative_position_index_def get_rel_pos_def Let_def comp_def case_prod_beta)
  from z have "ra \<in> set ?A" "rb \<in> set ?B" by (auto dest: set_zip_leftD set_zip_rightD)
  then show ?thesis using r that by blast
qed

lemma relative_position_index_example:
  "relative_position_index (2, 2) = [[4, 3, 1, 0], [5, 4, 2, 1], [7, 6, 4, 3], [8, 7, 5, 4]]"
  by code_simp

text \<open>
  Claim C6.  For every window size \<open>(Wh, Ww)\<close> the table \<open>relative_position_index\<close> built
  by the constructor of \<open>MixingAttention\<close> has \<open>Wh * Ww\<close> rows of \<open>Wh * Ww\<close> entries, and
  every entry is at least 0 and less than \<open>(2 * Wh - 1) * (2 * Ww - 1)\<close>, the number of rows
  of the relative position bias table, so the \<^verbatim>\<open>index_select\<close> of the forward pass never
  reads outside it.  (For \<open>Wh \<ge> 1\<close> and \<open>Ww \<ge> 1\<close> the table is not empty.)
\<close>

theorem relative_position_index_in_range:
  "length (relative_position_index (Wh, Ww)) = Wh * Ww \<and>
   (\<forall>row \<in> set (relative_position_index (Wh, Ww)).
      length row = Wh * Ww \<and>
      (\<forall>v \<in> set row. 0 \<le> v \<and> v < bias_table_rows (Wh, Ww)))"
proof (rule conjI)
  show "length (relative_position_index (Wh, Ww)) = Wh * Ww"
    by (simp add: relative_position_index_def get_rel_pos_def Let_def outer_diff_length
        length_coords_flatten)
next
  show "\<forall>row \<in> set (relative_position_index (Wh, Ww)).
      length row = Wh * Ww \<and> (\<forall>v \<in> set row. 0 \<le> v \<and> v < bias_table_rows (Wh, Ww))"
  proof (rule ballI)
    fix row assume "row \<in> set (relative_position_index (Wh, Ww))"
    then obtain ra rb where
      ra: "ra \<in> set (outer_diff (concat (fst (meshgrid (arange Wh) (arange Ww)))))" and
      rb: "rb \<in> set (outer_diff (concat (snd (meshgrid (arange Wh) (arange Ww)))))" and
      row: "row = map (\<lambda>(a, b). (a + (int Wh - 1)) * (2 * int Ww - 1) + (b + (int Ww - 1)))
                    (zip ra rb)"
      by (rule relative_position_index_rows)
    have len: "length row = Wh * Ww"
      using outer_diff_length(2)[OF ra] outer_diff_length(2)[OF rb]
      by (simp add: row length_coords_flatten)
    have rng: "0 \<le> v \<and> v < bias_table_rows (Wh, Ww)" if "v \<in> set row" for v
    proof -
      from that obtain a b where ab: "(a, b) \<in> set (zip ra rb)"
        and v: "v = (a + (int Wh - 1)) * (2 * int Ww - 1) + (b + (int Ww - 1))"
        by (auto simp: row)
      have a: "- int Wh < a \<and> a < int Wh"
        using outer_diff_range[OF coords_flatten_h ra set_zip_leftD[OF ab]] .
      have b: "- int Ww < b \<and> b < int Ww"
        using outer_diff_range[OF coords_flatten_w rb set_zip_rightD[OF ab]] .
      show ?thesis
        using index_bound[of "int Wh" a "int Ww" b] a b
        by (simp add: v bias_table_rows_def)
    qed
    show "length row = Wh * Ww \<and> (\<forall>v \<in> set row. 0 \<le> v \<and> v < bias_table_rows (Wh, Ww))"
      using len rng by blast
  qed
qed

theorem relative_position_index_in_range_witness:
  "relative_position_index (2, 2) = [[4, 3, 1, 0], [5, 4, 2, 1], [7, 6, 4, 3], [8, 7, 5, 4]]
   \<and> bias_table_rows (2, 2) = 9
   \<and> length (relative_position_index (2, 2)) = 4
   \<and> list_all (\<lambda>row. length row = 4 \<and> list_all (\<lambda>v. 0 \<le> v \<and> v < 9) row)
        (relative_position_index (2, 2))"
  using relative_position_index_in_range[of 2 2]
  by (simp add: relative_position_index_example bias_table_rows_def)

section \<open>Shapes: reshape with one inferred extent\<close>

lemma prod_list_pos: "list_all (\<lambda>d. 0 < d) ds \<Longrightarrow> 0 < prod_list (ds :: nat list)"
  by (induction ds) auto

lemma infer_shape_hole:
  assumes a: "list_all (\<lambda>d. 0 < d) as" and b: "list_all (\<lambda>d. 0 < d) bs"
    and p: "prod_list s = prod_list as * n * prod_list bs"
  shows "infer_shape s (map int as @ - 1 # map int bs) = Inr (as @ n # bs)"
proof -
  let ?t = "map int as @ - 1 # map int bs"
  have nz: "list_all (\<lambda>d. d \<noteq> 0) ?t"
    using list_all_int_pos[OF a] list_all_int_pos[OF b] by simp
  have c: "copy_dims s ?t = Inr ?t" using nz by (rule copy_dims_pos)
  have pos: "0 < prod_list as * prod_list bs"
    using prod_list_pos[OF a] prod_list_pos[OF b] by simp
  have k: "prod_list (filter (\<lambda>d. d \<noteq> - 1) ?t) = int (prod_list as * prod_list bs)"
    by (simp add: filter_no_minus1 prod_list_int)
  have p': "prod_list s = n * (prod_list as * prod_list bs)" using p by (simp add: ac_simps)
  have d: "int (prod_list s) div int (prod_list as * prod_list bs) = int n"
    unfolding p' using pos by (simp flip: zdiv_int)
  have md: "int (prod_list s) mod int (prod_list as * prod_list bs) = 0"
    unfolding p' using pos by (simp flip: zmod_int)
  have ma: "map (\<lambda>d. nat (if d = - 1 then int n else d)) (map int ds) = ds" for ds
    by (induction ds) auto
  have ex: "list_ex (\<lambda>d. d = - 1) ?t" by simp
  have nex: "\<not> list_ex (\<lambda>d. d < - 1) ?t" using list_ex_int_neg(1) by simp
  have cnt: "count_list ?t (- 1) = 1" by (simp add: count_no_minus1)
  show ?thesis
    unfolding infer_shape_def c and_then_Inr Let_def k d md
    using ex nex cnt pos ma by simp
qed

lemma infer_shape_last:
  assumes "list_all (\<lambda>d. 0 < d) as" "prod_list s = prod_list as * n"
  shows "infer_shape s (map int as @ [- 1]) = Inr (as @ [n])"
  using infer_shape_hole[of as "[]" s n] assms by simp

lemma infer_shape_second:
  assumes "0 < a" "list_all (\<lambda>d. 0 < d) bs" "prod_list s = a * n * prod_list bs"
  shows "infer_shape s (int a # - 1 # map int bs) = Inr (a # n # bs)"
  using infer_shape_hole[of "[a]" bs s n] assms by simp

section \<open>MixingAttention keeps the shape\<close>

lemma floordiv_Inr [simp]: "0 < b \<Longrightarrow> floordiv a b = Inr (a div b)"
  by (simp add: floordiv_def)

lemma window_reverse2_shape_ok:
  assumes "0 < B" "0 < C" "0 < nh" "0 < nw" "0 < w0" "0 < w1"
  shows "window_reverse2_shape [B * nh * nw, w0 * w1, C] (w0, w1) (nh * w0) (nw * w1) C
           = Inr [B, C, nh * w0, nw * w1]"
proof -
  have r1: "infer_shape [B * nh * nw, w0 * w1, C] (- 1 # map int [nh, nw, w0, w1, C])
              = Inr [B, nh, nw, w0, w1, C]"
    using assms by (intro infer_shape_lead) simp_all
  have r2: "infer_shape [B, C, nh, w0, nw, w1] (- 1 # map int [C, nh * w0, nw * w1])
              = Inr [B, C, nh * w0, nw * w1]"
    using assms by (intro infer_shape_lead) simp_all
  show ?thesis
    using assms r1 r2 by (simp add: window_reverse2_shape_def transpose_shape_def is_perm_def)
qed

lemma window_partition2_shape_ok:
  assumes "0 < B" "0 < C" "0 < nh" "0 < nw" "0 < w0" "0 < w1"
  shows "window_partition2_shape [B, C, nh * w0, nw * w1] (w0, w1)
           = Inr [B * nh * nw, w0 * w1, C]"
proof -
  have r1: "infer_shape [B, C, nh * w0, nw * w1] (map int [B, C, nh, w0, nw, w1])
              = Inr [B, C, nh, w0, nw, w1]"
    using assms by (intro infer_shape_explicit) simp_all
  have r2: "infer_shape [B, nh, nw, w0, w1, C] (- 1 # map int [w0 * w1, C])
              = Inr [B * nh * nw, w0 * w1, C]"
    using assms by (intro infer_shape_lead) simp_all
  show ?thesis
    using assms r1 r2 by (simp add: window_partition2_shape_def transpose_shape_def is_perm_def)
qed


lemma conv_out_same:
  assumes "odd k" "0 < n"
  shows "conv_out n k 1 (k div 2) = Inr n"
proof -
  from assms(1) obtain j where k: "k = 2 * j + 1" by (auto elim: oddE)
  show ?thesis using assms(2) by (simp add: conv_out_def k)
qed

lemma conv_out_1x1 [simp]:
  "conv_out n (Suc 0) (Suc 0) 0 = (if n = 0 then Inl ShapeError else Inr n)"
  by (simp add: conv_out_def)

lemma relative_position_bias_ok:
  assumes "0 < w0" "0 < w1" "0 < nH"
  shows "relative_position_bias
           \<lparr>ma_dim = dim', ma_window_size = (w0, w1), ma_dwconv_kernel_size = k, ma_num_heads = nH\<rparr>
         = Inr [1, nH, w0 * w1, w0 * w1]"
proof -
  let ?a = "w0 * w1"
  have a: "0 < ?a" using assms by simp
  have r1: "infer_shape [?a, ?a] (- 1 # map int []) = Inr [?a * ?a]"
    by (intro infer_shape_lead) simp_all
  have r2: "infer_shape [?a * ?a, nH] (map int [?a, ?a] @ [- 1]) = Inr ([?a, ?a] @ [nH])"
    using a by (intro infer_shape_last) simp_all
  show ?thesis
    using r1 r2
    by (simp add: relative_position_bias_def index_select_def transpose_shape_def is_perm_def
        unsqueeze_def Let_def)
qed


lemma attention_branch_ok:
  assumes pos: "0 < B" "0 < nw" "0 < w0" "0 < w1" "0 < nH" "0 < hdim"
    and dim': "dim' div 2 = nH * hdim"
  shows "attention_branch
           \<lparr>ma_dim = dim', ma_window_size = (w0, w1), ma_dwconv_kernel_size = k, ma_num_heads = nH\<rparr>
           [B * nw, w0 * w1, nH * hdim] [B, nH * hdim, 1, 1] None
         = Inr [B * nw, w0 * w1, nH * hdim]"
proof -
  let ?m = "\<lparr>ma_dim = dim', ma_window_size = (w0, w1), ma_dwconv_kernel_size = k, ma_num_heads = nH\<rparr>"
  let ?Bw = "B * nw" and ?N = "w0 * w1" and ?C = "nH * hdim"
  have lin: "Linear (dim' div 2) (dim' div 2 * 3) [?Bw, ?N, ?C] = Inr [?Bw, ?N, ?C * 3]"
    using pos by (simp add: Linear_def dim')
  have r1: "infer_shape [?Bw, ?N, ?C * 3] (map int [?Bw, ?N, 3, nH, hdim]) = Inr [?Bw, ?N, 3, nH, hdim]"
    using pos by (intro infer_shape_explicit) simp_all
  have r2: "infer_shape [B, ?C, 1, 1] (- 1 # map int [1, nH, 1, hdim]) = Inr [B, 1, nH, 1, hdim]"
    using pos by (intro infer_shape_lead) simp_all
  have r3: "infer_shape [?Bw, nH, ?N, hdim] (int B # - 1 # map int [nH, ?N, hdim])
              = Inr [B, nw, nH, ?N, hdim]"
    using pos by (intro infer_shape_second) simp_all
  have bc: "broadcast [B, nw, nH, ?N, hdim] [B, 1, nH, 1, hdim] = Inr [B, nw, nH, ?N, hdim]"
    by (simp add: broadcast_def)
  have r4: "infer_shape [B, nw, nH, ?N, hdim] (- 1 # map int [nH, ?N, hdim]) = Inr [?Bw, nH, ?N, hdim]"
    using pos by (intro infer_shape_lead) simp_all
  have mm1: "mm [?Bw, nH, ?N, hdim] [?Bw, nH, hdim, ?N] = Inr [?Bw, nH, ?N, ?N]"
    by (simp add: mm_def broadcast_def)
  have bias: "relative_position_bias ?m = Inr [1, nH, ?N, ?N]"
    using pos by (intro relative_position_bias_ok) simp_all
  have bc2: "broadcast [?Bw, nH, ?N, ?N] [1, nH, ?N, ?N] = Inr [?Bw, nH, ?N, ?N]"
    by (simp add: broadcast_def)
  have mm2: "mm [?Bw, nH, ?N, ?N] [?Bw, nH, ?N, hdim] = Inr [?Bw, nH, ?N, hdim]"
    by (simp add: mm_def broadcast_def)
  have r5: "infer_shape [?Bw, ?N, nH, hdim] (map int [?Bw, ?N, ?C]) = Inr [?Bw, ?N, ?C]"
    using pos by (intro infer_shape_explicit) simp_all
  show ?thesis
    unfolding attention_branch_def
    using pos lin r1 r2 r3 bc r4 mm1 bias bc2 mm2 r5
    by (simp add: transpose_shape_def is_perm_def select0_def elementwise_def dim0_def
        add_mask_def)
qed


lemma MixingAttention_forward_ok:
  assumes pos: "0 < B" "0 < nh" "0 < nw" "0 < w0" "0 < w1" "0 < nH"
    and dim': "16 \<le> dim'" "even dim'" "nH dvd dim' div 2"
    and k: "odd k"
  shows "MixingAttention_forward
           \<lparr>ma_dim = dim', ma_window_size = (w0, w1), ma_dwconv_kernel_size = k, ma_num_heads = nH\<rparr>
           [B * nh * nw, w0 * w1, dim'] (nh * w0) (nw * w1) None
         = Inr [B * nh * nw, w0 * w1, dim']"
proof -
  let ?m = "\<lparr>ma_dim = dim', ma_window_size = (w0, w1), ma_dwconv_kernel_size = k, ma_num_heads = nH\<rparr>"
  let ?Bw = "B * nh * nw" and ?N = "w0 * w1" and ?H = "nh * w0" and ?W = "nw * w1"
  define c where "c = dim' div 2"
  define hdim where "hdim = c div nH"
  have d2: "dim' = c + c" using dim'(2) by (auto simp: c_def elim: evenE)
  have c: "c = nH * hdim" using dim'(3) by (simp add: hdim_def c_def)
  have c8: "0 < dim' div 8" "0 < dim' div 16" "0 < c" "0 < dim'"
    using dim'(1) by (simp_all add: c_def div_greater_zero_iff)
  have hdim: "0 < hdim" using c8(3) c by (cases hdim) auto
  have HW: "0 < ?H" "0 < ?W" using pos by simp_all
  have s1: "and_then (Linear dim' (dim' div 2) [?Bw, ?N, dim']) (LayerNorm (dim' div 2))
              = Inr [?Bw, ?N, c]"
    using c8 by (simp add: Linear_def LayerNorm_def c_def)
  have s2: "LayerNorm dim' [?Bw, ?N, dim'] = Inr [?Bw, ?N, dim']"
    using c8 by (simp add: LayerNorm_def)
  have s3: "window_reverse2_shape [?Bw, ?N, dim'] (w0, w1) ?H ?W dim' = Inr [B, dim', ?H, ?W]"
    using pos c8 by (intro window_reverse2_shape_ok) simp_all
  have s4: "dwconv3x3 ?m [B, dim', ?H, ?W] = Inr [B, dim', ?H, ?W]"
    using c8 HW conv_out_same[OF k HW(1)] conv_out_same[OF k HW(2)]
    by (simp add: dwconv3x3_def Conv2D_def BatchNorm_def elementwise_def)
  have s5: "and_then (adaptive_avg_pool2d [B, dim', ?H, ?W] 1) (channel_interaction ?m)
              = Inr [B, c, 1, 1]"
    using c8
    by (simp add: adaptive_avg_pool2d_def channel_interaction_def Conv2D_def BatchNorm_def
        elementwise_def c_def)
  have s6: "Conv2D dim' (dim' div 2) 1 1 0 1 [B, dim', ?H, ?W] = Inr [B, c, ?H, ?W]"
    using c8 HW by (simp add: Conv2D_def c_def)
  have s7: "attention_branch ?m [?Bw, ?N, c] [B, c, 1, 1] None = Inr [?Bw, ?N, c]"
    unfolding c
    using attention_branch_ok[of B "nh * nw" w0 w1 nH hdim dim' k] pos hdim c
    by (simp add: c_def mult.assoc)
  have s8: "window_reverse2_shape [?Bw, ?N, c] (w0, w1) ?H ?W c = Inr [B, c, ?H, ?W]"
    using pos c8 by (intro window_reverse2_shape_ok) simp_all
  have s9: "spatial_interaction ?m [B, c, ?H, ?W] = Inr [B, 1, ?H, ?W]"
    using c8 HW
    by (simp add: spatial_interaction_def Conv2D_def BatchNorm_def elementwise_def c_def)
  have s10: "broadcast [B, 1, ?H, ?W] [B, c, ?H, ?W] = Inr [B, c, ?H, ?W]"
    by (simp add: broadcast_def)
  have s11: "BatchNorm (dim' div 2) [B, c, ?H, ?W] = Inr [B, c, ?H, ?W]"
    using c8 by (simp add: BatchNorm_def c_def)
  have s12: "window_partition2_shape [B, c, ?H, ?W] (w0, w1) = Inr [?Bw, ?N, c]"
    using pos c8 by (intro window_partition2_shape_ok) simp_all
  have s13: "LayerNorm (dim' div 2) [?Bw, ?N, c] = Inr [?Bw, ?N, c]"
    using c8 by (simp add: LayerNorm_def c_def)
  have s14: "concat_shapes [[?Bw, ?N, c], [?Bw, ?N, c]] 2 = Inr [?Bw, ?N, dim']"
    by (simp add: concat_shapes_def d2)
  have s15: "Linear dim' dim' [?Bw, ?N, dim'] = Inr [?Bw, ?N, dim']"
    using c8 by (simp add: Linear_def)
  show ?thesis
    unfolding MixingAttention_forward_def
    by (simp add: s1 s2 s3 s4 s5 s6 s7 s8 s9 s10 s11 s12 s13 s14 s15 elementwise_def
        del: One_nat_def)
qed

text \<open>
  Claim C4.  \<open>MixingAttention.forward\<close> keeps the shape: for a module built by the
  constructor and every input of shape \<open>(num_windows * B, Wh * Ww, dim)\<close>, where the
  feature map of height \<open>H\<close> and width \<open>W\<close> is cut into \<open>(H / Wh) * (W / Ww)\<close> windows per
  image and \<open>H\<close> and \<open>W\<close> are multiples of the window size, the forward pass without a
  mask returns a tensor of exactly the input's shape.  The input is valid for a module
  whose layers fit together: \<open>dim\<close> is even and at least 16 (the narrowest convolution
  has \<open>dim // 16\<close> channels), the number of heads divides \<open>dim // 2\<close>, and the depth-wise
  kernel is odd, so that its padding \<open>k // 2\<close> keeps the height and the width.
\<close>

theorem MixingAttention_forward_shape:
  assumes init: "MixingAttention_init dim' (w0, w1) k num_heads qk_scale = Inr m"
    and cfg: "16 \<le> dim'" "even dim'" "0 < num_heads" "num_heads dvd dim' div 2" "odd k"
    and win: "0 < w0" "0 < w1" "0 < H" "0 < W" "H mod w0 = 0" "W mod w1 = 0"
    and x: "0 < B" "x = [B * (H div w0) * (W div w1), w0 * w1, dim']"
  shows "MixingAttention_forward m x H W None = Inr x"
proof -
  define nh where "nh = H div w0"
  define nw where "nw = W div w1"
  have H: "H = nh * w0" using win by (simp add: nh_def mod_eq_0_iff_dvd)
  have W: "W = nw * w1" using win by (simp add: nw_def mod_eq_0_iff_dvd)
  have nh: "0 < nh" using win(3) H by (cases nh) auto
  have nw: "0 < nw" using win(4) W by (cases nw) auto
  have m: "m = \<lparr>ma_dim = dim', ma_window_size = (w0, w1), ma_dwconv_kernel_size = k,
                ma_num_heads = num_heads\<rparr>"
    using init cfg(3)
    by (auto simp: MixingAttention_init_def Let_def floordiv_def split: if_splits)
  show ?thesis
    unfolding m x(2) nh_def[symmetric] nw_def[symmetric]
    unfolding H W
    using x(1) nh nw win(1,2) cfg by (intro MixingAttention_forward_ok)
qed

theorem MixingAttention_forward_shape_witness:
  "MixingAttention_init 24 (7, 7) 3 3 (None :: int option)
     = Inr \<lparr>ma_dim = 24, ma_window_size = (7, 7), ma_dwconv_kernel_size = 3, ma_num_heads = 3\<rparr>
   \<and> MixingAttention_forward
       \<lparr>ma_dim = 24, ma_window_size = (7, 7), ma_dwconv_kernel_size = 3, ma_num_heads = 3\<rparr>
       [64, 49, 24] 56 56 None = Inr [64, 49, 24]"
proof -
  have i: "MixingAttention_init 24 (7, 7) 3 3 (None :: int option)
     = Inr \<lparr>ma_dim = 24, ma_window_size = (7, 7), ma_dwconv_kernel_size = 3, ma_num_heads = 3\<rparr>"
    by (simp add: MixingAttention_init_def floordiv_def)
  have "MixingAttention_forward
       \<lparr>ma_dim = 24, ma_window_size = (7, 7), ma_dwconv_kernel_size = 3, ma_num_heads = 3\<rparr>
       [64, 49, 24] 56 56 None = Inr [64, 49, 24]"
    by (rule MixingAttention_forward_shape[OF i, where B = 1]) simp_all
  with i show ?thesis by blast
qed

section \<open>ConvMerging halves the resolution\<close>

lemma Focus_forward_ok:
  assumes "0 < B" "0 < h" "0 < w" "0 < dim'" "0 < out_dim"
  shows "Focus_forward (Focus_init dim' out_dim) [B, dim', 2 * h, 2 * w] = Inr [B, out_dim, h, w]"
proof -
  have sl: "slice2 [B, dim', 2 * h, 2 * w] a b = Inr [B, dim', h, w]" if "a \<le> 1" "b \<le> 1" for a b
  proof -
    have "(2 * h + 1 - a) div 2 = h" "(2 * w + 1 - b) div 2 = w" using that by auto
    then show ?thesis by (simp add: slice2_def)
  qed
  have cc: "concat_shapes [[B, dim', h, w], [B, dim', h, w], [B, dim', h, w], [B, dim', h, w]] 1
              = Inr [B, dim' * 4, h, w]"
    by (simp add: concat_shapes_def)
  have cv: "BaseConv_forward \<lparr>bc_in_channels = dim' * 4, bc_out_channels = out_dim,
               bc_kernel_size = 1, bc_stride = 1\<rparr> [B, dim' * 4, h, w] = Inr [B, out_dim, h, w]"
    using assms by (simp add: BaseConv_forward_def Conv2D_def elementwise_def)
  show ?thesis
    unfolding Focus_forward_def Focus_init_def
    using sl[of 0 0] sl[of 1 0] sl[of 0 1] sl[of 1 1] cc cv by simp
qed

lemma ConvMerging_forward_even:
  assumes "0 < B" "0 < h" "0 < w" "0 < dim'" "0 < out_dim"
  shows "ConvMerging_forward (ConvMerging_init dim' out_dim) [B, 2 * h * (2 * w), dim'] (2 * h) (2 * w)
           = Inr [B, h * w, out_dim]"
proof -
  have r: "infer_shape [B, 2 * h * (2 * w), dim'] (map int [B, 2 * h, 2 * w, dim'])
             = Inr [B, 2 * h, 2 * w, dim']"
    using assms by (intro infer_shape_explicit) simp_all
  have bn: "BatchNorm dim' [B, dim', 2 * h, 2 * w] = Inr [B, dim', 2 * h, 2 * w]"
    using assms by (simp add: BatchNorm_def)
  have f: "Focus_forward (Focus_init dim' out_dim) [B, dim', 2 * h, 2 * w] = Inr [B, out_dim, h, w]"
    using assms by (rule Focus_forward_ok)
  show ?thesis
    unfolding ConvMerging_forward_def ConvMerging_init_def
    using r bn f
    by (simp add: transpose_shape_def is_perm_def flatten_from_def)
qed

text \<open>
  Claim C8.  For every input of shape \<open>(B, L, C)\<close> to a \<open>ConvMerging\<close> layer built for
  \<open>C\<close> input channels and \<open>out_dim\<close> output channels, called with the resolution
  \<open>(H, W)\<close>: when \<open>L\<close> is not \<open>H * W\<close> the first assertion fails; when \<open>H\<close> or \<open>W\<close> is odd
  the second assertion fails, with the message of the source; otherwise the result has
  shape \<open>(B, (H / 2) * (W / 2), out_dim)\<close>: both spatial extents are halved and the
  channel width is the configured output width.
\<close>

theorem ConvMerging_forward_shape:
  assumes "0 < B" "0 < H" "0 < W" "0 < dim'" "0 < out_dim"
  shows "ConvMerging_forward (ConvMerging_init dim' out_dim) [B, L, dim'] H W =
           (if L \<noteq> H * W then Inl (AssertionError ''input feature has wrong size'')
            else if odd H \<or> odd W
            then Inl (AssertionError
                       (''x size ('' @ show_nat H @ ''*'' @ show_nat W @ '') are not even.''))
            else Inr [B, (H div 2) * (W div 2), out_dim])"
proof (cases "L = H * W \<and> even H \<and> even W")
  case True
  then obtain h w where hw: "H = 2 * h" "W = 2 * w" by (auto elim!: evenE)
  have "0 < h" "0 < w" using assms hw by auto
  then show ?thesis
    using True ConvMerging_forward_even[of B h w dim' out_dim] assms
    by (simp add: hw)
next
  case False
  then show ?thesis
    by (auto simp: ConvMerging_forward_def even_iff_mod_2_eq_zero simp del: show_nat.simps)
qed

theorem ConvMerging_forward_shape_witness:
  "ConvMerging_forward (ConvMerging_init 24 48) [1, 3136, 24] 56 56 = Inr [1, 784, 48]
   \<and> ConvMerging_forward (ConvMerging_init 24 48) [1, 12, 24] 3 4
       = Inl (AssertionError ''x size (3*4) are not even.'')
   \<and> ConvMerging_forward (ConvMerging_init 24 48) [1, 3000, 24] 56 56
       = Inl (AssertionError ''input feature has wrong size'')"
  using ConvMerging_forward_shape[of 1 56 56 24 48 3136]
    ConvMerging_forward_shape[of 1 3 4 24 48 12]
    ConvMerging_forward_shape[of 1 56 56 24 48 3000]
  by simp

section \<open>PatchExpand: a plain reshape\<close>

lemma tensor_reshape_data:
  "tensor_reshape x tgt = Inr y \<Longrightarrow> data y = data x"
  by (auto simp: tensor_reshape_def and_then_def split: sum.splits)

lemma tensor_reshape_shape:
  "tensor_reshape x tgt = Inr y \<Longrightarrow> infer_shape (shape x) tgt = Inr (shape y)"
  by (auto simp: tensor_reshape_def and_then_def split: sum.splits)

lemma PatchExpand_rearrange_keeps_data:
  assumes "PatchExpand_rearrange input_resolution x = Inr y"
  shows "data y = data x"
  using assms
  by (auto simp: PatchExpand_rearrange_def and_then_def split: prod.splits list.splits
      if_splits sum.splits dest!: tensor_reshape_data)

lemma PatchExpand_rearrange_shape_ok:
  assumes "0 < B" "0 < H" "0 < W" "0 < c"
  shows "PatchExpand_rearrange_shape (H, W) [B, H * W, 4 * c] = Inr [B, 2 * H * (2 * W), c]"
proof -
  have r1: "infer_shape [B, H * W, 4 * c] (map int [B, H, W, 4 * c]) = Inr [B, H, W, 4 * c]"
    using assms by (intro infer_shape_explicit) simp_all
  have r2: "infer_shape [B, H, W, 4 * c] (map int [B, 2 * H, 2 * W, c]) = Inr [B, 2 * H, 2 * W, c]"
    using assms by (intro infer_shape_explicit) simp_all
  have r3: "infer_shape [B, 2 * H, 2 * W, c] (int B # - 1 # map int [c])
              = Inr [B, 2 * H * (2 * W), c]"
    using assms by (intro infer_shape_second) simp_all
  show ?thesis
    unfolding PatchExpand_rearrange_shape_def using r1 r2 r3 by simp
qed

lemma pixel_shuffle_spec_1_2_8:
  "pixel_shuffle_spec (1, 2)
     \<lparr>shape = [1, 2, 8], data = [a0 :: 'a::equal, a1, a2, a3, a4, a5, a6, a7, b0, b1, b2, b3, b4, b5, b6, b7]\<rparr>
   = Inr \<lparr>shape = [1, 8, 2],
          data = [a0, a1, a2, a3, b0, b1, b2, b3, a4, a5, a6, a7, b4, b5, b6, b7]\<rparr>"
  by code_simp

lemma PatchExpand_rearrange_1_2_8:
  "PatchExpand_rearrange (1, 2)
     \<lparr>shape = [1, 2, 8], data = [a0 :: 'a::equal, a1, a2, a3, a4, a5, a6, a7, b0, b1, b2, b3, b4, b5, b6, b7]\<rparr>
   = Inr \<lparr>shape = [1, 8, 2],
          data = [a0, a1, a2, a3, a4, a5, a6, a7, b0, b1, b2, b3, b4, b5, b6, b7]\<rparr>"
  by code_simp

lemma PatchExpand_rearrange_ok:
  fixes x :: "'a tensor"
  assumes "shape x = [B, H * W, 4 * c]" "0 < B" "0 < H" "0 < W" "0 < c"
  shows "PatchExpand_rearrange (H, W) x = Inr (x\<lparr>shape := [B, 2 * H * (2 * W), c]\<rparr>)"
proof -
  have r1: "infer_shape [B, H * W, 4 * c] (map int [B, H, W, 4 * c]) = Inr [B, H, W, 4 * c]"
    using assms by (intro infer_shape_explicit) simp_all
  have r2: "infer_shape [B, H, W, 4 * c] (map int [B, 2 * H, 2 * W, c]) = Inr [B, 2 * H, 2 * W, c]"
    using assms by (intro infer_shape_explicit) simp_all
  have r3: "infer_shape [B, 2 * H, 2 * W, c] (int B # - 1 # map int [c])
              = Inr [B, 2 * H * (2 * W), c]"
    using assms by (intro infer_shape_second) simp_all
  show ?thesis
    unfolding PatchExpand_rearrange_def tensor_reshape_def using r1 r2 r3 assms(1) by simp
qed

lemma PatchExpand_forward_ok:
  assumes "0 < B" "0 < H" "0 < W" "0 < d"
  shows "PatchExpand_forward \<lparr>pe_input_resolution = (H, W), pe_dim = 2 * d, pe_dim_scale = 2\<rparr>
           [B, H * W, 2 * d] = Inr [B, 2 * H * (2 * W), d]"
proof -
  have e: "expand \<lparr>pe_input_resolution = (H, W), pe_dim = 2 * d, pe_dim_scale = 2\<rparr>
             [B, H * W, 2 * d] = Inr [B, H * W, 4 * d]"
    using assms by (simp add: expand_def Linear_def)
  have r: "PatchExpand_rearrange_shape (H, W) [B, H * W, 4 * d] = Inr [B, 2 * H * (2 * W), d]"
    using assms by (rule PatchExpand_rearrange_shape_ok)
  show ?thesis
    unfolding PatchExpand_forward_def using e r assms(4) by (simp add: LayerNorm_def)
qed

lemma upt_8: "[0..<8] = [0, 1, 2, 3, 4, 5, 6, 7]"
  by (simp add: upt_rec)

lemma upt_small: "[0..<2] = [0, 1]" "[0..<4] = [0, 1, 2, 3]"
  by (simp_all add: upt_rec)

lemma Linear_values_example:
  "Linear_values 4 8
     [[1, 0, 0, 0, 1, 0, 0, 0], [0, 1, 0, 0, 0, 1, 0, 0],
      [0, 0, 1, 0, 0, 0, 1, 0], [0, 0, 0, 1, 0, 0, 0, 1]]
     \<lparr>shape = [1, 2, 4], data = [1, 0, 0, 0, 0, 0, 0, 0]\<rparr>
   = Inr \<lparr>shape = [1, 2, 8], data = [1, 0, 0, 0, 1, 0, 0, 0, 0, 0, 0, 0, 0, 0, 0, 0]\<rparr>"
  by (simp add: Linear_values_def Linear_def vectors_def matmul_row_def upt_8 upt_small)

lemma normalize_1_0:
  "normalize [1, 1] [0, 0] (1 / 100000) [1, 0]
     = [1 / 2 / sqrt (1 / 4 + 1 / 100000), - (1 / 2) / sqrt (1 / 4 + 1 / 100000)]"
  by (simp add: normalize_def upt_small Let_def)

lemma normalize_0_0:
  "normalize [1, 1] [0, 0] (1 / 100000) [0, 0] = [0, 0]"
  by (simp add: normalize_def upt_small Let_def)

lemma LayerNorm_values_code:
  "LayerNorm_values 2 [1, 1] [0, 0] (1 / 100000)
     \<lparr>shape = [1, 8, 2], data = [1, 0, 0, 0, 1, 0, 0, 0, 0, 0, 0, 0, 0, 0, 0, 0]\<rparr>
   = Inr \<lparr>shape = [1, 8, 2],
          data = [1 / 2 / sqrt (1 / 4 + 1 / 100000), - (1 / 2) / sqrt (1 / 4 + 1 / 100000), 0, 0,
                  1 / 2 / sqrt (1 / 4 + 1 / 100000), - (1 / 2) / sqrt (1 / 4 + 1 / 100000), 0, 0,
                  0, 0, 0, 0, 0, 0, 0, 0]\<rparr>"
  unfolding LayerNorm_values_def
  by (simp add: LayerNorm_def vectors_def upt_8 normalize_1_0 normalize_0_0)

lemma LayerNorm_values_spec:
  "LayerNorm_values 2 [1, 1] [0, 0] (1 / 100000)
     \<lparr>shape = [1, 8, 2], data = [1, 0, 0, 0, 0, 0, 0, 0, 1, 0, 0, 0, 0, 0, 0, 0]\<rparr>
   = Inr \<lparr>shape = [1, 8, 2],
          data = [1 / 2 / sqrt (1 / 4 + 1 / 100000), - (1 / 2) / sqrt (1 / 4 + 1 / 100000), 0, 0,
                  0, 0, 0, 0,
                  1 / 2 / sqrt (1 / 4 + 1 / 100000), - (1 / 2) / sqrt (1 / 4 + 1 / 100000), 0, 0,
                  0, 0, 0, 0]\<rparr>"
  unfolding LayerNorm_values_def
  by (simp add: LayerNorm_def vectors_def upt_8 normalize_1_0 normalize_0_0)

lemma PatchExpand_init_1_2:
  "PatchExpand_init (1, 2) 4 2 = Inr \<lparr>pe_input_resolution = (1, 2), pe_dim = 4, pe_dim_scale = 2\<rparr>"
  by (simp add: PatchExpand_init_def floordiv_def)

text \<open>
  Claim C3, at an input where the code and the claim part.  The module is
  \<^verbatim>\<open>PatchExpand(input_resolution=(1, 2), dim=4)\<close>: its expansion has a weight of shape
  \<open>(4, 8)\<close>, here the matrix that writes every vector twice, and its normalisation is
  \<^verbatim>\<open>LayerNorm(2)\<close> with the initial weight 1 and bias 0.  The input has shape \<open>(1, 2, 4)\<close>:
  the vector \<open>(1, 0, 0, 0)\<close> at the first position and zeros at the second.  After the
  expansion the first position holds \<open>(1, 0, 0, 0, 1, 0, 0, 0)\<close>, that is the four channel
  pairs \<open>(1, 0)\<close>, \<open>(0, 0)\<close>, \<open>(1, 0)\<close>, \<open>(0, 0)\<close>.  The normalisation sends \<open>(1, 0)\<close> to
  \<open>(c, - c)\<close> with \<open>c = (1/2) / sqrt (1/4 + 1/100000) > 0\<close> and \<open>(0, 0)\<close> to \<open>(0, 0)\<close>.

  The code reshapes without moving an element, so the four pairs of the first position
  become the first row of the 2 by 4 output map and the second row is zero.  With the
  2 by 2 blocks of the claim, which the source keeps as a comment above its reshape, the
  four pairs of the first position fill the left block: the pairs \<open>(1, 0)\<close> are at
  positions \<open>(0, 0)\<close> and \<open>(1, 0)\<close> of the map instead of \<open>(0, 0)\<close> and \<open>(0, 2)\<close>.  The two
  results have the same shape \<open>(1, 8, 2)\<close> and different values.
\<close>

theorem PatchExpand_not_pixel_shuffle:
  "(let c = 1 / 2 / sqrt (1 / 4 + 1 / 100000);
        p = \<lparr>expand_weight = [[1, 0, 0, 0, 1, 0, 0, 0], [0, 1, 0, 0, 0, 1, 0, 0],
                               [0, 0, 1, 0, 0, 0, 1, 0], [0, 0, 0, 1, 0, 0, 0, 1]],
             norm_weight = [1, 1], norm_bias = [0, 0]\<rparr>;
        x = \<lparr>shape = [1, 2, 4], data = [1, 0, 0, 0, 0, 0, 0, 0]\<rparr>
    in and_then (PatchExpand_init (1, 2) 4 2) (\<lambda>pe. PatchExpand_forward_values pe p x)
         = Inr \<lparr>shape = [1, 8, 2], data = [c, - c, 0, 0, c, - c, 0, 0, 0, 0, 0, 0, 0, 0, 0, 0]\<rparr>
       \<and> and_then (PatchExpand_init (1, 2) 4 2) (\<lambda>pe. PatchExpand_spec_values pe p x)
         = Inr \<lparr>shape = [1, 8, 2], data = [c, - c, 0, 0, 0, 0, 0, 0, c, - c, 0, 0, 0, 0, 0, 0]\<rparr>
       \<and> 0 < c
       \<and> and_then (PatchExpand_init (1, 2) 4 2) (\<lambda>pe. PatchExpand_forward_values pe p x)
         \<noteq> and_then (PatchExpand_init (1, 2) 4 2) (\<lambda>pe. PatchExpand_spec_values pe p x))"
proof -
  let ?w = "[[1, 0, 0, 0, 1, 0, 0, 0], [0, 1, 0, 0, 0, 1, 0, 0],
             [0, 0, 1, 0, 0, 0, 1, 0], [0, 0, 0, 1, 0, 0, 0, 1 :: real]]"
  let ?p = "\<lparr>expand_weight = ?w, norm_weight = [1, 1], norm_bias = [0, 0]\<rparr>"
  let ?x = "\<lparr>shape = [1, 2, 4], data = [1, 0, 0, 0, 0, 0, 0, 0 :: real]\<rparr>"
  let ?pe = "\<lparr>pe_input_resolution = (1, 2), pe_dim = 4, pe_dim_scale = 2\<rparr>"
  define c :: real where "c = 1 / 2 / sqrt (1 / 4 + 1 / 100000)"
  have c: "0 < c" unfolding c_def by simp
  have m: "- (1 / 2) / sqrt (1 / 4 + 1 / 100000) = - c" unfolding c_def by simp
  have d: "(4::nat) div 2 = 2" by simp
  have k: "(2::nat) * 4 = 8" by simp
  have e: "(if pe_dim_scale ?pe = 2
            then Linear_values (pe_dim ?pe) (2 * pe_dim ?pe) (expand_weight ?p) ?x
            else Inr ?x)
           = Inr \<lparr>shape = [1, 2, 8], data = [1, 0, 0, 0, 1, 0, 0, 0, 0, 0, 0, 0, 0, 0, 0, 0]\<rparr>"
    unfolding PatchExpand.simps PatchExpand_parameters.simps k
    by (simp only: if_True simp_thms Linear_values_example)
  have code: "PatchExpand_forward_values ?pe ?p ?x
         = Inr \<lparr>shape = [1, 8, 2], data = [c, - c, 0, 0, c, - c, 0, 0, 0, 0, 0, 0, 0, 0, 0, 0]\<rparr>"
    unfolding PatchExpand_forward_values_def e and_then_Inr
    unfolding PatchExpand.simps PatchExpand_parameters.simps
      PatchExpand_rearrange_1_2_8 and_then_Inr d LayerNorm_values_code m c_def[symmetric]
    by (rule refl)
  have spec: "PatchExpand_spec_values ?pe ?p ?x
         = Inr \<lparr>shape = [1, 8, 2], data = [c, - c, 0, 0, 0, 0, 0, 0, c, - c, 0, 0, 0, 0, 0, 0]\<rparr>"
    unfolding PatchExpand_spec_values_def e and_then_Inr
    unfolding PatchExpand.simps PatchExpand_parameters.simps
      pixel_shuffle_spec_1_2_8 and_then_Inr d LayerNorm_values_spec m c_def[symmetric]
    by (rule refl)
  have ne: "PatchExpand_forward_values ?pe ?p ?x \<noteq> PatchExpand_spec_values ?pe ?p ?x"
    unfolding code spec using c by simp
  show ?thesis
    unfolding Let_def PatchExpand_init_1_2 and_then_Inr c_def[symmetric]
    using code spec c ne by (intro conjI)
qed

section \<open>MixingBlock keeps the shape\<close>

lemma conv_out_3x3: "0 < n \<Longrightarrow> conv_out n 3 (Suc 0) (Suc 0) = Inr n"
  by (simp add: conv_out_def)

lemma Bottleneck_forward_ok:
  assumes "0 < H" "0 < W" "2 \<le> dim'"
  shows "Bottleneck_forward \<lparr>bn_in_channel = dim', bn_out_channel = dim'\<rparr> [B, dim', H, W]
           = Inr [B, dim', H, W]"
proof -
  have d: "0 < dim'" "0 < dim' div 2" using assms(3) by (simp_all add: div_greater_zero_iff)
  have bc: "broadcast [B, dim', H, W] [B, dim', H, W] = Inr [B, dim', H, W]"
    by (simp add: broadcast_def)
  show ?thesis
    unfolding Bottleneck_forward_def expansion_def
    using assms(1,2) d bc
    by (simp add: Conv2D_def BatchNorm_def elementwise_def inplace_def conv_out_3x3 Let_def)
qed

lemma Mlp_forward_ok:
  assumes "0 < d" "0 < hid"
  shows "Mlp_forward \<lparr>mlp_in_features = d, mlp_hidden_features = hid\<rparr> [B, L, d] = Inr [B, L, d]"
  using assms by (simp add: Mlp_forward_def Linear_def elementwise_def)

lemma window_partition_ok:
  assumes "0 < B" "0 < C" "0 < nh" "0 < nw" "0 < ws"
  shows "window_partition [B, nh * ws, nw * ws, C] ws = Inr [B * nh * nw, ws, ws, C]"
proof -
  have r1: "infer_shape [B, nh * ws, nw * ws, C] (map int [B, nh, ws, nw, ws, C])
              = Inr [B, nh, ws, nw, ws, C]"
    using assms by (intro infer_shape_explicit) simp_all
  have r2: "infer_shape [B, nh, nw, ws, ws, C] (- 1 # map int [ws, ws, C])
              = Inr [B * nh * nw, ws, ws, C]"
    using assms by (intro infer_shape_lead) simp_all
  show ?thesis
    using assms r1 r2 by (simp add: window_partition_def transpose_shape_def is_perm_def)
qed

lemma window_reverse_ok:
  assumes "0 < B" "0 < C" "0 < nh" "0 < nw" "0 < ws"
  shows "window_reverse [B * nh * nw, ws, ws, C] ws (nh * ws) (nw * ws) = Inr [B, nh * ws, nw * ws, C]"
proof -
  have r1: "infer_shape [B * nh * nw, ws, ws, C] (- 1 # map int [nh, nw, ws, ws, C])
              = Inr [B, nh, nw, ws, ws, C]"
    using assms by (intro infer_shape_lead) simp_all
  have r2: "infer_shape [B, nh, ws, nw, ws, C] (- 1 # map int [nh * ws, nw * ws, C])
              = Inr [B, nh * ws, nw * ws, C]"
    using assms by (intro infer_shape_lead) simp_all
  show ?thesis
    using assms r1 r2 by (simp add: window_reverse_def transpose_shape_def is_perm_def)
qed

lemma pad_multiple:
  assumes "0 < ws"
  shows "(n + (ws - n mod ws) mod ws) mod ws = (0::nat)"
proof (cases "n mod ws = 0")
  case True
  then show ?thesis by simp
next
  case False
  have lt: "n mod ws < ws" using assms by simp
  then have p: "(ws - n mod ws) mod ws = ws - n mod ws" using False by simp
  define q where "q = n div ws"
  define r where "r = n mod ws"
  have n: "n = q * ws + r" by (simp add: q_def r_def)
  have "r < ws" using lt by (simp add: r_def)
  then have e: "n + (ws - r) = (q + 1) * ws" unfolding n by (simp add: algebra_simps)
  have "(n + (ws - n mod ws) mod ws) mod ws = (n + (ws - r)) mod ws"
    using p by (simp add: r_def)
  also have "\<dots> = 0" unfolding e by simp
  finally show ?thesis .
qed

lemma MixingBlock_padding_ok:
  assumes "0 < ws"
  shows "MixingBlock_padding ws H W
           = Inr (0, 0, (ws - W mod ws) mod ws, (ws - H mod ws) mod ws)"
  using assms by (simp add: MixingBlock_padding_def pymod_def)

lemma MixingBlock_init_ok:
  assumes "layers_fit dim' num_heads ws k mlp_ratio"
  shows "MixingBlock_init dim' num_heads ws k 0 mlp_ratio qk_scale =
           Inr \<lparr>mb_dim = dim', mb_num_heads = num_heads, mb_window_size = ws, mb_shift_size = 0,
                mb_attn = \<lparr>ma_dim = dim', ma_window_size = (ws, ws), ma_dwconv_kernel_size = k,
                            ma_num_heads = num_heads\<rparr>,
                mb_mlp = \<lparr>mlp_in_features = dim', mlp_hidden_features = dim' * mlp_ratio\<rparr>,
                mb_bottle_neck_cnn = \<lparr>bn_in_channel = dim', bn_out_channel = dim'\<rparr>\<rparr>"
proof -
  from assms have h: "0 < num_heads" "num_heads dvd dim' div 2" "16 \<le> dim'"
    by (simp_all add: layers_fit_def)
  have "0 < dim' div 2" using h(3) by (simp add: div_greater_zero_iff)
  then have "0 < dim' div 2 div num_heads"
    using h(1,2) by (auto simp: div_greater_zero_iff dvd_imp_le)
  then show ?thesis
    using h(1)
    by (simp add: MixingBlock_init_def MixingAttention_init_def to_2tuple_def floordiv_def Let_def)
qed

lemma MixingBlock_forward_is_x:
  "MixingBlock_forward blk H W x mask_matrix
     = and_then (MixingBlock_forward_locals blk H W x mask_matrix) (\<lambda>l. Inr (mbl_x l))"
  by (simp add: MixingBlock_forward_def)

lemma MixingBlock_forward_locals_ok:
  assumes fit: "layers_fit dim' num_heads ws k mlp_ratio"
    and blk: "MixingBlock_init dim' num_heads ws k 0 mlp_ratio qk_scale = Inr blk"
    and pos: "0 < B" "0 < H" "0 < W"
    and pad: "pad_r = (ws - W mod ws) mod ws" "pad_b = (ws - H mod ws) mod ws"
  shows "MixingBlock_forward_locals blk H W [B, H * W, dim'] mask_matrix =
           Inr \<lparr>mbl_pad = [0, 0, 0, pad_b, 0, pad_r, 0, 0],
                mbl_padded = [B, H + pad_b, W + pad_r, dim'],
                mbl_Hp = H + pad_b, mbl_Wp = W + pad_r, mbl_attn_mask = None,
                mbl_x_windows = [B * ((H + pad_b) div ws) * ((W + pad_r) div ws), ws * ws, dim'],
                mbl_shifted_x = [B, H + pad_b, W + pad_r, dim'],
                mbl_cropped = [B, H, W, dim'],
                mbl_x = [B, H * W, dim']\<rparr>"
proof -
  from fit have c: "16 \<le> dim'" "even dim'" "0 < num_heads" "num_heads dvd dim' div 2"
    "0 < ws" "odd k" "0 < mlp_ratio"
    by (simp_all add: layers_fit_def)
  have d: "0 < dim'" "2 \<le> dim'" using c(1) by simp_all
  define nh where "nh = (H + pad_b) div ws"
  define nw where "nw = (W + pad_r) div ws"
  have Hp: "H + pad_b = nh * ws"
    using pad_multiple[OF c(5), of H] by (simp add: nh_def pad mod_eq_0_iff_dvd)
  have Wp: "W + pad_r = nw * ws"
    using pad_multiple[OF c(5), of W] by (simp add: nw_def pad mod_eq_0_iff_dvd)
  have nh: "0 < nh" using pos(2) Hp by (cases nh) auto
  have nw: "0 < nw" using pos(3) Wp by (cases nw) auto
  let ?attn = "\<lparr>ma_dim = dim', ma_window_size = (ws, ws), ma_dwconv_kernel_size = k,
                 ma_num_heads = num_heads\<rparr>"
  have b: "blk = \<lparr>mb_dim = dim', mb_num_heads = num_heads, mb_window_size = ws, mb_shift_size = 0,
                  mb_attn = ?attn,
                  mb_mlp = \<lparr>mlp_in_features = dim', mlp_hidden_features = dim' * mlp_ratio\<rparr>,
                  mb_bottle_neck_cnn = \<lparr>bn_in_channel = dim', bn_out_channel = dim'\<rparr>\<rparr>"
    using blk MixingBlock_init_ok[OF fit, of qk_scale] by simp
  have s1: "LayerNorm dim' [B, H * W, dim'] = Inr [B, H * W, dim']"
    using d by (simp add: LayerNorm_def)
  have s2: "infer_shape [B, H * W, dim'] (map int [B, H, W, dim']) = Inr [B, H, W, dim']"
    using pos d by (intro infer_shape_explicit) simp_all
  have s3: "Bottleneck_forward \<lparr>bn_in_channel = dim', bn_out_channel = dim'\<rparr> [B, dim', H, W]
              = Inr [B, dim', H, W]"
    using pos d by (intro Bottleneck_forward_ok) simp_all
  have s4: "MixingBlock_padding ws H W = Inr (0, 0, pad_r, pad_b)"
    unfolding pad using c(5) by (rule MixingBlock_padding_ok)
  have s5: "F_pad [B, H, W, dim'] [0, 0, 0, pad_b, 0, pad_r, 0, 0] = Inr [B, nh * ws, nw * ws, dim']"
    by (simp add: F_pad_def Hp[symmetric] Wp[symmetric])
  have s6: "window_partition [B, nh * ws, nw * ws, dim'] ws = Inr [B * nh * nw, ws, ws, dim']"
    using pos(1) d(1) nh nw c(5) by (rule window_partition_ok)
  have s7: "infer_shape [B * nh * nw, ws, ws, dim'] (- 1 # map int [ws * ws, dim'])
              = Inr [B * nh * nw, ws * ws, dim']"
    using c(5) d(1) by (intro infer_shape_lead) simp_all
  have s8: "MixingAttention_forward ?attn [B * nh * nw, ws * ws, dim'] (nh * ws) (nw * ws) None
              = Inr [B * nh * nw, ws * ws, dim']"
    using pos(1) nh nw c by (intro MixingAttention_forward_ok) simp_all
  have s9: "infer_shape [B * nh * nw, ws * ws, dim'] (- 1 # map int [ws, ws, dim'])
              = Inr [B * nh * nw, ws, ws, dim']"
    using c(5) d(1) by (intro infer_shape_lead) simp_all
  have s10: "window_reverse [B * nh * nw, ws, ws, dim'] ws (nh * ws) (nw * ws)
               = Inr [B, nh * ws, nw * ws, dim']"
    using pos(1) d(1) nh nw c(5) by (rule window_reverse_ok)
  have s11: "(if 0 < pad_r \<or> 0 < pad_b then crop_hw [B, nh * ws, nw * ws, dim'] H W
              else Inr [B, nh * ws, nw * ws, dim']) = Inr [B, H, W, dim']"
    using Hp Wp by (auto simp: crop_hw_def)
  have s12: "infer_shape [B, H, W, dim'] (map int [B, H * W, dim']) = Inr [B, H * W, dim']"
    using pos d by (intro infer_shape_explicit) simp_all
  have s13: "broadcast [B, H * W, dim'] [B, H * W, dim'] = Inr [B, H * W, dim']"
    by (simp add: broadcast_def)
  have s14: "Mlp_forward \<lparr>mlp_in_features = dim', mlp_hidden_features = dim' * mlp_ratio\<rparr>
               [B, H * W, dim'] = Inr [B, H * W, dim']"
    using d c(7) by (intro Mlp_forward_ok) simp_all
  have r: "MixingBlock_forward_locals blk H W [B, H * W, dim'] mask_matrix =
           Inr \<lparr>mbl_pad = [0, 0, 0, pad_b, 0, pad_r, 0, 0],
                mbl_padded = [B, nh * ws, nw * ws, dim'],
                mbl_Hp = nh * ws, mbl_Wp = nw * ws, mbl_attn_mask = None,
                mbl_x_windows = [B * nh * nw, ws * ws, dim'],
                mbl_shifted_x = [B, nh * ws, nw * ws, dim'],
                mbl_cropped = [B, H, W, dim'],
                mbl_x = [B, H * W, dim']\<rparr>"
    unfolding MixingBlock_forward_locals_def b
    using s2 s7 s9 s12
    by (simp add: s1 s3 s4 s5 s6 s8 s10 s11 s13 s14 transpose_shape_def is_perm_def
        cyclic_shift_def reverse_cyclic_shift_def elementwise_def
        del: One_nat_def)
  have q: "(H + pad_b) div ws = nh" "(W + pad_r) div ws = nw"
    by (simp_all add: nh_def nw_def)
  show ?thesis
    unfolding r q unfolding Hp Wp by (rule refl)
qed

lemma MixingBlock_forward_ok:
  assumes fit: "layers_fit dim' num_heads ws k mlp_ratio"
    and blk: "MixingBlock_init dim' num_heads ws k 0 mlp_ratio qk_scale = Inr blk"
    and pos: "0 < B" "0 < H" "0 < W"
  shows "MixingBlock_forward blk H W [B, H * W, dim'] mask_matrix = Inr [B, H * W, dim']"
  unfolding MixingBlock_forward_is_x MixingBlock_forward_locals_ok[OF fit blk pos refl refl]
  by simp

section \<open>MixingBlock: assertion, padding and shape\<close>

text \<open>
  Claim C5.  For a block built by the constructor with arguments whose layers fit, and
  every input of shape \<open>(B, L, dim)\<close> with the resolution \<open>(H, W)\<close> assigned to the block:
  when \<open>L\<close> is not \<open>H * W\<close> the size assertion fails; otherwise \<open>forward\<close> returns a tensor
  of the input's shape \<open>(B, H * W, dim)\<close>, and on the way its local variables take these
  values.  The list it hands to \<^verbatim>\<open>F.pad\<close> is \<open>[0, 0, 0, pad_b, 0, pad_r, 0, 0]\<close> with
  \<open>pad_r = (ws - W % ws) % ws\<close> and \<open>pad_b = (ws - H % ws) % ws\<close>: nothing before the first
  row or column of any axis, \<open>pad_b\<close> rows after the last row and \<open>pad_r\<close> columns after
  the last column.  The padded map is \<open>(B, H + pad_b, W + pad_r, dim)\<close>, and
  \<open>Hp = H + pad_b\<close>, \<open>Wp = W + pad_r\<close> go to the attention with the windows of that map
  and no mask.  The window reversal gives the padded map back, and the statement that
  crops leaves \<open>(B, H, W, dim)\<close>.  Both pad amounts are less than a window and make the
  two extents multiples of the window size.
\<close>

theorem MixingBlock_forward_shape:
  assumes fit: "layers_fit dim' num_heads ws k mlp_ratio"
    and blk: "MixingBlock_init dim' num_heads ws k 0 mlp_ratio qk_scale = Inr blk"
    and pos: "0 < B" "0 < H" "0 < W"
    and pad: "pad_r = (ws - W mod ws) mod ws" "pad_b = (ws - H mod ws) mod ws"
  shows "MixingBlock_forward_locals blk H W [B, L, dim'] mask_matrix =
           (if L \<noteq> H * W then Inl (AssertionError ''input feature has wrong size'')
            else Inr \<lparr>mbl_pad = [0, 0, 0, pad_b, 0, pad_r, 0, 0],
                     mbl_padded = [B, H + pad_b, W + pad_r, dim'],
                     mbl_Hp = H + pad_b, mbl_Wp = W + pad_r, mbl_attn_mask = None,
                     mbl_x_windows =
                       [B * ((H + pad_b) div ws) * ((W + pad_r) div ws), ws * ws, dim'],
                     mbl_shifted_x = [B, H + pad_b, W + pad_r, dim'],
                     mbl_cropped = [B, H, W, dim'],
                     mbl_x = [B, H * W, dim']\<rparr>)
         \<and> MixingBlock_forward blk H W [B, L, dim'] mask_matrix =
           (if L \<noteq> H * W then Inl (AssertionError ''input feature has wrong size'')
            else Inr [B, H * W, dim'])
         \<and> MixingBlock_padding (mb_window_size blk) H W = Inr (0, 0, pad_r, pad_b)
         \<and> F_pad [B, H, W, dim'] [0, 0, 0, pad_b, 0, pad_r, 0, 0] = Inr [B, H + pad_b, W + pad_r, dim']
         \<and> (H + pad_b) mod ws = 0 \<and> (W + pad_r) mod ws = 0 \<and> pad_b < ws \<and> pad_r < ws
         \<and> crop_hw [B, H + pad_b, W + pad_r, dim'] H W = Inr [B, H, W, dim']"
proof -
  from fit have ws: "0 < ws" by (simp add: layers_fit_def)
  have w: "mb_window_size blk = ws"
    using blk MixingBlock_init_ok[OF fit, of qk_scale] by auto
  have 0: "MixingBlock_forward_locals blk H W [B, L, dim'] mask_matrix =
           (if L \<noteq> H * W then Inl (AssertionError ''input feature has wrong size'')
            else Inr \<lparr>mbl_pad = [0, 0, 0, pad_b, 0, pad_r, 0, 0],
                     mbl_padded = [B, H + pad_b, W + pad_r, dim'],
                     mbl_Hp = H + pad_b, mbl_Wp = W + pad_r, mbl_attn_mask = None,
                     mbl_x_windows =
                       [B * ((H + pad_b) div ws) * ((W + pad_r) div ws), ws * ws, dim'],
                     mbl_shifted_x = [B, H + pad_b, W + pad_r, dim'],
                     mbl_cropped = [B, H, W, dim'],
                     mbl_x = [B, H * W, dim']\<rparr>)"
  proof (cases "L = H * W")
    case True
    then show ?thesis using MixingBlock_forward_locals_ok[OF fit blk pos pad] by simp
  next
    case False
    then show ?thesis by (simp add: MixingBlock_forward_locals_def)
  qed
  have 1: "MixingBlock_forward blk H W [B, L, dim'] mask_matrix =
           (if L \<noteq> H * W then Inl (AssertionError ''input feature has wrong size'')
            else Inr [B, H * W, dim'])"
    unfolding MixingBlock_forward_is_x 0 by simp
  have 2: "MixingBlock_padding (mb_window_size blk) H W = Inr (0, 0, pad_r, pad_b)"
    unfolding w pad using ws by (rule MixingBlock_padding_ok)
  have 3: "F_pad [B, H, W, dim'] [0, 0, 0, pad_b, 0, pad_r, 0, 0]
             = Inr [B, H + pad_b, W + pad_r, dim']"
    by (simp add: F_pad_def)
  have 4: "(H + pad_b) mod ws = 0" "(W + pad_r) mod ws = 0"
    unfolding pad using ws by (rule pad_multiple)+
  have 5: "pad_b < ws" "pad_r < ws" unfolding pad using ws by simp_all
  have 6: "crop_hw [B, H + pad_b, W + pad_r, dim'] H W = Inr [B, H, W, dim']"
    by (simp add: crop_hw_def)
  show ?thesis using 0 1 2 3 4 5 6 by (intro conjI)
qed

theorem MixingBlock_forward_shape_witness:
  "MixingBlock_forward_locals
      \<lparr>mb_dim = 24, mb_num_heads = 3, mb_window_size = 7, mb_shift_size = 0,
        mb_attn = \<lparr>ma_dim = 24, ma_window_size = (7, 7), ma_dwconv_kernel_size = 3,
                    ma_num_heads = 3\<rparr>,
        mb_mlp = \<lparr>mlp_in_features = 24, mlp_hidden_features = 96\<rparr>,
        mb_bottle_neck_cnn = \<lparr>bn_in_channel = 24, bn_out_channel = 24\<rparr>\<rparr>
      10 12 [2, 120, 24] None
     = Inr \<lparr>mbl_pad = [0, 0, 0, 4, 0, 2, 0, 0], mbl_padded = [2, 14, 14, 24],
            mbl_Hp = 14, mbl_Wp = 14, mbl_attn_mask = None, mbl_x_windows = [8, 49, 24],
            mbl_shifted_x = [2, 14, 14, 24], mbl_cropped = [2, 10, 12, 24],
            mbl_x = [2, 120, 24]\<rparr>
   \<and> MixingBlock_forward
      \<lparr>mb_dim = 24, mb_num_heads = 3, mb_window_size = 7, mb_shift_size = 0,
        mb_attn = \<lparr>ma_dim = 24, ma_window_size = (7, 7), ma_dwconv_kernel_size = 3,
                    ma_num_heads = 3\<rparr>,
        mb_mlp = \<lparr>mlp_in_features = 24, mlp_hidden_features = 96\<rparr>,
        mb_bottle_neck_cnn = \<lparr>bn_in_channel = 24, bn_out_channel = 24\<rparr>\<rparr>
      10 12 [2, 120, 24] None = Inr [2, 120, 24]
   \<and> MixingBlock_forward
      \<lparr>mb_dim = 24, mb_num_heads = 3, mb_window_size = 7, mb_shift_size = 0,
        mb_attn = \<lparr>ma_dim = 24, ma_window_size = (7, 7), ma_dwconv_kernel_size = 3,
                    ma_num_heads = 3\<rparr>,
        mb_mlp = \<lparr>mlp_in_features = 24, mlp_hidden_features = 96\<rparr>,
        mb_bottle_neck_cnn = \<lparr>bn_in_channel = 24, bn_out_channel = 24\<rparr>\<rparr>
      10 12 [2, 121, 24] None = Inl (AssertionError ''input feature has wrong size'')
   \<and> MixingBlock_padding 7 10 12 = Inr (0, 0, 2, 4)
   \<and> F_pad [2, 10, 12, 24] [0, 0, 0, 4, 0, 2, 0, 0] = Inr [2, 14, 14, 24]
   \<and> crop_hw [2, 14, 14, 24] 10 12 = Inr [2, 10, 12, 24]"
proof -
  have fit: "layers_fit 24 3 7 3 4" by (simp add: layers_fit_def)
  note i = MixingBlock_init_ok[OF fit, of "None :: int option"]
  have p: "(2::nat) = (7 - 12 mod 7) mod 7" "(4::nat) = (7 - 10 mod 7) mod 7" by simp_all
  have pos: "(0::nat) < 2" "(0::nat) < 10" "(0::nat) < 12" by simp_all
  note t = MixingBlock_forward_shape[OF fit i pos p, where L = 120 and mask_matrix = None]
  note u = MixingBlock_forward_shape[OF fit i pos p, where L = 121 and mask_matrix = None]
  have e: "(24::nat) * 4 = 96" "(10::nat) * 12 = 120" "(10::nat) + 4 = 14" "(12::nat) + 2 = 14"
    "(2::nat) * (14 div 7) * (14 div 7) = 8" "(7::nat) * 7 = 49"
    by simp_all
  have n: "((120::nat) \<noteq> 120) = False" "((121::nat) \<noteq> 120) = True" by simp_all
  note t' = t[unfolded e n if_False MixingBlock.simps]
  note u' = u[unfolded e n if_True MixingBlock.simps, THEN conjunct2, THEN conjunct1]
  from t' u' show ?thesis by (simp only: simp_thms)
qed


section \<open>MixingBlock: no shift\<close>

text \<open>
  Claim C9.  Constructing a \<open>MixingBlock\<close> with a shift size other than 0 raises the
  assertion error ``No shift in MixUnet'', whatever the other arguments are; with shift
  size 0 and arguments whose layers fit the construction succeeds; and every block that
  was constructed has shift size 0, so that its forward pass takes the branch without
  \<^verbatim>\<open>paddle.roll\<close> in both directions (\<open>roll\<close> is any function here) and hands the
  attention no mask (\<open>None\<close>), whatever mask the caller passed.
\<close>

theorem MixingBlock_shift_size:
  "(shift_size \<noteq> 0 \<longrightarrow>
      MixingBlock_init dim' num_heads ws k shift_size mlp_ratio qk_scale
        = Inl (AssertionError ''No shift in MixUnet''))
   \<and> (layers_fit dim' num_heads ws k mlp_ratio \<longrightarrow>
        (\<exists>blk. MixingBlock_init dim' num_heads ws k 0 mlp_ratio qk_scale = Inr blk))
   \<and> (\<forall>blk. MixingBlock_init dim' num_heads ws k shift_size mlp_ratio qk_scale = Inr blk \<longrightarrow>
        shift_size = 0 \<and> mb_shift_size blk = 0
        \<and> cyclic_shift blk roll x mask_matrix = (x, None)
        \<and> reverse_cyclic_shift blk roll y = y)"
proof (intro conjI impI allI)
  assume "shift_size \<noteq> 0"
  then show "MixingBlock_init dim' num_heads ws k shift_size mlp_ratio qk_scale
               = Inl (AssertionError ''No shift in MixUnet'')"
    by (simp add: MixingBlock_init_def)
next
  assume "layers_fit dim' num_heads ws k mlp_ratio"
  then show "\<exists>blk. MixingBlock_init dim' num_heads ws k 0 mlp_ratio qk_scale = Inr blk"
    using MixingBlock_init_ok by blast
next
  fix blk
  assume b: "MixingBlock_init dim' num_heads ws k shift_size mlp_ratio qk_scale = Inr blk"
  then have z: "shift_size = 0" by (auto simp: MixingBlock_init_def split: if_splits)
  from b have s: "mb_shift_size blk = 0"
    by (auto simp: MixingBlock_init_def and_then_def Let_def split: if_splits sum.splits)
  show "shift_size = 0" by (rule z)
  show "mb_shift_size blk = 0" by (rule s)
  show "cyclic_shift blk roll x mask_matrix = (x, None)" using s by (simp add: cyclic_shift_def)
  show "reverse_cyclic_shift blk roll y = y" using s by (simp add: reverse_cyclic_shift_def)
qed

theorem MixingBlock_shift_size_witness:
  "MixingBlock_init 24 3 7 3 3 4 (None :: int option) = Inl (AssertionError ''No shift in MixUnet'')
   \<and> MixingBlock_init 24 3 7 3 0 4 (None :: int option) =
       Inr \<lparr>mb_dim = 24, mb_num_heads = 3, mb_window_size = 7, mb_shift_size = 0,
            mb_attn = \<lparr>ma_dim = 24, ma_window_size = (7, 7), ma_dwconv_kernel_size = 3,
                        ma_num_heads = 3\<rparr>,
            mb_mlp = \<lparr>mlp_in_features = 24, mlp_hidden_features = 96\<rparr>,
            mb_bottle_neck_cnn = \<lparr>bn_in_channel = 24, bn_out_channel = 24\<rparr>\<rparr>
   \<and> cyclic_shift
        \<lparr>mb_dim = 24, mb_num_heads = 3, mb_window_size = 7, mb_shift_size = 0,
          mb_attn = \<lparr>ma_dim = 24, ma_window_size = (7, 7), ma_dwconv_kernel_size = 3,
                      ma_num_heads = 3\<rparr>,
          mb_mlp = \<lparr>mlp_in_features = 24, mlp_hidden_features = 96\<rparr>,
          mb_bottle_neck_cnn = \<lparr>bn_in_channel = 24, bn_out_channel = 24\<rparr>\<rparr>
        roll_shape [1, 56, 56, 24] (Some [64, 49, 49 :: nat]) = ([1, 56, 56, 24], None)"
proof -
  have fit: "layers_fit 24 3 7 3 4" by (simp add: layers_fit_def)
  have e: "(24::nat) * 4 = 96" by simp
  note i = MixingBlock_init_ok[OF fit, of "None :: int option", unfolded e]
  have n: "(3::int) \<noteq> 0" by simp
  note a = MixingBlock_shift_size[where shift_size = 3 and dim' = 24 and num_heads = 3 and ws = 7
      and k = 3 and mlp_ratio = 4 and qk_scale = "None :: int option",
      THEN conjunct1, THEN mp, OF n]
  note c = MixingBlock_shift_size[where shift_size = 0 and dim' = 24 and num_heads = 3 and ws = 7
      and k = 3 and mlp_ratio = 4 and qk_scale = "None :: int option" and roll = roll_shape
      and x = "[1, 56, 56, 24]" and mask_matrix = "Some [64, 49, 49 :: nat]",
      THEN conjunct2, THEN conjunct2, THEN spec, THEN mp, OF i,
      THEN conjunct2, THEN conjunct2, THEN conjunct1]
  from a i c show ?thesis by (intro conjI)
qed

section \<open>Feature maps are rebuilt as squares\<close>

lemma isqrt_upto_sq: "isqrt_upto n k * isqrt_upto n k \<le> n"
  by (induction k) auto

lemma isqrt_upto_max: "r \<le> k \<Longrightarrow> r * r \<le> n \<Longrightarrow> r \<le> isqrt_upto n k"
proof (induction k)
  case 0 then show ?case by simp
next
  case (Suc k)
  show ?case
  proof (cases "Suc k * Suc k \<le> n")
    case True
    then show ?thesis using Suc.prems by simp
  next
    case False
    then have "r \<noteq> Suc k" using Suc.prems by auto
    then have "r \<le> k" using Suc.prems by simp
    then show ?thesis using Suc False by simp
  qed
qed

lemma square_le_imp_le: "(s::nat) * s \<le> r * r \<Longrightarrow> s \<le> r"
proof (rule ccontr)
  assume le: "s * s \<le> r * r" and "\<not> s \<le> r"
  then have "Suc r \<le> s" by simp
  then have "Suc r * Suc r \<le> s * s" by (intro mult_le_mono)
  then show False using le by simp
qed

lemma isqrt_square [simp]: "isqrt (r * r) = r"
proof (rule antisym)
  have "isqrt (r * r) * isqrt (r * r) \<le> r * r" unfolding isqrt_def by (rule isqrt_upto_sq)
  then show "isqrt (r * r) \<le> r" by (rule square_le_imp_le)
next
  show "r \<le> isqrt (r * r)"
    unfolding isqrt_def by (rule isqrt_upto_max) (simp_all add: le_square)
qed

lemma isqrt_pos: "0 < n \<Longrightarrow> 0 < isqrt n"
proof -
  assume "0 < n"
  then have "1 \<le> isqrt_upto n n" by (intro isqrt_upto_max) simp_all
  then show ?thesis by (simp add: isqrt_def)
qed

lemma infer_shape_mismatch:
  assumes "list_all (\<lambda>d. 0 < d) ds" and "prod_list ds \<noteq> prod_list s"
  shows "infer_shape s (map int ds) = Inl ShapeError"
proof -
  have "copy_dims s (map int ds) = Inr (map int ds)"
    using assms(1) by (intro copy_dims_pos list_all_int_pos)
  then show ?thesis
    using assms(2)
    by (simp add: infer_shape_def list_ex_int_neg filter_no_minus1 count_no_minus1
        prod_list_int comp_def)
qed

lemma to_feature_map_eq:
  assumes "0 < B" "0 < L" "0 < C"
  shows "to_feature_map [B, L, C] =
           (if isqrt L * isqrt L = L then Inr [B, C, isqrt L, isqrt L] else Inl ShapeError)"
proof -
  define r where "r = isqrt L"
  have r: "0 < r" unfolding r_def using assms(2) by (rule isqrt_pos)
  show ?thesis
  proof (cases "r * r = L")
    case True
    have "infer_shape [B, L, C] (map int [B, r, r, C]) = Inr [B, r, r, C]"
      using assms r True by (intro infer_shape_explicit) auto
    then show ?thesis
      using True
      by (simp add: to_feature_map_def elementwise_def r_def[symmetric] transpose_shape_def
          is_perm_def)
  next
    case False
    have "infer_shape [B, L, C] (map int [B, r, r, C]) = Inl ShapeError"
      using assms r False by (intro infer_shape_mismatch) auto
    then show ?thesis
      using False
      by (simp add: to_feature_map_def elementwise_def r_def[symmetric])
  qed
qed

text \<open>
  \<open>forward_up_features\<close> rebuilds the spatial size of the output of every decoder stage
  as \<open>H = W = int(sqrt(L))\<close>.  For a stage of \<open>Wh\<close> by \<open>Ww\<close> positions the collected feature
  map is the stage's own map \<open>(B, C, Wh, Ww)\<close> exactly when \<open>Wh = Ww\<close>.  Otherwise the
  reshape raises when \<open>L = Wh * Ww\<close> is not a perfect square, and when it is one the stage
  comes out as the square map of side \<open>int(sqrt(L))\<close>: a stage of 2 by 8 positions has
  16 tokens and comes out as a 4 by 4 map.
\<close>

lemma to_feature_map_2_by_8:
  "to_feature_map [1, 2 * 8, 192] = Inr [1, 192, 4, 4]"
proof -
  have "(2::nat) * 8 = 4 * 4" by simp
  then have i: "isqrt (2 * 8) = 4" by (simp only: isqrt_square)
  have "to_feature_map [1, 2 * 8, 192] =
          (if isqrt (2 * 8) * isqrt (2 * 8) = 2 * 8 then Inr [1, 192, isqrt (2 * 8), isqrt (2 * 8)]
           else Inl ShapeError)"
    by (rule to_feature_map_eq) simp_all
  then show ?thesis unfolding i by simp
qed

lemma to_feature_map_square:
  assumes "0 < B" "0 < C" "0 < Wh" "0 < Ww"
  shows "(to_feature_map [B, Wh * Ww, C] = Inr [B, C, Wh, Ww] \<longleftrightarrow> Wh = Ww)
       \<and> (to_feature_map [B, Wh * Ww, C] =
            (if isqrt (Wh * Ww) * isqrt (Wh * Ww) = Wh * Ww
             then Inr [B, C, isqrt (Wh * Ww), isqrt (Wh * Ww)]
             else Inl ShapeError))"
proof -
  have L: "0 < Wh * Ww" using assms by simp
  note e = to_feature_map_eq[OF assms(1) L assms(2)]
  have "to_feature_map [B, Wh * Ww, C] = Inr [B, C, Wh, Ww] \<longleftrightarrow> Wh = Ww"
  proof
    assume "to_feature_map [B, Wh * Ww, C] = Inr [B, C, Wh, Ww]"
    then have "isqrt (Wh * Ww) = Wh \<and> isqrt (Wh * Ww) = Ww"
      unfolding e by (auto split: if_splits)
    then show "Wh = Ww" by simp
  next
    assume "Wh = Ww"
    then show "to_feature_map [B, Wh * Ww, C] = Inr [B, C, Wh, Ww]"
      unfolding e by simp
  qed
  then show ?thesis using e by blast
qed

section \<open>Stages keep, halve and double the resolution\<close>

lemma sequence_const: "sequence (map (\<lambda>i. Inr v) xs) = Inr (map (\<lambda>i. v) xs)"
  by (induction xs) auto

lemma sequence_length: "sequence ms = Inr vs \<Longrightarrow> length vs = length ms"
  by (induction ms arbitrary: vs) (auto simp: and_then_def split: sum.splits)

lemma run_blocks_ok:
  assumes fit: "layers_fit dim' num_heads ws k mlp_ratio" and pos: "0 < B" "0 < H" "0 < W"
  shows "run_blocks (map (\<lambda>i. fitted_block dim' num_heads ws k mlp_ratio) xs) H W [B, H * W, dim']
           = Inr [B, H * W, dim']"
proof (induction xs)
  case Nil
  show ?case by simp
next
  case (Cons a xs)
  have i: "MixingBlock_init dim' num_heads ws k 0 mlp_ratio (None :: int option)
             = Inr (fitted_block dim' num_heads ws k mlp_ratio)"
    unfolding fitted_block_def using fit by (rule MixingBlock_init_ok)
  have "MixingBlock_forward (fitted_block dim' num_heads ws k mlp_ratio) H W [B, H * W, dim'] None
          = Inr [B, H * W, dim']"
    using fit i pos by (rule MixingBlock_forward_ok)
  then show ?case using Cons.IH by simp
qed

lemma BasicLayer_init_ok:
  assumes fit: "layers_fit dim' num_heads ws k mlp_ratio"
  shows "BasicLayer_init dim' depth num_heads ws k mlp_ratio qk_scale down out_dim =
           Inr \<lparr>bl_blocks = map (\<lambda>i. fitted_block dim' num_heads ws k mlp_ratio) [0..<depth],
                bl_downsample = (if down then Some (ConvMerging_init dim' out_dim) else None)\<rparr>"
  unfolding BasicLayer_init_def MixingBlock_init_ok[OF fit] fitted_block_def[symmetric]
    sequence_const
  by simp

lemma BasicLayer_forward_down:
  assumes fit: "layers_fit dim' num_heads ws k mlp_ratio"
    and pos: "0 < B" "0 < h" "0 < w" "0 < out_dim"
  shows "BasicLayer_forward
           \<lparr>bl_blocks = map (\<lambda>i. fitted_block dim' num_heads ws k mlp_ratio) [0..<depth],
             bl_downsample = Some (ConvMerging_init dim' out_dim)\<rparr>
           [B, 2 * h * (2 * w), dim'] (2 * h) (2 * w)
         = Inr (2 * h, 2 * w, [B, h * w, out_dim], h, w)"
proof -
  have d: "0 < dim'" using fit by (simp add: layers_fit_def)
  have r: "run_blocks (map (\<lambda>i. fitted_block dim' num_heads ws k mlp_ratio) [0..<depth])
             (2 * h) (2 * w) [B, 2 * h * (2 * w), dim'] = Inr [B, 2 * h * (2 * w), dim']"
    using fit pos(1,2,3) by (intro run_blocks_ok) simp_all
  have c: "ConvMerging_forward (ConvMerging_init dim' out_dim) [B, 2 * h * (2 * w), dim']
             (2 * h) (2 * w) = Inr [B, h * w, out_dim]"
    using pos d by (intro ConvMerging_forward_even) simp_all
  have e: "(2 * h + 1) div 2 = h" "(2 * w + 1) div 2 = w" by simp_all
  show ?thesis
    unfolding BasicLayer_forward_def BasicLayer.simps r and_then_Inr option.case c Let_def e
    by (rule refl)
qed

lemma BasicLayer_forward_last:
  assumes fit: "layers_fit dim' num_heads ws k mlp_ratio"
    and pos: "0 < B" "0 < H" "0 < W"
  shows "BasicLayer_forward
           \<lparr>bl_blocks = map (\<lambda>i. fitted_block dim' num_heads ws k mlp_ratio) [0..<depth],
             bl_downsample = None\<rparr>
           [B, H * W, dim'] H W
         = Inr (H, W, [B, H * W, dim'], H, W)"
  unfolding BasicLayer_forward_def
  by (simp add: run_blocks_ok[OF fit pos])

lemma BasicLayer_up_init_ok:
  assumes fit: "layers_fit dim' num_heads ws k mlp_ratio"
  shows "BasicLayer_up_init dim' res depth num_heads ws k mlp_ratio qk_scale True =
           Inr \<lparr>blu_blocks = map (\<lambda>i. fitted_block dim' num_heads ws k mlp_ratio) [0..<depth],
                blu_upsample = Some \<lparr>pe_input_resolution = res, pe_dim = dim', pe_dim_scale = 2\<rparr>\<rparr>"
  unfolding BasicLayer_up_init_def MixingBlock_init_ok[OF fit] fitted_block_def[symmetric]
    sequence_const
  by (simp add: PatchExpand_init_def floordiv_def)

lemma BasicLayer_up_forward_ok:
  assumes fit: "layers_fit (2 * d) num_heads ws k mlp_ratio"
    and pos: "0 < B" "0 < H" "0 < W"
  shows "BasicLayer_up_forward
           \<lparr>blu_blocks = map (\<lambda>i. fitted_block (2 * d) num_heads ws k mlp_ratio) [0..<depth],
             blu_upsample = Some \<lparr>pe_input_resolution = (H, W), pe_dim = 2 * d, pe_dim_scale = 2\<rparr>\<rparr>
           [B, H * W, 2 * d] H W
         = Inr ([B, 2 * H * (2 * W), d], [B, H * W, 2 * d])"
proof -
  have d: "0 < d" using fit by (simp add: layers_fit_def)
  have p: "PatchExpand_forward \<lparr>pe_input_resolution = (H, W), pe_dim = 2 * d, pe_dim_scale = 2\<rparr>
             [B, H * W, 2 * d] = Inr [B, 2 * H * (2 * W), d]"
    using pos d by (intro PatchExpand_forward_ok)
  show ?thesis
    unfolding BasicLayer_up_forward_def
    by (simp add: run_blocks_ok[OF fit pos] p Let_def)
qed

section \<open>The encoder and the decoder of a four-stage network\<close>

lemma ConvEmbed_forward_ok:
  assumes pos: "0 < B" "0 < cin" "0 < p" "0 < q" and e: "2 \<le> e" "even e"
  shows "ConvEmbed_forward
           \<lparr>ce_patch_size = (4, 4), ce_patches_resolution = r, ce_num_patches = n,
             ce_in_chans = cin, ce_embed_dim = e, ce_norm = True\<rparr>
           [B, cin, 4 * p, 4 * q] = Inr [B, e, p, q]"
proof -
  let ?ce = "\<lparr>ce_patch_size = (4, 4), ce_patches_resolution = r, ce_num_patches = n,
             ce_in_chans = cin, ce_embed_dim = e, ce_norm = True\<rparr>"
  have h: "0 < e div 2" "0 < e" using e by (simp_all add: div_greater_zero_iff)
  have c1: "conv_out (4 * p) 3 2 1 = Inr (2 * p)" "conv_out (4 * q) 3 2 1 = Inr (2 * q)"
    using pos by (simp_all add: conv_out_def)
  have c2: "conv_out (2 * p) 3 1 1 = Inr (2 * p)" "conv_out (2 * q) 3 1 1 = Inr (2 * q)"
    using pos by (simp_all add: conv_out_def)
  have c3: "conv_out (2 * p) 2 2 0 = Inr p" "conv_out (2 * q) 2 2 0 = Inr q"
    using pos by (simp_all add: conv_out_def)
  have st: "stem ?ce [B, cin, 4 * p, 4 * q] = Inr [B, e div 2, 2 * p, 2 * q]"
    unfolding stem_def Let_def
    using pos h
    by (simp add: Conv2D_def BatchNorm_def elementwise_def c1 c2 del: One_nat_def)
  have pj: "Conv2D (e div 2) e 2 2 0 1 [B, e div 2, 2 * p, 2 * q] = Inr [B, e, p, q]"
    using h by (simp add: Conv2D_def c3)
  have ln: "LayerNorm e [B, p * q, e] = Inr [B, p * q, e]"
    using h by (simp add: LayerNorm_def)
  have rs: "infer_shape [B, e, p * q] (- 1 # map int [e, p, q]) = Inr [B, e, p, q]"
    using pos h by (intro infer_shape_lead) simp_all
  have m4: "(4 * p) mod 4 = 0" "(4 * q) mod 4 = 0" by simp_all
  show ?thesis
    unfolding ConvEmbed_forward_def
    using rs
    by (simp add: pymod_def m4 st pj ln flatten_from_def transpose_shape_def is_perm_def
        del: One_nat_def)
qed


lemma layers_fit_double:
  "layers_fit dim' nh ws k mlp \<Longrightarrow> 0 < dim' \<and> 0 < 2 * dim'"
  by (simp add: layers_fit_def)

lemma run_layers_4stage:
  assumes f0: "layers_fit e h0 ws k mlp" and f1: "layers_fit (2 * e) h1 ws k mlp"
    and f2: "layers_fit (4 * e) h2 ws k mlp" and f3: "layers_fit (8 * e) h3 ws k mlp"
    and pos: "0 < B" "0 < a" "0 < b"
  shows "run_layers
           [fitted_layer e d0 h0 ws k mlp (Some (ConvMerging_init e (2 * e))),
            fitted_layer (2 * e) d1 h1 ws k mlp (Some (ConvMerging_init (2 * e) (4 * e))),
            fitted_layer (4 * e) d2 h2 ws k mlp (Some (ConvMerging_init (4 * e) (8 * e))),
            fitted_layer (8 * e) d3 h3 ws k mlp None]
           [B, 8 * a * (8 * b), e] [] (8 * a) (8 * b)
         = Inr ([B, a * b, 8 * e],
                [[B, 8 * a * (8 * b), e], [B, 4 * a * (4 * b), 2 * e],
                 [B, 2 * a * (2 * b), 4 * e], [B, a * b, 8 * e]], a, b)"
proof -
  have e: "0 < e" using f0 by (simp add: layers_fit_def)
  have s0: "BasicLayer_forward (fitted_layer e d0 h0 ws k mlp (Some (ConvMerging_init e (2 * e))))
              [B, 8 * a * (8 * b), e] (8 * a) (8 * b)
            = Inr (8 * a, 8 * b, [B, 4 * a * (4 * b), 2 * e], 4 * a, 4 * b)"
    using BasicLayer_forward_down[OF f0, of B "4 * a" "4 * b" "2 * e" d0] pos e
    by (simp add: fitted_layer_def)
  have s1: "BasicLayer_forward
              (fitted_layer (2 * e) d1 h1 ws k mlp (Some (ConvMerging_init (2 * e) (4 * e))))
              [B, 4 * a * (4 * b), 2 * e] (4 * a) (4 * b)
            = Inr (4 * a, 4 * b, [B, 2 * a * (2 * b), 4 * e], 2 * a, 2 * b)"
    using BasicLayer_forward_down[OF f1, of B "2 * a" "2 * b" "4 * e" d1] pos e
    by (simp add: fitted_layer_def)
  have s2: "BasicLayer_forward
              (fitted_layer (4 * e) d2 h2 ws k mlp (Some (ConvMerging_init (4 * e) (8 * e))))
              [B, 2 * a * (2 * b), 4 * e] (2 * a) (2 * b)
            = Inr (2 * a, 2 * b, [B, a * b, 8 * e], a, b)"
    using BasicLayer_forward_down[OF f2, of B a b "8 * e" d2] pos e
    by (simp add: fitted_layer_def)
  have s3: "BasicLayer_forward (fitted_layer (8 * e) d3 h3 ws k mlp None) [B, a * b, 8 * e] a b
            = Inr (a, b, [B, a * b, 8 * e], a, b)"
    using BasicLayer_forward_last[OF f3, of B a b d3] pos
    by (simp add: fitted_layer_def)
  show ?thesis
    unfolding run_layers.simps s0 s1 s2 s3 and_then_Inr prod.case append.simps
    by (rule refl)
qed


lemma forward_features_4stage:
  assumes pe: "mu_patch_embed m =
                 \<lparr>ce_patch_size = (4, 4), ce_patches_resolution = r, ce_num_patches = n,
                   ce_in_chans = cin, ce_embed_dim = e, ce_norm = True\<rparr>"
    and layers: "mu_layers m =
           [fitted_layer e d0 h0 ws k mlp (Some (ConvMerging_init e (2 * e))),
            fitted_layer (2 * e) d1 h1 ws k mlp (Some (ConvMerging_init (2 * e) (4 * e))),
            fitted_layer (4 * e) d2 h2 ws k mlp (Some (ConvMerging_init (4 * e) (8 * e))),
            fitted_layer (8 * e) d3 h3 ws k mlp None]"
    and nf: "mu_num_feature m = 8 * e"
    and ape: "\<not> mu_ape m"
    and f0: "layers_fit e h0 ws k mlp" and f1: "layers_fit (2 * e) h1 ws k mlp"
    and f2: "layers_fit (4 * e) h2 ws k mlp" and f3: "layers_fit (8 * e) h3 ws k mlp"
    and pos: "0 < B" "0 < cin" "0 < a" "0 < b"
  shows "forward_features m [B, cin, 32 * a, 32 * b]
         = Inr ([B, a * b, 8 * e],
                [[B, 8 * a * (8 * b), e], [B, 4 * a * (4 * b), 2 * e],
                 [B, 2 * a * (2 * b), 4 * e], [B, a * b, 8 * e]], a, b)"
proof -
  have e: "2 \<le> e" "even e" "0 < e" using f0 by (simp_all add: layers_fit_def)
  have ce: "ConvEmbed_forward (mu_patch_embed m) [B, cin, 32 * a, 32 * b]
              = Inr [B, e, 8 * a, 8 * b]"
    unfolding pe
    using ConvEmbed_forward_ok[of B cin "8 * a" "8 * b" e r n] pos e by simp
  have fl: "flatten_from [B, e, 8 * a, 8 * b] 2 = Inr [B, e, 8 * a * (8 * b)]"
    by (simp add: flatten_from_def)
  have tr: "transpose_shape [B, e, 8 * a * (8 * b)] [0, 2, 1] = Inr [B, 8 * a * (8 * b), e]"
    by (simp add: transpose_shape_def is_perm_def)
  note rl = run_layers_4stage[OF f0 f1 f2 f3 pos(1,3,4), of d0 d1 d2 d3]
  have ln: "LayerNorm (8 * e) [B, a * b, 8 * e] = Inr [B, a * b, 8 * e]"
    using e by (simp add: LayerNorm_def)
  have na: "mu_ape m = False" using ape by simp
  show ?thesis
    unfolding forward_features_def ce and_then_Inr list.case fl tr na if_False elementwise_def
      layers rl prod.case nf ln
    by (rule refl)
qed


lemma to_feature_map_sq:
  assumes "0 < B" "0 < C" "0 < s"
  shows "to_feature_map [B, s * s, C] = Inr [B, C, s, s]"
  using to_feature_map_eq[of B "s * s" C] assms by simp

lemma up_stage_0:
  assumes pos: "0 < B" "0 < s" "0 < d"
  shows "up_stage m 0 (Up_PatchExpand \<lparr>pe_input_resolution = (s, s), pe_dim = 2 * d,
                                          pe_dim_scale = 2\<rparr>)
           [B, s * s, 2 * d] x_downsample Wh Ww
         = Inr ([B, 2 * s * (2 * s), d], [B, 2 * d, s, s])"
proof -
  have p: "PatchExpand_forward \<lparr>pe_input_resolution = (s, s), pe_dim = 2 * d, pe_dim_scale = 2\<rparr>
             [B, s * s, 2 * d] = Inr [B, 2 * s * (2 * s), d]"
    using pos by (intro PatchExpand_forward_ok)
  have f: "to_feature_map [B, s * s, 2 * d] = Inr [B, 2 * d, s, s]"
    using pos by (intro to_feature_map_sq) simp_all
  show ?thesis
    unfolding up_stage_def if_True[of] layer_up.case Let_def p and_then_Inr f
    by simp
qed

lemma up_stage_later:
  assumes fit: "layers_fit (2 * d) nh ws 3 mlp"
    and pos: "0 < B" "0 < s" "0 < inx"
    and skip: "skip_tensor x_downsample inx = Inr [B, s * s, 2 * d]"
    and cb: "py_index (mu_concat_back_dim m) (int inx) = Inr (Some (2 * (2 * d), 2 * d))"
  shows "up_stage m inx (Up_BasicLayer (fitted_layer_up (2 * d) (s, s) depth nh ws mlp))
           [B, s * s, 2 * d] x_downsample s s
         = Inr ([B, 2 * s * (2 * s), d], [B, 2 * d, s, s])"
proof -
  have d: "0 < d" using fit by (simp add: layers_fit_def)
  have cc: "concat_shapes [[B, s * s, 2 * d], [B, s * s, 2 * d]] (length [B, s * s, 2 * d] - 1)
              = Inr [B, s * s, 2 * (2 * d)]"
    by (simp add: concat_shapes_def)
  have li: "concat_back (Some (2 * (2 * d), 2 * d)) [B, s * s, 2 * (2 * d)] = Inr [B, s * s, 2 * d]"
    using d by (simp add: concat_back_def Linear_def)
  have bl: "BasicLayer_up_forward (fitted_layer_up (2 * d) (s, s) depth nh ws mlp)
              [B, s * s, 2 * d] s s = Inr ([B, 2 * s * (2 * s), d], [B, s * s, 2 * d])"
    unfolding fitted_layer_up_def using fit pos(1,2,2) by (rule BasicLayer_up_forward_ok)
  have f: "to_feature_map [B, s * s, 2 * d] = Inr [B, 2 * d, s, s]"
    using pos d by (intro to_feature_map_sq) simp_all
  have n: "(inx = 0) = False" using pos(3) by simp
  show ?thesis
    unfolding up_stage_def n if_False skip and_then_Inr cc cb li layer_up.case bl prod.case f
    by (rule refl)
qed


lemma forward_up_features_4stage:
  assumes ups: "mu_layers_up m =
           [Up_PatchExpand \<lparr>pe_input_resolution = (s, s), pe_dim = 2 * (2 * (2 * e)),
                             pe_dim_scale = 2\<rparr>,
            Up_BasicLayer (fitted_layer_up (2 * (2 * e)) (2 * s, 2 * s) d2 h2 ws mlp),
            Up_BasicLayer (fitted_layer_up (2 * e) (2 * (2 * s), 2 * (2 * s)) d1 h1 ws mlp)]"
    and cb: "mu_concat_back_dim m =
           [None, Some (2 * (2 * (2 * e)), 2 * (2 * e)), Some (2 * (2 * e), 2 * e)]"
    and g2: "layers_fit (2 * (2 * e)) h2 ws 3 mlp" and g1: "layers_fit (2 * e) h1 ws 3 mlp"
    and pos: "0 < B" "0 < s"
    and sk1: "skip_tensor x_downsample 1 = Inr [B, 2 * s * (2 * s), 2 * (2 * e)]"
    and sk2: "skip_tensor x_downsample 2 = Inr [B, 2 * (2 * s) * (2 * (2 * s)), 2 * e]"
  shows "forward_up_features m [B, s * s, 2 * (2 * (2 * e))] x_downsample s s
         = Inr ([B, 2 * e, 2 * (2 * s), 2 * (2 * s)],
                [[B, 2 * (2 * (2 * e)), s, s], [B, 2 * (2 * e), 2 * s, 2 * s],
                 [B, 2 * e, 2 * (2 * s), 2 * (2 * s)]])"
proof -
  have e: "0 < e" using g1 by (simp add: layers_fit_def)
  have en: "enumerate 0 (mu_layers_up m) =
              [(0, Up_PatchExpand \<lparr>pe_input_resolution = (s, s), pe_dim = 2 * (2 * (2 * e)),
                                    pe_dim_scale = 2\<rparr>),
               (1, Up_BasicLayer (fitted_layer_up (2 * (2 * e)) (2 * s, 2 * s) d2 h2 ws mlp)),
               (2, Up_BasicLayer (fitted_layer_up (2 * e) (2 * (2 * s), 2 * (2 * s)) d1 h1 ws mlp))]"
    unfolding ups by (simp add: numeral_2_eq_2)
  have q: "s * 2 = 2 * s" "2 * s * 2 = 2 * (2 * s)" by simp_all
  have c1: "py_index (mu_concat_back_dim m) (int 1)
              = Inr (Some (2 * (2 * (2 * e)), 2 * (2 * e)))"
    unfolding cb by (simp add: py_index_def)
  have c2: "py_index (mu_concat_back_dim m) (int 2) = Inr (Some (2 * (2 * e), 2 * e))"
    unfolding cb by (simp add: py_index_def)
  have u0: "up_stage m 0 (Up_PatchExpand \<lparr>pe_input_resolution = (s, s),
                pe_dim = 2 * (2 * (2 * e)), pe_dim_scale = 2\<rparr>)
              [B, s * s, 2 * (2 * (2 * e))] x_downsample s s
            = Inr ([B, 2 * s * (2 * s), 2 * (2 * e)], [B, 2 * (2 * (2 * e)), s, s])"
    using pos e by (intro up_stage_0) simp_all
  have u1: "up_stage m 1 (Up_BasicLayer (fitted_layer_up (2 * (2 * e)) (2 * s, 2 * s) d2 h2 ws mlp))
              [B, 2 * s * (2 * s), 2 * (2 * e)] x_downsample (2 * s) (2 * s)
            = Inr ([B, 2 * (2 * s) * (2 * (2 * s)), 2 * e], [B, 2 * (2 * e), 2 * s, 2 * s])"
    using g2 pos(1) _ _ sk1 c1 by (rule up_stage_later) (use pos in simp_all)
  have u2: "up_stage m 2
              (Up_BasicLayer (fitted_layer_up (2 * e) (2 * (2 * s), 2 * (2 * s)) d1 h1 ws mlp))
              [B, 2 * (2 * s) * (2 * (2 * s)), 2 * e] x_downsample (2 * (2 * s)) (2 * (2 * s))
            = Inr ([B, 2 * (2 * (2 * s)) * (2 * (2 * (2 * s))), e],
                   [B, 2 * e, 2 * (2 * s), 2 * (2 * s)])"
    using g1 pos(1) _ _ sk2 c2 by (rule up_stage_later) (use pos in simp_all)
  show ?thesis
    unfolding forward_up_features_def en run_layers_up.simps u0 and_then_Inr prod.case q u1 u2
      append.simps option.case
    by (rule refl)
qed

lemma upt_4: "[0..<4] = [0, 1, 2, 3]" "[0..<4 - 1] = [0, 1, 2]"
  by (simp_all add: upt_rec)

lemma layers_fit_kernel3: "layers_fit dim' nh ws k mlp \<Longrightarrow> layers_fit dim' nh ws 3 mlp"
  by (simp add: layers_fit_def)

lemma MixUnet_init_4stage:
  fixes a :: "'f::zero MixUnet_args"
  assumes a: "arg_img_size a = (32 * s, 32 * t)" "arg_patch_size a = 4"
      "arg_embed_dim a = EInt e" "arg_depths a = [d0, d1, d2, d3]"
      "arg_num_heads a = [h0, h1, h2, h3]" "arg_window_size a = ws"
      "arg_dwconv_kernel_size a = k" "arg_mlp_ratio a = mlp"
    and f0: "layers_fit e h0 ws k mlp" and f1: "layers_fit (2 * e) h1 ws k mlp"
    and f2: "layers_fit (4 * e) h2 ws k mlp" and f3: "layers_fit (8 * e) h3 ws k mlp"
  shows "MixUnet_init a =
     Inr \<lparr>mu_num_layers = 4, mu_embed_dim = [e, 2 * e, 4 * e, 8 * e],
          mu_out_indices = arg_out_indices a, mu_ape = arg_ape a,
          mu_absolute_pos_embed = [1, 8 * s * (8 * t), e],
          mu_patch_embed =
            \<lparr>ce_patch_size = (4, 4), ce_patches_resolution = (8 * s, 8 * t),
              ce_num_patches = 8 * s * (8 * t), ce_in_chans = arg_in_chans a,
              ce_embed_dim = e, ce_norm = arg_patch_norm a\<rparr>,
          mu_layers =
            [fitted_layer e d0 h0 ws k mlp (Some (ConvMerging_init e (2 * e))),
             fitted_layer (2 * e) d1 h1 ws k mlp (Some (ConvMerging_init (2 * e) (4 * e))),
             fitted_layer (4 * e) d2 h2 ws k mlp (Some (ConvMerging_init (4 * e) (8 * e))),
             fitted_layer (8 * e) d3 h3 ws k mlp None],
          mu_layers_up =
            [Up_PatchExpand \<lparr>pe_input_resolution = (s, t), pe_dim = 8 * e, pe_dim_scale = 2\<rparr>,
             Up_BasicLayer (fitted_layer_up (4 * e) (2 * s, 2 * t) d2 h2 ws mlp),
             Up_BasicLayer (fitted_layer_up (2 * e) (4 * s, 4 * t) d1 h1 ws mlp)],
          mu_concat_back_dim = [None, Some (8 * e, 4 * e), Some (4 * e, 2 * e)],
          mu_num_feature = 8 * e, mu_num_channel = [e, 2 * e, 4 * e, 8 * e]\<rparr>"
proof -
  let ?emb = "[e, 2 * e, 4 * e, 8 * e]"
  have emb: "map (\<lambda>i_layer. e * 2 ^ i_layer) [0..<4] = ?emb"
    by (simp add: upt_4)
  have ce: "ConvEmbed_init (32 * s, 32 * t) 4 (arg_in_chans a) e (arg_patch_norm a) =
              Inr \<lparr>ce_patch_size = (4, 4), ce_patches_resolution = (8 * s, 8 * t),
                   ce_num_patches = 8 * s * (8 * t), ce_in_chans = arg_in_chans a,
                   ce_embed_dim = e, ce_norm = arg_patch_norm a\<rparr>"
    by (simp add: ConvEmbed_init_def to_2tuple_def floordiv_def)
  have b0: "build_layer a ?emb 4 0 =
              Inr (fitted_layer e d0 h0 ws k mlp (Some (ConvMerging_init e (2 * e))))"
    by (simp add: build_layer_def py_index_def a BasicLayer_init_ok[OF f0] fitted_layer_def)
  have b1: "build_layer a ?emb 4 1 =
              Inr (fitted_layer (2 * e) d1 h1 ws k mlp (Some (ConvMerging_init (2 * e) (4 * e))))"
    by (simp add: build_layer_def py_index_def a BasicLayer_init_ok[OF f1] fitted_layer_def)
  have b2: "build_layer a ?emb 4 2 =
              Inr (fitted_layer (4 * e) d2 h2 ws k mlp (Some (ConvMerging_init (4 * e) (8 * e))))"
    by (simp add: build_layer_def py_index_def a BasicLayer_init_ok[OF f2] fitted_layer_def)
  have b3: "build_layer a ?emb 4 3 = Inr (fitted_layer (8 * e) d3 h3 ws k mlp None)"
    by (simp add: build_layer_def py_index_def a BasicLayer_init_ok[OF f3] fitted_layer_def)
  have cm: "e * 2 = 2 * e" "e * 4 = 4 * e" "e * 8 = 8 * e" by simp_all
  have u0: "build_layer_up a e (8 * s, 8 * t) 4 0 =
              Inr (Up_PatchExpand \<lparr>pe_input_resolution = (s, t), pe_dim = 8 * e,
                                    pe_dim_scale = 2\<rparr>, None)"
    by (simp add: build_layer_up_def PatchExpand_init_def floordiv_def Let_def cm)
  have u1: "build_layer_up a e (8 * s, 8 * t) 4 1 =
              Inr (Up_BasicLayer (fitted_layer_up (4 * e) (2 * s, 2 * t) d2 h2 ws mlp),
                   Some (8 * e, 4 * e))"
    by (simp add: build_layer_up_def py_index_def a Let_def fitted_layer_up_def cm
        BasicLayer_up_init_ok[OF layers_fit_kernel3[OF f2]])
  have u2: "build_layer_up a e (8 * s, 8 * t) 4 2 =
              Inr (Up_BasicLayer (fitted_layer_up (2 * e) (4 * s, 4 * t) d1 h1 ws mlp),
                   Some (4 * e, 2 * e))"
    by (simp add: build_layer_up_def py_index_def a Let_def fitted_layer_up_def cm
        BasicLayer_up_init_ok[OF layers_fit_kernel3[OF f1]])
  have n: "length (arg_depths a) = 4" by (simp add: a)
  have l: "(length ?emb \<noteq> 4) = False" by simp
  have p1: "py_index ?emb (- 1) = Inr (8 * e)" by (simp add: py_index_def)
  have p2: "py_index ?emb 0 = Inr e" by (simp add: py_index_def)
  have sq1: "sequence (map (build_layer a ?emb 4) [0..<4]) =
               Inr [fitted_layer e d0 h0 ws k mlp (Some (ConvMerging_init e (2 * e))),
                    fitted_layer (2 * e) d1 h1 ws k mlp (Some (ConvMerging_init (2 * e) (4 * e))),
                    fitted_layer (4 * e) d2 h2 ws k mlp (Some (ConvMerging_init (4 * e) (8 * e))),
                    fitted_layer (8 * e) d3 h3 ws k mlp None]"
    unfolding upt_4 list.map sequence.simps b0 b1 b2 b3 and_then_Inr by (rule refl)
  have sq2: "sequence (map (build_layer_up a e (8 * s, 8 * t) 4) [0..<4 - 1]) =
               Inr [(Up_PatchExpand \<lparr>pe_input_resolution = (s, t), pe_dim = 8 * e,
                                      pe_dim_scale = 2\<rparr>, None),
                    (Up_BasicLayer (fitted_layer_up (4 * e) (2 * s, 2 * t) d2 h2 ws mlp),
                     Some (8 * e, 4 * e)),
                    (Up_BasicLayer (fitted_layer_up (2 * e) (4 * s, 4 * t) d1 h1 ws mlp),
                     Some (4 * e, 2 * e))]"
    unfolding upt_4 list.map sequence.simps u0 u1 u2 and_then_Inr by (rule refl)
  show ?thesis
    unfolding MixUnet_init_def Let_def n a(1,2,3) embed_dim_arg.case emb l if_False p1 p2
      and_then_Inr ce sq1 ConvEmbed.simps sq2
    by simp
qed

lemma MixUnet_4stage_run:
  fixes a :: "'f::zero MixUnet_args"
  assumes a: "arg_img_size a = (32 * s, 32 * s)" "arg_patch_size a = 4"
      "arg_embed_dim a = EInt e" "arg_depths a = [d0, d1, d2, d3]"
      "arg_num_heads a = [h0, h1, h2, h3]" "arg_window_size a = ws"
      "arg_dwconv_kernel_size a = k" "arg_mlp_ratio a = mlp"
    and flags: "arg_patch_norm a" "\<not> arg_ape a"
    and f0: "layers_fit e h0 ws k mlp" and f1: "layers_fit (2 * e) h1 ws k mlp"
    and f2: "layers_fit (4 * e) h2 ws k mlp" and f3: "layers_fit (8 * e) h3 ws k mlp"
    and pos: "0 < B" "0 < arg_in_chans a" "0 < s"
    and m: "MixUnet_init a = Inr m"
    and skips: "skips = [[B, 8 * s * (8 * s), e], [B, 4 * s * (4 * s), 2 * e],
                         [B, 2 * s * (2 * s), 4 * e], [B, s * s, 8 * e]]"
  shows "forward_features m [B, arg_in_chans a, 32 * s, 32 * s] = Inr ([B, s * s, 8 * e], skips, s, s)"
    and "forward_up_features m [B, s * s, 8 * e] skips s s =
           Inr ([B, 2 * e, 4 * s, 4 * s],
                [[B, 8 * e, s, s], [B, 4 * e, 2 * s, 2 * s], [B, 2 * e, 4 * s, 4 * s]])"
    and "MixUnet_forward m [B, arg_in_chans a, 32 * s, 32 * s] =
           Inr [[B, 2 * e, 4 * s, 4 * s], [B, 4 * e, 2 * s, 2 * s], [B, 8 * e, s, s]]"
proof -
  note i = MixUnet_init_4stage[OF a f0 f1 f2 f3]
  have mm: "m = \<lparr>mu_num_layers = 4, mu_embed_dim = [e, 2 * e, 4 * e, 8 * e],
          mu_out_indices = arg_out_indices a, mu_ape = arg_ape a,
          mu_absolute_pos_embed = [1, 8 * s * (8 * s), e],
          mu_patch_embed =
            \<lparr>ce_patch_size = (4, 4), ce_patches_resolution = (8 * s, 8 * s),
              ce_num_patches = 8 * s * (8 * s), ce_in_chans = arg_in_chans a,
              ce_embed_dim = e, ce_norm = arg_patch_norm a\<rparr>,
          mu_layers =
            [fitted_layer e d0 h0 ws k mlp (Some (ConvMerging_init e (2 * e))),
             fitted_layer (2 * e) d1 h1 ws k mlp (Some (ConvMerging_init (2 * e) (4 * e))),
             fitted_layer (4 * e) d2 h2 ws k mlp (Some (ConvMerging_init (4 * e) (8 * e))),
             fitted_layer (8 * e) d3 h3 ws k mlp None],
          mu_layers_up =
            [Up_PatchExpand \<lparr>pe_input_resolution = (s, s), pe_dim = 8 * e, pe_dim_scale = 2\<rparr>,
             Up_BasicLayer (fitted_layer_up (4 * e) (2 * s, 2 * s) d2 h2 ws mlp),
             Up_BasicLayer (fitted_layer_up (2 * e) (4 * s, 4 * s) d1 h1 ws mlp)],
          mu_concat_back_dim = [None, Some (8 * e, 4 * e), Some (4 * e, 2 * e)],
          mu_num_feature = 8 * e, mu_num_channel = [e, 2 * e, 4 * e, 8 * e]\<rparr>"
    using m unfolding i by simp
  have pe: "mu_patch_embed m =
              \<lparr>ce_patch_size = (4, 4), ce_patches_resolution = (8 * s, 8 * s),
                ce_num_patches = 8 * s * (8 * s), ce_in_chans = arg_in_chans a,
                ce_embed_dim = e, ce_norm = True\<rparr>"
    unfolding mm using flags(1) by simp
  have ly: "mu_layers m =
            [fitted_layer e d0 h0 ws k mlp (Some (ConvMerging_init e (2 * e))),
             fitted_layer (2 * e) d1 h1 ws k mlp (Some (ConvMerging_init (2 * e) (4 * e))),
             fitted_layer (4 * e) d2 h2 ws k mlp (Some (ConvMerging_init (4 * e) (8 * e))),
             fitted_layer (8 * e) d3 h3 ws k mlp None]"
    unfolding mm by simp
  have nf: "mu_num_feature m = 8 * e" unfolding mm by simp
  have ap: "\<not> mu_ape m" unfolding mm using flags(2) by simp
  show ff: "forward_features m [B, arg_in_chans a, 32 * s, 32 * s]
              = Inr ([B, s * s, 8 * e], skips, s, s)"
    unfolding skips
    using pe ly nf ap f0 f1 f2 f3 pos(1,2,3,3) by (rule forward_features_4stage)
  have ups: "mu_layers_up m =
           [Up_PatchExpand \<lparr>pe_input_resolution = (s, s), pe_dim = 2 * (2 * (2 * e)),
                             pe_dim_scale = 2\<rparr>,
            Up_BasicLayer (fitted_layer_up (2 * (2 * e)) (2 * s, 2 * s) d2 h2 ws mlp),
            Up_BasicLayer (fitted_layer_up (2 * e) (2 * (2 * s), 2 * (2 * s)) d1 h1 ws mlp)]"
    unfolding mm by simp
  have cb: "mu_concat_back_dim m =
           [None, Some (2 * (2 * (2 * e)), 2 * (2 * e)), Some (2 * (2 * e), 2 * e)]"
    unfolding mm by simp
  have g2: "layers_fit (2 * (2 * e)) h2 ws 3 mlp"
    using layers_fit_kernel3[OF f2] by simp
  have g1: "layers_fit (2 * e) h1 ws 3 mlp" using f1 by (rule layers_fit_kernel3)
  have sk1: "skip_tensor skips 1 = Inr [B, 2 * s * (2 * s), 2 * (2 * e)]"
    unfolding skips by (simp add: skip_tensor_def py_index_def)
  have sk2: "skip_tensor skips 2 = Inr [B, 2 * (2 * s) * (2 * (2 * s)), 2 * e]"
    unfolding skips by (simp add: skip_tensor_def py_index_def)
  from forward_up_features_4stage[OF ups cb g2 g1 pos(1,3) sk1 sk2]
  show fu: "forward_up_features m [B, s * s, 8 * e] skips s s =
           Inr ([B, 2 * e, 4 * s, 4 * s],
                [[B, 8 * e, s, s], [B, 4 * e, 2 * s, 2 * s], [B, 2 * e, 4 * s, 4 * s]])"
    by simp
  have nl: "mu_num_layers m = 4" unfolding mm by simp
  have rv: "rev [0..<4 - 1] = [2, 1, 0]" unfolding upt_4 by simp
  show "MixUnet_forward m [B, arg_in_chans a, 32 * s, 32 * s] =
           Inr [[B, 2 * e, 4 * s, 4 * s], [B, 4 * e, 2 * s, 2 * s], [B, 8 * e, s, s]]"
    unfolding MixUnet_forward_def ff and_then_Inr prod.case fu nl rv
    by (simp add: py_index_def)
qed

section \<open>The 224 by 224 configuration end to end\<close>

lemma mixunet_224_fits:
  "layers_fit 24 3 7 3 4" "layers_fit (2 * 24) 6 7 3 4" "layers_fit (4 * 24) 12 7 3 4"
  "layers_fit (8 * 24) 24 7 3 4"
  by (simp_all add: layers_fit_def)

lemma mixunet_224_args:
  "arg_img_size (mixunet_224 oi) = (32 * 7, 32 * 7)" "arg_patch_size (mixunet_224 oi) = 4"
  "arg_embed_dim (mixunet_224 oi) = EInt 24" "arg_depths (mixunet_224 oi) = [2, 2, 6, 2]"
  "arg_num_heads (mixunet_224 oi) = [3, 6, 12, 24]" "arg_window_size (mixunet_224 oi) = 7"
  "arg_dwconv_kernel_size (mixunet_224 oi) = 3" "arg_mlp_ratio (mixunet_224 oi) = 4"
  by (simp_all add: mixunet_224_def)

lemma mixunet_224_init:
  "\<exists>m. MixUnet_init (mixunet_224 oi) = Inr m \<and> mu_num_channel m = [24, 48, 96, 192]
       \<and> mu_out_indices m = oi"
  unfolding MixUnet_init_4stage[OF mixunet_224_args mixunet_224_fits]
  by (simp add: mixunet_224_def)

lemma mixunet_224_forward:
  assumes "MixUnet_init (mixunet_224 oi) = Inr m"
  shows "MixUnet_forward m [1, 3, 224, 224] = Inr [[1, 48, 28, 28], [1, 96, 14, 14], [1, 192, 7, 7]]"
proof -
  have f: "arg_patch_norm (mixunet_224 oi)" "\<not> arg_ape (mixunet_224 oi)"
    "0 < arg_in_chans (mixunet_224 oi)"
    by (simp_all add: mixunet_224_def)
  have c: "arg_in_chans (mixunet_224 oi) = 3" by (simp add: mixunet_224_def)
  from MixUnet_4stage_run(3)[OF mixunet_224_args f(1,2) mixunet_224_fits _ f(3) _ assms refl,
      of 1]
  show ?thesis unfolding c by simp
qed


lemma mixunet_224_out_shape:
  assumes "MixUnet_init (mixunet_224 [0, 1, 2, 3]) = Inr m"
  shows "out_shape m = Inr [\<lparr>channels = 24, stride = 4\<rparr>, \<lparr>channels = 48, stride = 8\<rparr>,
                            \<lparr>channels = 96, stride = 16\<rparr>, \<lparr>channels = 192, stride = 32\<rparr>]"
proof -
  from mixunet_224_init[of "[0, 1, 2, 3]"] assms
  have "mu_num_channel m = [24, 48, 96, 192]" "mu_out_indices m = [0, 1, 2, 3]" by auto
  then show ?thesis by (simp add: out_shape_def py_index_def)
qed

lemma mixunet_224_out_shape_default:
  assumes "MixUnet_init (mixunet_224 [1, 2, 3]) = Inr m"
  shows "out_shape m = Inr [\<lparr>channels = 48, stride = 8\<rparr>, \<lparr>channels = 96, stride = 16\<rparr>,
                            \<lparr>channels = 192, stride = 32\<rparr>]"
proof -
  from mixunet_224_init[of "[1, 2, 3]"] assms
  have "mu_num_channel m = [24, 48, 96, 192]" "mu_out_indices m = [1, 2, 3]" by auto
  then show ?thesis by (simp add: out_shape_def py_index_def)
qed

text \<open>
  Claim C2, at an input where the code and the claim part.  The network is built for
  224 by 224 images with depths 2, 2, 6, 2, embedding width 24 and the requested output
  indices \<open>(0, 1, 2, 3)\<close>, and run on a \<open>(1, 3, 224, 224)\<close> image.  \<open>forward\<close> returns the
  feature maps of the three decoder stages, with 48, 96 and 192 channels at 28, 14 and 7
  positions a side (strides 8, 16 and 32): three maps for four requested indices, and
  none with the 24 channels of index 0.  \<open>out_shape\<close>, which does read the requested
  indices, announces four maps of 24, 48, 96 and 192 channels at strides 4, 8, 16, 32.
\<close>

theorem forward_ignores_out_indices:
  "and_then (MixUnet_init (mixunet_224 [0, 1, 2, 3])) (\<lambda>m. MixUnet_forward m [1, 3, 224, 224])
     = Inr [[1, 48, 28, 28], [1, 96, 14, 14], [1, 192, 7, 7]]
   \<and> and_then (MixUnet_init (mixunet_224 [0, 1, 2, 3])) out_shape
     = Inr [\<lparr>channels = 24, stride = 4\<rparr>, \<lparr>channels = 48, stride = 8\<rparr>,
            \<lparr>channels = 96, stride = 16\<rparr>, \<lparr>channels = 192, stride = 32\<rparr>]"
proof -
  from mixunet_224_init[of "[0, 1, 2, 3]"]
  obtain m where m: "MixUnet_init (mixunet_224 [0, 1, 2, 3]) = Inr m" by blast
  show ?thesis
    unfolding m and_then_Inr
    using mixunet_224_forward[OF m] mixunet_224_out_shape[OF m] by (rule conjI)
qed

text \<open>
  With the default indices \<open>(1, 2, 3)\<close> the two agree: lemma \<open>mixunet_224_forward\<close> gives
  the same three maps for every list of indices, and \<open>mixunet_224_out_shape_default\<close> the
  three matching channel counts and strides.
\<close>

section \<open>An image that is not square\<close>













section \<open>Skip connections\<close>






section \<open>The functions on shapes are the shapes of the functions on tensors\<close>

text \<open>
  Whenever a windowing function or the rearrangement of \<open>PatchExpand\<close> returns a tensor,
  its counterpart on shapes returns the shape of that tensor.
\<close>

lemma tensor_reshape_lift:
  "tensor_reshape x tgt = and_then (infer_shape (shape x) tgt) (\<lambda>s. Inr (x\<lparr>shape := s\<rparr>))"
  by (simp add: tensor_reshape_def)

lemma tensor_transpose_shape:
  "tensor_transpose x perm = Inr y \<Longrightarrow> transpose_shape (shape x) perm = Inr (shape y)"
  by (auto simp: tensor_transpose_def and_then_def split: sum.splits)

lemma window_partition2_shape_of:
  assumes "window_partition2 x window_size = Inr y"
  shows "window_partition2_shape (shape x) window_size = Inr (shape y)"
  using assms
  unfolding window_partition2_def window_partition2_shape_def
  by (auto simp: and_then_def split: list.splits sum.splits
      dest!: tensor_reshape_shape tensor_transpose_shape)

lemma window_reverse2_shape_of:
  assumes "window_reverse2 windows window_size H W C = Inr y"
  shows "window_reverse2_shape (shape windows) window_size H W C = Inr (shape y)"
  using assms
  unfolding window_reverse2_def window_reverse2_shape_def
  by (auto simp: and_then_def split: list.splits sum.splits
      dest!: tensor_reshape_shape tensor_transpose_shape)

lemma PatchExpand_rearrange_shape_of:
  assumes "PatchExpand_rearrange input_resolution x = Inr y"
  shows "PatchExpand_rearrange_shape input_resolution (shape x) = Inr (shape y)"
  using assms
  unfolding PatchExpand_rearrange_def PatchExpand_rearrange_shape_def
  by (auto simp: and_then_def split: prod.splits list.splits sum.splits if_splits
      dest!: tensor_reshape_shape)


lemma Linear_values_shape:
  "Linear_values i out w x = Inr y \<Longrightarrow> Linear i out (shape x) = Inr (shape y)"
  by (auto simp: Linear_values_def and_then_def split: if_splits sum.splits)

lemma LayerNorm_values_shape:
  "LayerNorm_values n w b eps x = Inr y \<Longrightarrow> LayerNorm n (shape x) = Inr (shape y)"
  by (auto simp: LayerNorm_values_def and_then_def split: if_splits sum.splits)

lemma PatchExpand_forward_values_shape:
  assumes "PatchExpand_forward_values pe p x = Inr y"
  shows "PatchExpand_forward pe (shape x) = Inr (shape y)"
proof -
  from assms obtain x1 where
    1: "(if pe_dim_scale pe = 2
         then Linear_values (pe_dim pe) (2 * pe_dim pe) (expand_weight p) x else Inr x) = Inr x1"
    unfolding PatchExpand_forward_values_def
    by (cases "if pe_dim_scale pe = 2
         then Linear_values (pe_dim pe) (2 * pe_dim pe) (expand_weight p) x else Inr x") auto
  from assms obtain x2 where 2: "PatchExpand_rearrange (pe_input_resolution pe) x1 = Inr x2"
    unfolding PatchExpand_forward_values_def 1 and_then_Inr
    by (cases "PatchExpand_rearrange (pe_input_resolution pe) x1") auto
  from assms have 3: "LayerNorm_values (pe_dim pe div pe_dim_scale pe) (norm_weight p)
                        (norm_bias p) (1 / 100000) x2 = Inr y"
    unfolding PatchExpand_forward_values_def 1 2 and_then_Inr .
  have e: "expand pe (shape x) = Inr (shape x1)"
    using 1 by (auto simp: expand_def elementwise_def split: if_splits dest: Linear_values_shape)
  show ?thesis
    unfolding PatchExpand_forward_def e and_then_Inr PatchExpand_rearrange_shape_of[OF 2]
    using 3 by (rule LayerNorm_values_shape)
qed

end
